theory Spec2Isabelle
  imports Main "HOL-Library.Word"
begin

unbundle bit_operations_syntax

section \<open>Machine types\<close>

type_synonym u8 = "8 word"
type_synonym u16 = "16 word"
type_synonym u32 = "32 word"

text \<open>
  The model follows the run of the emulator with its debugging options (log_exceptions,
  crash_on_page_fault, trapint, memdebug) switched off and with no memory provider
  registered: devices, the debugger console and logging are outside the CPU core.
  Host integers are those of a 64-bit little-endian host.
\<close>

datatype MemoryAccessType = Read | Write | Execute | InternalPointer

datatype CPUState = Dead | Alive | Halted

datatype JumpType = Internal | IRET | RETF | INT | CALL | JMP

datatype SegmentRegisterIndex = ES | CS | SS | DS | FS | GS

datatype RegisterIndex32 =
  RegisterEAX | RegisterECX | RegisterEDX | RegisterEBX |
  RegisterESP | RegisterEBP | RegisterESI | RegisterEDI

datatype ValueSize = ByteSize | WordSize | DWordSize

text \<open>
  An exception of the emulated CPU as the source throws it: vector, error code, the
  faulting linear address of a page fault, and the message. A failed ASSERT or
  ASSERT_NOT_REACHED of the source is a fault of its own.
\<close>

datatype fault =
  Exception u8 u16 "u32 option" string
| AssertionFailed string

definition GeneralProtectionFault :: "u16 \<Rightarrow> string \<Rightarrow> fault" where
  "GeneralProtectionFault code reason = Exception 0xd code None reason"

definition StackFault :: "u16 \<Rightarrow> string \<Rightarrow> fault" where
  "StackFault code reason = Exception 0xc code None reason"

definition NotPresent :: "u16 \<Rightarrow> string \<Rightarrow> fault" where
  "NotPresent code reason = Exception 0xb code None reason"

definition InvalidTSS :: "u16 \<Rightarrow> string \<Rightarrow> fault" where
  "InvalidTSS code reason = Exception 0xa code None reason"

definition InvalidOpcode :: "string \<Rightarrow> fault" where
  "InvalidOpcode reason = Exception 0x6 0 None reason"

section \<open>Descriptors\<close>

datatype DescriptorKind =
  CodeSegment | DataSegment | CallGate | TaskGate | InterruptGate | TrapGate
| TSSDescriptor | OtherSystem

text \<open>
  One flat record stands for the descriptor classes of the source (their header is not
  part of the sources at hand): the common header, the code/data type bits, the gate
  fields, and the two members the CPU itself writes, \<open>m_rpl\<close> and \<open>m_loaded_in_ss\<close>.
\<close>

record Descriptor =
  is_null :: bool
  is_outside_table_limits :: bool
  kind :: DescriptorKind
  base :: u32
  effectiveLimit :: u32
  dpl :: u8
  present :: bool
  is_32bit :: bool
  conforming :: bool
  readable :: bool
  writable :: bool
  gate_selector :: u16
  gate_offset :: u32
  parameter_count :: u8
  m_rpl :: u8
  m_loaded_in_ss :: bool

definition is_code :: "Descriptor \<Rightarrow> bool" where
  "is_code d = (kind d = CodeSegment)"

definition is_data :: "Descriptor \<Rightarrow> bool" where
  "is_data d = (kind d = DataSegment)"

definition is_call_gate :: "Descriptor \<Rightarrow> bool" where
  "is_call_gate d = (kind d = CallGate)"

definition is_task_gate :: "Descriptor \<Rightarrow> bool" where
  "is_task_gate d = (kind d = TaskGate)"

definition is_tss :: "Descriptor \<Rightarrow> bool" where
  "is_tss d = (kind d = TSSDescriptor)"

definition is_gate :: "Descriptor \<Rightarrow> bool" where
  "is_gate d = (kind d \<in> {CallGate, TaskGate, InterruptGate, TrapGate})"

definition is_nonconforming_code :: "Descriptor \<Rightarrow> bool" where
  "is_nonconforming_code d = (is_code d \<and> \<not> conforming d)"

definition linear_address :: "Descriptor \<Rightarrow> u32 \<Rightarrow> u32" where
  "linear_address d off = base d + off"

section \<open>The CPU\<close>

record CPU =
  m_gpr :: "RegisterIndex32 \<Rightarrow> u32"
  m_eip :: u32
  m_cr0 :: u32
  m_cr2 :: u32
  m_cr3 :: u32
  m_cr4 :: u32
  m_dr :: "nat \<Rightarrow> u32"
  m_cf :: bool
  m_pf :: bool
  m_af :: bool
  m_zf :: bool
  m_sf :: bool
  m_tf :: bool
  m_if :: bool
  m_df :: bool
  m_of :: bool
  m_iopl :: u8
  m_nt :: bool
  m_rf :: bool
  m_vm :: bool
  m_ac :: bool
  m_vif :: bool
  m_vip :: bool
  m_id :: bool
  m_dirty_flags :: u32
  m_last_result :: u32
  m_last_op_size :: ValueSize
  m_segment :: "SegmentRegisterIndex \<Rightarrow> u16"
  m_descriptor :: "SegmentRegisterIndex \<Rightarrow> Descriptor"
  m_segment_prefix :: "SegmentRegisterIndex option"
  m_gdtr :: "u32 \<times> u16"
  m_idtr :: "u32 \<times> u16"
  m_ldtr :: "u16 \<times> u32 \<times> u16"
  m_tr :: "u16 \<times> u32 \<times> u16 \<times> bool"
  m_a20_enabled :: bool
  m_next_instruction_is_uninterruptible :: bool
  m_state :: CPUState
  m_address_size32 :: bool
  m_operand_size32 :: bool
  m_effective_address_size32 :: bool
  m_effective_operand_size32 :: bool
  m_stackSize32 :: bool
  m_cycle :: nat
  m_should_hard_reboot :: bool
  m_is_for_autotest :: bool
  entry_cs :: u16
  entry_ip :: u16
  m_memory :: "u32 \<Rightarrow> u8"
  m_memory_size :: u32

type_synonym 'a result = "(fault \<times> CPU) + ('a \<times> CPU)"

definition bind :: "'a result \<Rightarrow> ('a \<Rightarrow> CPU \<Rightarrow> 'b result) \<Rightarrow> 'b result" where
  "bind r f = (case r of Inl e \<Rightarrow> Inl e | Inr (v, s) \<Rightarrow> f v s)"

subsection \<open>Control register bits and privilege\<close>

definition get_pe :: "CPU \<Rightarrow> bool" where
  "get_pe s = (m_cr0 s AND 0x00000001 \<noteq> 0)"

definition get_pg :: "CPU \<Rightarrow> bool" where
  "get_pg s = (m_cr0 s AND 0x80000000 \<noteq> 0)"

definition CR0_WP :: u32 where
  "CR0_WP = 0x00010000"

definition get_vm :: "CPU \<Rightarrow> bool" where
  "get_vm s = m_vm s"

definition get_cpl :: "CPU \<Rightarrow> u8" where
  "get_cpl s = m_rpl (m_descriptor s CS)"

definition cached_descriptor :: "CPU \<Rightarrow> SegmentRegisterIndex \<Rightarrow> Descriptor" where
  "cached_descriptor s segreg = m_descriptor s segreg"

definition set_cpl :: "u8 \<Rightarrow> CPU \<Rightarrow> CPU" where
  "set_cpl cpl s =
     (let s1 = (if get_pe s \<and> \<not> get_vm s
                then s\<lparr>m_segment := (m_segment s)(CS := (m_segment s CS AND NOT 3) OR ucast cpl)\<rparr>
                else s)
      in s1\<lparr>m_descriptor := (m_descriptor s1)(CS := (m_descriptor s1 CS)\<lparr>m_rpl := cpl\<rparr>)\<rparr>)"

section \<open>Physical memory\<close>

definition weld16 :: "u8 \<Rightarrow> u8 \<Rightarrow> u16" where
  "weld16 high low = push_bit 8 (ucast high) OR ucast low"

definition weld32 :: "u16 \<Rightarrow> u16 \<Rightarrow> u32" where
  "weld32 high low = push_bit 16 (ucast high) OR ucast low"

definition validate_physical_address :: "CPU \<Rightarrow> u32 \<Rightarrow> bool" where
  "validate_physical_address s pa = (pa < m_memory_size s)"

definition read_physical_memory8 :: "CPU \<Rightarrow> u32 \<Rightarrow> u8" where
  "read_physical_memory8 s pa =
     (if \<not> validate_physical_address s pa then 0 else m_memory s pa)"

definition read_physical_memory16 :: "CPU \<Rightarrow> u32 \<Rightarrow> u16" where
  "read_physical_memory16 s pa =
     (if \<not> validate_physical_address s pa then 0
      else weld16 (m_memory s (pa + 1)) (m_memory s pa))"

definition read_physical_memory32 :: "CPU \<Rightarrow> u32 \<Rightarrow> u32" where
  "read_physical_memory32 s pa =
     (if \<not> validate_physical_address s pa then 0
      else weld32 (weld16 (m_memory s (pa + 3)) (m_memory s (pa + 2)))
                  (weld16 (m_memory s (pa + 1)) (m_memory s pa)))"

definition write_physical_memory8 :: "u32 \<Rightarrow> u8 \<Rightarrow> CPU \<Rightarrow> CPU" where
  "write_physical_memory8 pa v s =
     (if \<not> validate_physical_address s pa then s
      else s\<lparr>m_memory := (m_memory s)(pa := v)\<rparr>)"

definition write_physical_memory16 :: "u32 \<Rightarrow> u16 \<Rightarrow> CPU \<Rightarrow> CPU" where
  "write_physical_memory16 pa v s =
     (if \<not> validate_physical_address s pa then s
      else s\<lparr>m_memory := (m_memory s)(pa := ucast v, pa + 1 := ucast (drop_bit 8 v))\<rparr>)"

definition write_physical_memory32 :: "u32 \<Rightarrow> u32 \<Rightarrow> CPU \<Rightarrow> CPU" where
  "write_physical_memory32 pa v s =
     (if \<not> validate_physical_address s pa then s
      else s\<lparr>m_memory := (m_memory s)
              (pa := ucast v, pa + 1 := ucast (drop_bit 8 v),
               pa + 2 := ucast (drop_bit 16 v), pa + 3 := ucast (drop_bit 24 v))\<rparr>)"

definition a20_mask :: "CPU \<Rightarrow> u32" where
  "a20_mask s = (if m_a20_enabled s then 0xFFFFFFFF else 0xFFEFFFFF)"

section \<open>Paging\<close>

text \<open>
  The bits of a page-directory or page-table entry and of a page-fault error code
  (bit 0 P, bit 1 W, bit 2 U, bit 4 instruction fetch) are declared in a header that is
  not among the sources; they are the architectural values.
\<close>

definition PTE_Present :: u32 where "PTE_Present = 0x01"
definition PTE_ReadWrite :: u32 where "PTE_ReadWrite = 0x02"
definition PTE_UserSupervisor :: u32 where "PTE_UserSupervisor = 0x04"
definition PTE_Accessed :: u32 where "PTE_Accessed = 0x20"
definition PTE_Dirty :: u32 where "PTE_Dirty = 0x40"

definition PF_NotPresent :: u16 where "PF_NotPresent = 0x00"
definition PF_ProtectionViolation :: u16 where "PF_ProtectionViolation = 0x01"
definition PF_Read :: u16 where "PF_Read = 0x00"
definition PF_Write :: u16 where "PF_Write = 0x02"
definition PF_UserMode :: u16 where "PF_UserMode = 0x04"
definition PF_SupervisorMode :: u16 where "PF_SupervisorMode = 0x00"
definition PF_InstructionFetch :: u16 where "PF_InstructionFetch = 0x10"

definition makePFErrorCode :: "u16 \<Rightarrow> MemoryAccessType \<Rightarrow> bool \<Rightarrow> u16" where
  "makePFErrorCode flags accessType inUserMode =
     flags
     OR (if accessType = Write then PF_Write else PF_Read)
     OR (if inUserMode then PF_UserMode else PF_SupervisorMode)
     OR (if accessType = Execute then PF_InstructionFetch else 0)"

definition PageFault :: "CPU \<Rightarrow> u32 \<Rightarrow> u16 \<Rightarrow> MemoryAccessType \<Rightarrow> bool \<Rightarrow> fault \<times> CPU" where
  "PageFault s linearAddress flags accessType inUserMode =
     (let error = makePFErrorCode flags accessType inUserMode
      in (Exception 0xe error (Some linearAddress) ''Page fault'',
          s\<lparr>m_cr2 := linearAddress\<rparr>))"

definition pde_address :: "CPU \<Rightarrow> u32 \<Rightarrow> u32" where
  "pde_address s linearAddress = m_cr3 s + (drop_bit 22 linearAddress AND 0x3FF) * 4"

definition pte_address :: "u32 \<Rightarrow> u32 \<Rightarrow> u32" where
  "pte_address pageDirectoryEntry linearAddress =
     (pageDirectoryEntry AND 0xfffff000) + (drop_bit 12 linearAddress AND 0x3FF) * 4"

definition in_user_mode :: "CPU \<Rightarrow> u8 \<Rightarrow> bool" where
  "in_user_mode s effectiveCPL =
     (if effectiveCPL = 0xff then get_cpl s = 3 else effectiveCPL = 3)"

definition translate_address_slow_case ::
  "u32 \<Rightarrow> MemoryAccessType \<Rightarrow> u8 \<Rightarrow> CPU \<Rightarrow> u32 result" where
  "translate_address_slow_case linearAddress accessType effectiveCPL s =
     (if \<not> (m_cr3 s < m_memory_size s) then Inl (AssertionFailed ''get_cr3() < m_memory_size'', s)
      else if m_cr3 s AND 0x03ff \<noteq> 0 then Inl (AssertionFailed ''!(get_cr3() & 0x03ff)'', s)
      else
        let offset = linearAddress AND 0xFFF;
            pdeAddress = pde_address s linearAddress;
            pageDirectoryEntry = read_physical_memory32 s pdeAddress;
            pteAddress = pte_address pageDirectoryEntry linearAddress;
            pageTableEntry = read_physical_memory32 s pteAddress;
            inUserMode = in_user_mode s effectiveCPL
        in
        if pageDirectoryEntry AND PTE_Present = 0 then
          Inl (PageFault s linearAddress PF_NotPresent accessType inUserMode)
        else if pageTableEntry AND PTE_Present = 0 then
          Inl (PageFault s linearAddress PF_NotPresent accessType inUserMode)
        else if inUserMode \<and> pageDirectoryEntry AND PTE_UserSupervisor = 0 then
          Inl (PageFault s linearAddress PF_ProtectionViolation accessType inUserMode)
        else if inUserMode \<and> pageTableEntry AND PTE_UserSupervisor = 0 then
          Inl (PageFault s linearAddress PF_ProtectionViolation accessType inUserMode)
        else if (inUserMode \<or> m_cr0 s AND CR0_WP \<noteq> 0) \<and> accessType = Write
                \<and> pageDirectoryEntry AND PTE_ReadWrite = 0 then
          Inl (PageFault s linearAddress PF_ProtectionViolation accessType inUserMode)
        else if (inUserMode \<or> m_cr0 s AND CR0_WP \<noteq> 0) \<and> accessType = Write
                \<and> pageTableEntry AND PTE_ReadWrite = 0 then
          Inl (PageFault s linearAddress PF_ProtectionViolation accessType inUserMode)
        else
          let pageTableEntry1 = (if accessType = Write then pageTableEntry OR PTE_Dirty
                                 else pageTableEntry);
              pageDirectoryEntry2 = pageDirectoryEntry OR PTE_Accessed;
              pageTableEntry2 = pageTableEntry1 OR PTE_Accessed;
              s1 = write_physical_memory32 pdeAddress pageDirectoryEntry2 s;
              s2 = write_physical_memory32 pteAddress pageTableEntry2 s1
          in Inr ((pageTableEntry2 AND 0xfffff000) OR offset, s2))"

definition translate_address ::
  "u32 \<Rightarrow> MemoryAccessType \<Rightarrow> u8 \<Rightarrow> CPU \<Rightarrow> u32 result" where
  "translate_address linearAddress accessType effectiveCPL s =
     (if \<not> get_pe s \<or> \<not> get_pg s then Inr (linearAddress, s)
      else translate_address_slow_case linearAddress accessType effectiveCPL s)"

section \<open>Linear memory access\<close>

text \<open>
  \<open>read_memory<T>\<close> and \<open>write_memory<T>\<close> on a linear address, one definition per
  width. A 16- or 32-bit access that crosses a page boundary while CR0.PG is set is
  split into byte accesses, lowest address first.
\<close>

definition crosses_page :: "u32 \<Rightarrow> u32 \<Rightarrow> bool" where
  "crosses_page linearAddress n =
     (linearAddress AND 0xfffff000 \<noteq> (linearAddress + n) AND 0xfffff000)"

definition read_memory8 :: "u32 \<Rightarrow> MemoryAccessType \<Rightarrow> u8 \<Rightarrow> CPU \<Rightarrow> u8 result" where
  "read_memory8 linearAddress accessType effectiveCPL s =
     bind (translate_address linearAddress accessType effectiveCPL s)
       (\<lambda>physicalAddress s1.
          Inr (read_physical_memory8 s1 (physicalAddress AND a20_mask s1), s1))"

definition read_memory16 :: "u32 \<Rightarrow> MemoryAccessType \<Rightarrow> u8 \<Rightarrow> CPU \<Rightarrow> u16 result" where
  "read_memory16 linearAddress accessType effectiveCPL s =
     (if get_pg s \<and> crosses_page linearAddress 1 then
        bind (read_memory8 (linearAddress + 0) accessType effectiveCPL s) (\<lambda>b1 s1.
        bind (read_memory8 (linearAddress + 1) accessType effectiveCPL s1) (\<lambda>b2 s2.
        Inr (weld16 b2 b1, s2)))
      else
        bind (translate_address linearAddress accessType effectiveCPL s)
          (\<lambda>physicalAddress s1.
             Inr (read_physical_memory16 s1 (physicalAddress AND a20_mask s1), s1)))"

definition read_memory32 :: "u32 \<Rightarrow> MemoryAccessType \<Rightarrow> u8 \<Rightarrow> CPU \<Rightarrow> u32 result" where
  "read_memory32 linearAddress accessType effectiveCPL s =
     (if get_pg s \<and> crosses_page linearAddress 3 then
        bind (read_memory8 (linearAddress + 0) accessType effectiveCPL s) (\<lambda>b1 s1.
        bind (read_memory8 (linearAddress + 1) accessType effectiveCPL s1) (\<lambda>b2 s2.
        bind (read_memory8 (linearAddress + 2) accessType effectiveCPL s2) (\<lambda>b3 s3.
        bind (read_memory8 (linearAddress + 3) accessType effectiveCPL s3) (\<lambda>b4 s4.
        Inr (weld32 (weld16 b4 b3) (weld16 b2 b1), s4)))))
      else
        bind (translate_address linearAddress accessType effectiveCPL s)
          (\<lambda>physicalAddress s1.
             Inr (read_physical_memory32 s1 (physicalAddress AND a20_mask s1), s1)))"

definition write_memory8 :: "u32 \<Rightarrow> u8 \<Rightarrow> u8 \<Rightarrow> CPU \<Rightarrow> unit result" where
  "write_memory8 linearAddress v effectiveCPL s =
     bind (translate_address linearAddress Write effectiveCPL s)
       (\<lambda>physicalAddress s1.
          Inr ((), write_physical_memory8 (physicalAddress AND a20_mask s1) v s1))"

definition write_memory16 :: "u32 \<Rightarrow> u16 \<Rightarrow> u8 \<Rightarrow> CPU \<Rightarrow> unit result" where
  "write_memory16 linearAddress v effectiveCPL s =
     (if get_pg s \<and> crosses_page linearAddress 1 then
        bind (write_memory8 (linearAddress + 0) (ucast (v AND 0xff)) effectiveCPL s) (\<lambda>_ s1.
        write_memory8 (linearAddress + 1) (ucast (drop_bit 8 v AND 0xff)) effectiveCPL s1)
      else
        bind (translate_address linearAddress Write effectiveCPL s)
          (\<lambda>physicalAddress s1.
             Inr ((), write_physical_memory16 (physicalAddress AND a20_mask s1) v s1)))"

definition write_memory32 :: "u32 \<Rightarrow> u32 \<Rightarrow> u8 \<Rightarrow> CPU \<Rightarrow> unit result" where
  "write_memory32 linearAddress v effectiveCPL s =
     (if get_pg s \<and> crosses_page linearAddress 3 then
        bind (write_memory8 (linearAddress + 0) (ucast (v AND 0xff)) effectiveCPL s) (\<lambda>_ s1.
        bind (write_memory8 (linearAddress + 1) (ucast (drop_bit 8 v AND 0xff)) effectiveCPL s1) (\<lambda>_ s2.
        bind (write_memory8 (linearAddress + 2) (ucast (drop_bit 16 v AND 0xff)) effectiveCPL s2) (\<lambda>_ s3.
        write_memory8 (linearAddress + 3) (ucast (drop_bit 24 v AND 0xff)) effectiveCPL s3)))
      else
        bind (translate_address linearAddress Write effectiveCPL s)
          (\<lambda>physicalAddress s1.
             Inr ((), write_physical_memory32 (physicalAddress AND a20_mask s1) v s1)))"

section \<open>Segmented memory access\<close>

text \<open>
  \<open>validate_address<T>\<close>; the first argument is \<open>sizeof(T)\<close>. The sum
  \<open>offset + (sizeof(T) - 1)\<close> is computed in the host's 64-bit \<open>size_t\<close>, so it does
  not wrap.
\<close>

definition segment_fault :: "Descriptor \<Rightarrow> string \<Rightarrow> fault" where
  "segment_fault d reason =
     (if m_loaded_in_ss d then StackFault 0 reason else GeneralProtectionFault 0 reason)"

definition validate_address ::
  "nat \<Rightarrow> Descriptor \<Rightarrow> u32 \<Rightarrow> MemoryAccessType \<Rightarrow> CPU \<Rightarrow> fault option" where
  "validate_address size_of_T d off accessType s =
     (if \<not> get_vm s \<and> accessType \<noteq> Execute \<and> is_null d then
        Some (segment_fault d ''Access through null selector'')
      else if \<not> get_vm s \<and> accessType = Read \<and> is_code d \<and> \<not> readable d then
        Some (GeneralProtectionFault 0 ''Attempt to read from non-readable code segment'')
      else if \<not> get_vm s \<and> accessType = Write \<and> \<not> is_data d then
        Some (segment_fault d ''Attempt to write to non-data segment'')
      else if \<not> get_vm s \<and> accessType = Write \<and> \<not> writable d then
        Some (segment_fault d ''Attempt to write to non-writable data segment'')
      else if \<not> get_vm s \<and> accessType = Execute \<and> \<not> is_code d then
        Some (AssertionFailed ''descriptor.is_code()'')
      else if unat off + (size_of_T - 1) > unat (effectiveLimit d) then
        Some (segment_fault d ''Access outside segment limit'')
      else None)"

definition validated ::
  "nat \<Rightarrow> Descriptor \<Rightarrow> u32 \<Rightarrow> MemoryAccessType \<Rightarrow> CPU \<Rightarrow> (CPU \<Rightarrow> 'a result) \<Rightarrow> 'a result" where
  "validated size_of_T d off accessType s k =
     (if get_pe s \<and> \<not> get_vm s then
        (case validate_address size_of_T d off accessType s of
           Some e \<Rightarrow> Inl (e, s)
         | None \<Rightarrow> k s)
      else k s)"

definition seg_read_memory8 ::
  "SegmentRegisterIndex \<Rightarrow> u32 \<Rightarrow> MemoryAccessType \<Rightarrow> CPU \<Rightarrow> u8 result" where
  "seg_read_memory8 segreg off accessType s =
     (let d = cached_descriptor s segreg
      in validated 1 d off accessType s (read_memory8 (linear_address d off) accessType 0xff))"

definition seg_read_memory16 ::
  "SegmentRegisterIndex \<Rightarrow> u32 \<Rightarrow> MemoryAccessType \<Rightarrow> CPU \<Rightarrow> u16 result" where
  "seg_read_memory16 segreg off accessType s =
     (let d = cached_descriptor s segreg
      in validated 2 d off accessType s (read_memory16 (linear_address d off) accessType 0xff))"

definition seg_read_memory32 ::
  "SegmentRegisterIndex \<Rightarrow> u32 \<Rightarrow> MemoryAccessType \<Rightarrow> CPU \<Rightarrow> u32 result" where
  "seg_read_memory32 segreg off accessType s =
     (let d = cached_descriptor s segreg
      in validated 4 d off accessType s (read_memory32 (linear_address d off) accessType 0xff))"

definition seg_write_memory16 ::
  "SegmentRegisterIndex \<Rightarrow> u32 \<Rightarrow> u16 \<Rightarrow> CPU \<Rightarrow> unit result" where
  "seg_write_memory16 segreg off v s =
     (let d = cached_descriptor s segreg
      in validated 2 d off Write s (write_memory16 (linear_address d off) v 0xff))"

definition seg_write_memory32 ::
  "SegmentRegisterIndex \<Rightarrow> u32 \<Rightarrow> u32 \<Rightarrow> CPU \<Rightarrow> unit result" where
  "seg_write_memory32 segreg off v s =
     (let d = cached_descriptor s segreg
      in validated 4 d off Write s (write_memory32 (linear_address d off) v 0xff))"

section \<open>Registers and flags\<close>

definition get_esp :: "CPU \<Rightarrow> u32" where
  "get_esp s = m_gpr s RegisterESP"

definition set_esp :: "u32 \<Rightarrow> CPU \<Rightarrow> CPU" where
  "set_esp v s = s\<lparr>m_gpr := (m_gpr s)(RegisterESP := v)\<rparr>"

definition read_register16 :: "CPU \<Rightarrow> RegisterIndex32 \<Rightarrow> u16" where
  "read_register16 s r = ucast (m_gpr s r)"

definition write_register16 :: "RegisterIndex32 \<Rightarrow> u16 \<Rightarrow> CPU \<Rightarrow> CPU" where
  "write_register16 r v s =
     s\<lparr>m_gpr := (m_gpr s)(r := (m_gpr s r AND 0xffff0000) OR ucast v)\<rparr>"

definition get_sp :: "CPU \<Rightarrow> u16" where
  "get_sp s = read_register16 s RegisterESP"

definition set_sp :: "u16 \<Rightarrow> CPU \<Rightarrow> CPU" where
  "set_sp v s = write_register16 RegisterESP v s"

definition get_eip :: "CPU \<Rightarrow> u32" where
  "get_eip s = m_eip s"

definition get_ip :: "CPU \<Rightarrow> u16" where
  "get_ip s = ucast (m_eip s)"

definition set_eip :: "u32 \<Rightarrow> CPU \<Rightarrow> CPU" where
  "set_eip v s = s\<lparr>m_eip := v\<rparr>"

definition get_cs :: "CPU \<Rightarrow> u16" where
  "get_cs s = m_segment s CS"

definition get_ss :: "CPU \<Rightarrow> u16" where
  "get_ss s = m_segment s SS"

definition read_segment_register :: "CPU \<Rightarrow> SegmentRegisterIndex \<Rightarrow> u16" where
  "read_segment_register s segreg = m_segment s segreg"

definition get_if :: "CPU \<Rightarrow> bool" where
  "get_if s = m_if s"

definition set_if :: "bool \<Rightarrow> CPU \<Rightarrow> CPU" where
  "set_if b s = s\<lparr>m_if := b\<rparr>"

definition set_tf :: "bool \<Rightarrow> CPU \<Rightarrow> CPU" where
  "set_tf b s = s\<lparr>m_tf := b\<rparr>"

definition set_iopl :: "u8 \<Rightarrow> CPU \<Rightarrow> CPU" where
  "set_iopl v s = s\<lparr>m_iopl := v\<rparr>"

definition set_state :: "CPUState \<Rightarrow> CPU \<Rightarrow> CPU" where
  "set_state st s = s\<lparr>m_state := st\<rparr>"

text \<open>
  Modelled from the spec: \<open>get_flags\<close> and \<open>set_flags\<close> (their source file is not at
  hand). The 16-bit FLAGS image has CF, PF, AF, ZF, SF, TF, IF, DF, OF at bits 0, 2, 4,
  6, 7, 8, 9, 10, 11, IOPL at bits 12-13 and NT at bit 14; reserved bit 1 reads as 1 and
  bits 3, 5 and 15 as 0. The flags are read from their materialised fields.
\<close>

definition flag_bit :: "bool \<Rightarrow> nat \<Rightarrow> u16" where
  "flag_bit b n = (if b then push_bit n 1 else 0)"

definition get_flags :: "CPU \<Rightarrow> u16" where
  "get_flags s =
     flag_bit (m_cf s) 0 OR 0x0002 OR flag_bit (m_pf s) 2 OR flag_bit (m_af s) 4
     OR flag_bit (m_zf s) 6 OR flag_bit (m_sf s) 7 OR flag_bit (m_tf s) 8
     OR flag_bit (m_if s) 9 OR flag_bit (m_df s) 10 OR flag_bit (m_of s) 11
     OR push_bit 12 (ucast (m_iopl s) AND 3) OR flag_bit (m_nt s) 14"

definition set_flags :: "u16 \<Rightarrow> CPU \<Rightarrow> CPU" where
  "set_flags w s =
     s\<lparr>m_cf := bit w 0, m_pf := bit w 2, m_af := bit w 4, m_zf := bit w 6,
       m_sf := bit w 7, m_tf := bit w 8, m_if := bit w 9, m_df := bit w 10,
       m_of := bit w 11, m_iopl := ucast (drop_bit 12 w AND 3), m_nt := bit w 14\<rparr>"

section \<open>Segment register writes\<close>

text \<open>
  The parts of the emulator that the functions below call and whose sources are not at
  hand are parameters of the model: the descriptor-table lookup, the protected-mode
  selector load with its checks, the ring stack pointers of the current TSS, the task
  switch, and the interrupt controller's delivery of a pending IRQ.
\<close>

record externals =
  get_descriptor :: "CPU \<Rightarrow> u16 \<Rightarrow> Descriptor"
  protected_mode_segment_load :: "SegmentRegisterIndex \<Rightarrow> u16 \<Rightarrow> CPU \<Rightarrow> unit result"
  get_ring_ss :: "CPU \<Rightarrow> u8 \<Rightarrow> u16"
  get_ring_esp :: "CPU \<Rightarrow> u8 \<Rightarrow> u32"
  task_switch :: "u16 \<Rightarrow> Descriptor \<Rightarrow> JumpType \<Rightarrow> CPU \<Rightarrow> unit result"
  service_irq :: "CPU \<Rightarrow> unit result"

definition update_default_sizes :: "CPU \<Rightarrow> CPU" where
  "update_default_sizes s =
     s\<lparr>m_address_size32 := is_32bit (cached_descriptor s CS),
       m_operand_size32 := is_32bit (cached_descriptor s CS)\<rparr>"

definition update_stack_size :: "CPU \<Rightarrow> CPU" where
  "update_stack_size s = s\<lparr>m_stackSize32 := is_32bit (cached_descriptor s SS)\<rparr>"

text \<open>
  Modelled from the spec: the real-mode and VM86 half of \<open>write_segment_register\<close>
  (its source file is not at hand). The selector is written directly and the cached
  descriptor is refreshed with base \<open>selector * 16\<close>, limit \<open>0xFFFF\<close> and 16-bit
  default size; CS caches a code segment, the others writable data; the privilege level
  is 0, or 3 in VM86 mode.
\<close>

definition real_mode_descriptor :: "CPU \<Rightarrow> SegmentRegisterIndex \<Rightarrow> u16 \<Rightarrow> Descriptor" where
  "real_mode_descriptor s segreg selector =
     \<lparr>is_null = False, is_outside_table_limits = False,
      kind = (if segreg = CS then CodeSegment else DataSegment),
      base = push_bit 4 (ucast selector), effectiveLimit = 0xffff,
      dpl = (if get_vm s then 3 else 0), present = True, is_32bit = False,
      conforming = False, readable = True, writable = True,
      gate_selector = 0, gate_offset = 0, parameter_count = 0,
      m_rpl = (if get_vm s then 3 else 0), m_loaded_in_ss = (segreg = SS)\<rparr>"

definition real_mode_segment_load :: "SegmentRegisterIndex \<Rightarrow> u16 \<Rightarrow> CPU \<Rightarrow> CPU" where
  "real_mode_segment_load segreg selector s =
     (let s1 = s\<lparr>m_segment := (m_segment s)(segreg := selector),
                  m_descriptor := (m_descriptor s)(segreg := real_mode_descriptor s segreg selector)\<rparr>
      in if segreg = CS then update_default_sizes s1
         else if segreg = SS then update_stack_size s1
         else s1)"

definition write_segment_register ::
  "externals \<Rightarrow> SegmentRegisterIndex \<Rightarrow> u16 \<Rightarrow> CPU \<Rightarrow> unit result" where
  "write_segment_register ext segreg selector s =
     (if \<not> get_pe s \<or> get_vm s then Inr ((), real_mode_segment_load segreg selector s)
      else protected_mode_segment_load ext segreg selector s)"

definition set_cs :: "externals \<Rightarrow> u16 \<Rightarrow> CPU \<Rightarrow> unit result" where
  "set_cs ext v s = write_segment_register ext CS v s"

definition set_ds :: "externals \<Rightarrow> u16 \<Rightarrow> CPU \<Rightarrow> unit result" where
  "set_ds ext v s = write_segment_register ext DS v s"

definition set_es :: "externals \<Rightarrow> u16 \<Rightarrow> CPU \<Rightarrow> unit result" where
  "set_es ext v s = write_segment_register ext ES v s"

definition set_ss :: "externals \<Rightarrow> u16 \<Rightarrow> CPU \<Rightarrow> unit result" where
  "set_ss ext v s = write_segment_register ext SS v s"

definition set_fs :: "externals \<Rightarrow> u16 \<Rightarrow> CPU \<Rightarrow> unit result" where
  "set_fs ext v s = write_segment_register ext FS v s"

definition set_gs :: "externals \<Rightarrow> u16 \<Rightarrow> CPU \<Rightarrow> unit result" where
  "set_gs ext v s = write_segment_register ext GS v s"

section \<open>The stack\<close>

text \<open>
  Modelled from the spec: the push and pop helpers and the transactional popper (their
  source files are not at hand). A push of n bytes writes the value at SS:(SP - n) and
  then lowers the stack pointer by n; the stack pointer is ESP when the stack segment is
  32-bit and SP (the low half of ESP, wrapping at 16 bits) otherwise. The operand size in
  force is the effective one of the current instruction.
\<close>

definition s32 :: "CPU \<Rightarrow> bool" where
  "s32 s = m_stackSize32 s"

definition s16 :: "CPU \<Rightarrow> bool" where
  "s16 s = (\<not> m_stackSize32 s)"

definition o32 :: "CPU \<Rightarrow> bool" where
  "o32 s = m_effective_operand_size32 s"

definition o16 :: "CPU \<Rightarrow> bool" where
  "o16 s = (\<not> m_effective_operand_size32 s)"

definition current_stack_pointer :: "CPU \<Rightarrow> u32" where
  "current_stack_pointer s = (if s32 s then get_esp s else ucast (get_sp s))"

definition adjust_stack_pointer :: "u32 \<Rightarrow> CPU \<Rightarrow> CPU" where
  "adjust_stack_pointer delta s =
     (if s32 s then set_esp (get_esp s + delta) s
      else set_sp (get_sp s + ucast delta) s)"

definition stack_address :: "CPU \<Rightarrow> u32 \<Rightarrow> u32" where
  "stack_address s off =
     (if s16 s then ucast (get_sp s + ucast off) else get_esp s + off)"

definition stack_push_address :: "CPU \<Rightarrow> nat \<Rightarrow> u32" where
  "stack_push_address s n =
     (if s16 s then ucast (get_sp s - of_nat n) else get_esp s - of_nat n)"

definition lower_stack_pointer :: "nat \<Rightarrow> CPU \<Rightarrow> CPU" where
  "lower_stack_pointer n s =
     (if s32 s then set_esp (get_esp s - of_nat n) s
      else set_sp (get_sp s - of_nat n) s)"

definition push16 :: "u16 \<Rightarrow> CPU \<Rightarrow> unit result" where
  "push16 v s =
     bind (seg_write_memory16 SS (stack_push_address s 2) v s)
       (\<lambda>_ s1. Inr ((), lower_stack_pointer 2 s1))"

definition push32 :: "u32 \<Rightarrow> CPU \<Rightarrow> unit result" where
  "push32 v s =
     bind (seg_write_memory32 SS (stack_push_address s 4) v s)
       (\<lambda>_ s1. Inr ((), lower_stack_pointer 4 s1))"

definition push_value_with_size :: "u32 \<Rightarrow> ValueSize \<Rightarrow> CPU \<Rightarrow> unit result" where
  "push_value_with_size v sz s =
     (case sz of
        WordSize \<Rightarrow> push16 (ucast v) s
      | DWordSize \<Rightarrow> push32 v s
      | ByteSize \<Rightarrow> Inl (AssertionFailed ''size == WordSize || size == DWordSize'', s))"

definition push_operand_sized_value :: "u32 \<Rightarrow> CPU \<Rightarrow> unit result" where
  "push_operand_sized_value v s = (if o32 s then push32 v s else push16 (ucast v) s)"

definition popper_pop16 :: "u32 \<Rightarrow> CPU \<Rightarrow> (u32 \<times> u32) result" where
  "popper_pop16 m_offset s =
     bind (seg_read_memory16 SS (stack_address s m_offset) Read s)
       (\<lambda>v s1. Inr ((ucast v, m_offset + 2), s1))"

definition popper_pop32 :: "u32 \<Rightarrow> CPU \<Rightarrow> (u32 \<times> u32) result" where
  "popper_pop32 m_offset s =
     bind (seg_read_memory32 SS (stack_address s m_offset) Read s)
       (\<lambda>v s1. Inr ((v, m_offset + 4), s1))"

definition popper_pop_operand_sized_value :: "u32 \<Rightarrow> CPU \<Rightarrow> (u32 \<times> u32) result" where
  "popper_pop_operand_sized_value m_offset s =
     (if o16 s then popper_pop16 m_offset s else popper_pop32 m_offset s)"

definition popper_adjust_stack_pointer :: "u32 \<Rightarrow> u16 \<Rightarrow> u32" where
  "popper_adjust_stack_pointer m_offset adjustment = m_offset + ucast adjustment"

definition popper_commit :: "u32 \<Rightarrow> CPU \<Rightarrow> CPU" where
  "popper_commit m_offset s = adjust_stack_pointer m_offset s"

definition pop_operand_sized_value :: "CPU \<Rightarrow> u32 result" where
  "pop_operand_sized_value s =
     bind (popper_pop_operand_sized_value 0 s)
       (\<lambda>(v, m_offset) s1. Inr (v, popper_commit m_offset s1))"

text \<open>
  BEGIN_ASSERT_NO_EXCEPTIONS ... END_ASSERT_NO_EXCEPTIONS: an exception thrown inside
  the bracket is a failed assertion.
\<close>

definition assert_no_exceptions :: "'a result \<Rightarrow> 'a result" where
  "assert_no_exceptions r =
     (case r of
        Inl (Exception v c a m, s) \<Rightarrow> Inl (AssertionFailed ''ASSERT_NOT_REACHED'', s)
      | Inl (AssertionFailed m, s) \<Rightarrow> Inl (AssertionFailed m, s)
      | Inr x \<Rightarrow> Inr x)"

section \<open>Far jumps and calls\<close>

definition real_mode_far_jump ::
  "externals \<Rightarrow> u16 \<times> u32 \<Rightarrow> JumpType \<Rightarrow> CPU \<Rightarrow> unit result" where
  "real_mode_far_jump ext address type s =
     (if \<not> (\<not> get_pe s \<or> get_vm s) then Inl (AssertionFailed ''!get_pe() || get_vm()'', s)
      else
        let selector = fst address;
            offset = snd address;
            originalCS = get_cs s;
            originalEIP = get_eip s
        in bind (set_cs ext selector s) (\<lambda>_ s1.
           let s2 = set_eip offset s1
           in if type = CALL then
                bind (push_operand_sized_value (ucast originalCS) s2) (\<lambda>_ s3.
                push_operand_sized_value originalEIP s3)
              else Inr ((), s2)))"

definition gate_push_size :: "Descriptor option \<Rightarrow> CPU \<Rightarrow> ValueSize" where
  "gate_push_size gate s =
     (case gate of
        Some g \<Rightarrow> (if is_32bit g then DWordSize else WordSize)
      | None \<Rightarrow> (if o32 s then DWordSize else WordSize))"

text \<open>
  The stack switch of a CALL through a gate into an inner ring: the block of
  \<open>protected_mode_far_jump\<close> guarded by \<open>descriptor.dpl() < originalCPL\<close>.
\<close>

definition call_gate_stack_switch ::
  "externals \<Rightarrow> Descriptor \<Rightarrow> ValueSize \<Rightarrow> u16 \<Rightarrow> u32 \<Rightarrow> CPU \<Rightarrow> unit result" where
  "call_gate_stack_switch ext descriptor pushSize originalSS originalESP s =
     (let newSS = get_ring_ss ext s (dpl descriptor);
          newESP = get_ring_esp ext s (dpl descriptor);
          newSSDescriptor = get_descriptor ext s newSS
      in
      if is_null newSSDescriptor then
        Inl (InvalidTSS (newSS AND 0xfffc) ''New ss is null'', s)
      else if is_outside_table_limits newSSDescriptor then
        Inl (InvalidTSS (newSS AND 0xfffc) ''New ss outside table limits'', s)
      else if dpl newSSDescriptor \<noteq> dpl descriptor then
        Inl (InvalidTSS (newSS AND 0xfffc) ''New ss DPL(%1) != code segment DPL(%2)'', s)
      else if \<not> is_data newSSDescriptor \<or> \<not> writable newSSDescriptor then
        Inl (InvalidTSS (newSS AND 0xfffc) ''New ss not a writable data segment'', s)
      else if \<not> present newSSDescriptor then
        Inl (StackFault (newSS AND 0xfffc) ''New ss not present'', s)
      else
        assert_no_exceptions
          (bind (set_ss ext newSS (set_cpl (dpl descriptor) s)) (\<lambda>_ s1.
           bind (push_value_with_size (ucast originalSS) pushSize (set_esp newESP s1)) (\<lambda>_ s2.
           push_value_with_size originalESP pushSize s2))))"

function protected_mode_far_jump ::
  "externals \<Rightarrow> u16 \<times> u32 \<Rightarrow> JumpType \<Rightarrow> Descriptor option \<Rightarrow> CPU \<Rightarrow> unit result" where
  "protected_mode_far_jump ext address type gate s =
     (if \<not> get_pe s then Inl (AssertionFailed ''get_pe()'', s)
      else if is_null (get_descriptor ext s (fst address)) then
        Inl (GeneralProtectionFault 0 ''%1 to null selector'', s)
      else if is_outside_table_limits (get_descriptor ext s (fst address)) then
        Inl (GeneralProtectionFault (fst address AND 0xfffc) ''%1 to selector outside table limit'', s)
      else if \<not> is_code (get_descriptor ext s (fst address))
              \<and> \<not> is_call_gate (get_descriptor ext s (fst address))
              \<and> \<not> is_task_gate (get_descriptor ext s (fst address))
              \<and> \<not> is_tss (get_descriptor ext s (fst address)) then
        Inl (GeneralProtectionFault (fst address AND 0xfffc) ''%1 to invalid descriptor type'', s)
      else if is_gate (get_descriptor ext s (fst address)) \<and> gate \<noteq> None then
        Inl (GeneralProtectionFault (fst address AND 0xfffc) ''Gate-to-gate jumps are not allowed'', s)
      else if is_task_gate (get_descriptor ext s (fst address)) then
        Inl (AssertionFailed ''ASSERT_NOT_REACHED'', s)
      else if is_call_gate (get_descriptor ext s (fst address)) then
        (let g = get_descriptor ext s (fst address);
             selectorRPL = (ucast (fst address AND 3) :: u8)
         in
         if parameter_count g \<noteq> 0 then Inl (AssertionFailed ''ASSERT_NOT_REACHED'', s)
         else if dpl g < get_cpl s then
           Inl (GeneralProtectionFault (fst address AND 0xfffc) ''%1 to gate with DPL(%2) < CPL(%3)'', s)
         else if selectorRPL > dpl g then
           Inl (GeneralProtectionFault (fst address AND 0xfffc) ''%1 to gate with RPL(%2) > DPL(%3)'', s)
         else if \<not> present g then
           Inl (NotPresent (fst address AND 0xfffc) ''Gate not present'', s)
         else if \<not> get_pe s \<or> get_vm s then
           real_mode_far_jump ext (gate_selector g, gate_offset g) type s
         else
           protected_mode_far_jump ext (gate_selector g, gate_offset g) type (Some g) s)
      else if is_tss (get_descriptor ext s (fst address)) then
        (let tssDescriptor = get_descriptor ext s (fst address);
             selectorRPL = (ucast (fst address AND 3) :: u8)
         in
         if dpl tssDescriptor < get_cpl s then
           Inl (GeneralProtectionFault (fst address AND 0xfffc) ''%1 to TSS descriptor with DPL < CPL'', s)
         else if dpl tssDescriptor < selectorRPL then
           Inl (GeneralProtectionFault (fst address AND 0xfffc) ''%1 to TSS descriptor with DPL < RPL'', s)
         else if \<not> present tssDescriptor then
           Inl (NotPresent (fst address AND 0xfffc) ''TSS not present'', s)
         else task_switch ext (fst address) tssDescriptor type s)
      else
        (let selector = fst address;
             pushSize = gate_push_size gate s;
             originalSS = get_ss s;
             originalESP = get_esp s;
             originalCPL = get_cpl s;
             originalCS = get_cs s;
             originalEIP = get_eip s;
             selectorRPL = (ucast (selector AND 3) :: u8);
             codeSegment = get_descriptor ext s selector;
             offset1 = (case gate of
                          Some g \<Rightarrow> (if \<not> is_32bit g then snd address AND 0xffff else snd address)
                        | None \<Rightarrow> snd address);
             offset = (if \<not> is_32bit codeSegment then offset1 AND 0xffff else offset1)
         in
         if (type = CALL \<or> type = JMP) \<and> gate = None \<and> conforming codeSegment
            \<and> dpl codeSegment > get_cpl s then
           Inl (GeneralProtectionFault (selector AND 0xfffc) ''%1 -> Code segment DPL(%2) > CPL(%3)'', s)
         else if (type = CALL \<or> type = JMP) \<and> gate = None \<and> \<not> conforming codeSegment
                 \<and> selectorRPL > dpl codeSegment then
           Inl (GeneralProtectionFault (selector AND 0xfffc) ''%1 -> Code segment RPL(%2) > CPL(%3)'', s)
         else if (type = CALL \<or> type = JMP) \<and> gate = None \<and> \<not> conforming codeSegment
                 \<and> dpl codeSegment \<noteq> get_cpl s then
           Inl (GeneralProtectionFault (selector AND 0xfffc) ''%1 -> Code segment DPL(%2) != CPL(%3)'', s)
         else if \<not> present codeSegment then
           Inl (NotPresent (selector AND 0xfffc) ''Code segment not present'', s)
         else if offset > effectiveLimit codeSegment then
           Inl (GeneralProtectionFault 0 ''Offset outside segment limit'', s)
         else
           bind (set_cs ext selector s) (\<lambda>_ s1.
           bind (if type = CALL \<and> gate \<noteq> None then
                   (if dpl codeSegment < originalCPL then
                      call_gate_stack_switch ext codeSegment pushSize originalSS originalESP
                        (set_eip offset s1)
                    else Inr ((), set_cpl originalCPL (set_eip offset s1)))
                 else Inr ((), set_eip offset s1)) (\<lambda>_ s2.
           bind (if type = CALL then
                   assert_no_exceptions
                     (bind (push_value_with_size (ucast originalCS) pushSize s2) (\<lambda>_ s3.
                      push_value_with_size originalEIP pushSize s3))
                 else Inr ((), s2)) (\<lambda>_ s4.
           Inr ((), if gate = None then set_cpl originalCPL s4 else s4))))))"
  by pat_completeness auto
termination
  by (relation "measure (\<lambda>(ext, address, type, gate, s). case gate of None \<Rightarrow> 1 | Some g \<Rightarrow> 0)")
     (auto simp: is_gate_def is_call_gate_def)

definition far_jump ::
  "externals \<Rightarrow> u16 \<times> u32 \<Rightarrow> JumpType \<Rightarrow> Descriptor option \<Rightarrow> CPU \<Rightarrow> unit result" where
  "far_jump ext address type gate s =
     (if \<not> get_pe s \<or> get_vm s then real_mode_far_jump ext address type s
      else protected_mode_far_jump ext address type gate s)"

section \<open>Far return\<close>

definition clear_segment_register_after_return_if_needed ::
  "externals \<Rightarrow> SegmentRegisterIndex \<Rightarrow> JumpType \<Rightarrow> CPU \<Rightarrow> unit result" where
  "clear_segment_register_after_return_if_needed ext segreg type s =
     (if read_segment_register s segreg = 0 then Inr ((), s)
      else
        let cached = cached_descriptor s segreg
        in if is_null cached
              \<or> (dpl cached < get_cpl s \<and> (is_data cached \<or> is_nonconforming_code cached))
           then write_segment_register ext segreg 0 s
           else Inr ((), s))"

text \<open>
  The part of \<open>protected_far_return\<close> that runs once CS:EIP is loaded and the return
  goes to an outer ring.
\<close>

definition far_return_to_outer_ring :: "externals \<Rightarrow> u32 \<Rightarrow> CPU \<Rightarrow> unit result" where
  "far_return_to_outer_ring ext m_offset s =
     assert_no_exceptions
       (bind (popper_pop_operand_sized_value m_offset s) (\<lambda>(newESP, m_offset1) s1.
        bind (popper_pop_operand_sized_value m_offset1 s1) (\<lambda>(newSS, m_offset2) s2.
        bind (set_ss ext (ucast newSS) s2) (\<lambda>_ s3.
        bind (clear_segment_register_after_return_if_needed ext ES RETF (set_esp newESP s3)) (\<lambda>_ s4.
        bind (clear_segment_register_after_return_if_needed ext FS RETF s4) (\<lambda>_ s5.
        bind (clear_segment_register_after_return_if_needed ext GS RETF s5) (\<lambda>_ s6.
        clear_segment_register_after_return_if_needed ext DS RETF s6)))))))"

definition protected_far_return :: "externals \<Rightarrow> u16 \<Rightarrow> CPU \<Rightarrow> unit result" where
  "protected_far_return ext stack_adjustment s =
     (if \<not> get_pe s then Inl (AssertionFailed ''get_pe()'', s)
      else
        bind (popper_pop_operand_sized_value 0 s) (\<lambda>(offset0, m_offset1) s1.
        bind (popper_pop_operand_sized_value m_offset1 s1) (\<lambda>(selector32, m_offset2) s2.
          let selector = (ucast selector32 :: u16);
              originalCPL = get_cpl s2;
              selectorRPL = (ucast (selector AND 3) :: u8);
              m_offset3 = popper_adjust_stack_pointer m_offset2 stack_adjustment;
              descriptor = get_descriptor ext s2 selector;
              offset = (if \<not> is_32bit descriptor then offset0 AND 0xffff else offset0)
          in
          if is_null descriptor then
            Inl (GeneralProtectionFault 0 ''RETF to null selector'', s2)
          else if is_outside_table_limits descriptor then
            Inl (GeneralProtectionFault (selector AND 0xfffc) ''RETF to selector outside table limit'', s2)
          else if \<not> is_code descriptor then
            Inl (GeneralProtectionFault (selector AND 0xfffc) ''Not a code segment'', s2)
          else if selectorRPL < get_cpl s2 then
            Inl (GeneralProtectionFault (selector AND 0xfffc) ''RETF with RPL(%1) < CPL(%2)'', s2)
          else if conforming descriptor \<and> dpl descriptor > selectorRPL then
            Inl (GeneralProtectionFault (selector AND 0xfffc)
                   ''RETF to conforming code segment with DPL > RPL'', s2)
          else if \<not> conforming descriptor \<and> dpl descriptor \<noteq> selectorRPL then
            Inl (GeneralProtectionFault (selector AND 0xfffc)
                   ''RETF to non-conforming code segment with DPL != RPL'', s2)
          else if \<not> present descriptor then
            Inl (NotPresent (selector AND 0xfffc) ''Code segment not present'', s2)
          else if offset > effectiveLimit descriptor then
            Inl (GeneralProtectionFault 0 ''Offset outside segment limit'', s2)
          else
            bind (set_cs ext selector s2) (\<lambda>_ s3.
            bind (if selectorRPL > originalCPL then
                    far_return_to_outer_ring ext m_offset3 (set_eip offset s3)
                  else Inr ((), popper_commit m_offset3 (set_eip offset s3))) (\<lambda>_ s4.
            Inr ((), if get_cpl s4 \<noteq> originalCPL
                     then adjust_stack_pointer (ucast stack_adjustment) s4 else s4))))))"

definition real_mode_far_return :: "externals \<Rightarrow> u16 \<Rightarrow> CPU \<Rightarrow> unit result" where
  "real_mode_far_return ext stack_adjustment s =
     bind (pop_operand_sized_value s) (\<lambda>offset s1.
     bind (pop_operand_sized_value s1) (\<lambda>selector s2.
     bind (set_cs ext (ucast selector) s2) (\<lambda>_ s3.
     Inr ((), adjust_stack_pointer (ucast stack_adjustment) (set_eip offset s3)))))"

definition far_return :: "externals \<Rightarrow> u16 \<Rightarrow> CPU \<Rightarrow> unit result" where
  "far_return ext stack_adjustment s =
     (if \<not> get_pe s \<or> get_vm s then real_mode_far_return ext stack_adjustment s
      else protected_far_return ext stack_adjustment s)"

section \<open>Reset and reboot\<close>

definition zero_descriptor :: Descriptor where
  "zero_descriptor =
     \<lparr>is_null = False, is_outside_table_limits = False, kind = OtherSystem,
      base = 0, effectiveLimit = 0, dpl = 0, present = False, is_32bit = False,
      conforming = False, readable = False, writable = False,
      gate_selector = 0, gate_offset = 0, parameter_count = 0,
      m_rpl = 0, m_loaded_in_ss = False\<rparr>"

text \<open>
  \<open>set_memory_size_and_reallocate_if_needed\<close>: the only place where guest memory is
  zeroed, and only when the size changes. The constructor calls it before the first
  \<open>reset\<close>.
\<close>

definition set_memory_size_and_reallocate_if_needed :: "u32 \<Rightarrow> CPU \<Rightarrow> CPU" where
  "set_memory_size_and_reallocate_if_needed sz s =
     (if m_memory_size s = sz then s
      else s\<lparr>m_memory_size := sz, m_memory := (\<lambda>a. 0)\<rparr>)"

text \<open>
  The register and mode assignments of \<open>reset\<close> up to the segment loads. The descriptor
  table registers are cleared to base 0, limit 0 (modelled from the spec: "loads
  IDTR/GDTR/LDTR as empty").
\<close>

definition reset_registers :: "CPU \<Rightarrow> CPU" where
  "reset_registers s =
     s\<lparr>m_a20_enabled := False,
       m_next_instruction_is_uninterruptible := False,
       m_gpr := (\<lambda>r. 0),
       m_cr0 := 0, m_cr2 := 0, m_cr3 := 0, m_cr4 := 0,
       m_dr := (\<lambda>i. 0),
       m_iopl := 0, m_vm := False, m_vip := False, m_vif := False, m_nt := False,
       m_rf := False, m_ac := False, m_id := False,
       m_gdtr := (0, 0), m_idtr := (0, 0), m_ldtr := (0, 0, 0),
       m_tr := (0, 0, 0xffff, False),
       m_descriptor := (\<lambda>segreg. zero_descriptor),
       m_segment_prefix := None\<rparr>"

definition reset_finish :: "CPU \<Rightarrow> CPU" where
  "reset_finish s =
     (set_iopl 3 (set_flags 0x0200 s))
       \<lparr>m_state := Alive,
        m_address_size32 := False, m_operand_size32 := False,
        m_effective_address_size32 := False, m_effective_operand_size32 := False,
        m_dirty_flags := 0, m_last_result := 0, m_last_op_size := ByteSize,
        m_cycle := 0\<rparr>"

definition reset :: "externals \<Rightarrow> CPU \<Rightarrow> unit result" where
  "reset ext s =
     bind (set_cs ext 0 (reset_registers s)) (\<lambda>_ s1.
     bind (set_ds ext 0 s1) (\<lambda>_ s2.
     bind (set_es ext 0 s2) (\<lambda>_ s3.
     bind (set_ss ext 0 s3) (\<lambda>_ s4.
     bind (set_fs ext 0 s4) (\<lambda>_ s5.
     bind (set_gs ext 0 s5) (\<lambda>_ s6.
     bind (if m_is_for_autotest s6
           then far_jump ext (entry_cs s6, ucast (entry_ip s6)) Internal None s6
           else far_jump ext (0xf000, 0x0000) Internal None s6) (\<lambda>_ s7.
     Inr ((), reset_finish s7))))))))"

definition hard_reboot :: "externals \<Rightarrow> CPU \<Rightarrow> unit result" where
  "hard_reboot ext s =
     bind (reset ext s) (\<lambda>_ s1. Inr ((), s1\<lparr>m_should_hard_reboot := False\<rparr>))"

section \<open>HLT\<close>

text \<open>
  \<open>halted_loop\<close> spins until something outside the CPU wakes it. Each round of the loop
  consumes one observation of the outside: whether a HardReboot command has been queued
  since the last round and whether the interrupt controller has an IRQ pending. When the
  observations run out with the CPU still halted the loop has not returned: \<open>None\<close>.
\<close>

record observation =
  queued_hard_reboot :: bool
  has_pending_irq :: bool

fun halted_loop :: "externals \<Rightarrow> observation list \<Rightarrow> CPU \<Rightarrow> unit result option" where
  "halted_loop ext [] s =
     (if m_state s = Halted then None else Some (Inr ((), s)))"
| "halted_loop ext (ob # obs) s =
     (if m_state s \<noteq> Halted then Some (Inr ((), s))
      else if m_should_hard_reboot s \<or> queued_hard_reboot ob then Some (hard_reboot ext s)
      else if has_pending_irq ob \<and> get_if s then
        (case service_irq ext s of
           Inl e \<Rightarrow> Some (Inl e)
         | Inr (u, s1) \<Rightarrow> halted_loop ext obs s1)
      else halted_loop ext obs s)"

definition HLT :: "externals \<Rightarrow> observation list \<Rightarrow> CPU \<Rightarrow> unit result option" where
  "HLT ext obs s =
     (if get_cpl s \<noteq> 0 then
        Some (Inl (GeneralProtectionFault 0 ''HLT with CPL!=0(%1)'', s))
      else halted_loop ext obs (set_state Halted s))"

section \<open>PUSHA and POP CS\<close>

text \<open>
  \<open>_PUSHA\<close>: SP is read first; then AX, CX, DX, BX, the value read, BP, SI and DI are
  pushed, each by the 16-bit \<open>push\<close>.
\<close>

definition PUSHA :: "CPU \<Rightarrow> unit result" where
  "PUSHA s =
     (let oldSP = get_sp s
      in bind (push16 (read_register16 s RegisterEAX) s) (\<lambda>_ s1.
         bind (push16 (read_register16 s1 RegisterECX) s1) (\<lambda>_ s2.
         bind (push16 (read_register16 s2 RegisterEDX) s2) (\<lambda>_ s3.
         bind (push16 (read_register16 s3 RegisterEBX) s3) (\<lambda>_ s4.
         bind (push16 oldSP s4) (\<lambda>_ s5.
         bind (push16 (read_register16 s5 RegisterEBP) s5) (\<lambda>_ s6.
         bind (push16 (read_register16 s6 RegisterESI) s6) (\<lambda>_ s7.
         push16 (read_register16 s7 RegisterEDI) s7))))))))"

text \<open>
  \<open>_POP_CS\<close>: the body is one call of \<open>vlog\<close>; nothing is popped and nothing is
  raised. The model returns the line it logs beside the result.
\<close>

datatype log_level = VM_ALERT

definition POP_CS :: "CPU \<Rightarrow> unit result \<times> (log_level \<times> string) list" where
  "POP_CS s =
     (Inr ((), s),
      [(VM_ALERT, ''%04X:%04X Attempted either POP CS or 286+ instruction.'')])"

section \<open>Real-mode interrupts\<close>

datatype InterruptSource = InternalSource | ExternalSource

definition realModeInterrupt :: "externals \<Rightarrow> u8 \<Rightarrow> InterruptSource \<Rightarrow> CPU \<Rightarrow> unit result" where
  "realModeInterrupt ext isr source s =
     (if get_pe s then Inl (AssertionFailed ''!getPE()'', s)
      else
        let originalCS = get_cs s;
            originalIP = get_ip s;
            flags = get_flags s;
            selector = read_physical_memory16 s (ucast isr * 4 + 2);
            offset = read_physical_memory16 s (ucast isr * 4)
        in bind (set_cs ext selector s) (\<lambda>_ s1.
           bind (push16 flags (set_eip (ucast offset) s1)) (\<lambda>_ s2.
           bind (push16 originalCS s2) (\<lambda>_ s3.
           bind (push16 originalIP s3) (\<lambda>_ s4.
           Inr ((), set_tf False (set_if False s4)))))))"

section \<open>The page walk in closed form\<close>

text \<open>
  \<open>walk_ok\<close> collects the checks of \<open>translate_address_slow_case\<close> that must all
  pass, and \<open>walk_result\<close> is what the function returns and writes back when they do.
  The lemmas \<open>slow_case_success\<close> and \<open>slow_case_success_iff\<close> below tie both to the
  translation itself.
\<close>

definition walk_ok :: "CPU \<Rightarrow> u32 \<Rightarrow> MemoryAccessType \<Rightarrow> u8 \<Rightarrow> bool" where
  "walk_ok s la acc cpl =
     (let pde = read_physical_memory32 s (pde_address s la);
          pte = read_physical_memory32 s (pte_address pde la);
          user = in_user_mode s cpl
      in m_cr3 s < m_memory_size s \<and> m_cr3 s AND 0x03ff = 0
         \<and> pde AND PTE_Present \<noteq> 0 \<and> pte AND PTE_Present \<noteq> 0
         \<and> (user \<longrightarrow> pde AND PTE_UserSupervisor \<noteq> 0 \<and> pte AND PTE_UserSupervisor \<noteq> 0)
         \<and> ((user \<or> m_cr0 s AND CR0_WP \<noteq> 0) \<and> acc = Write \<longrightarrow>
               pde AND PTE_ReadWrite \<noteq> 0 \<and> pte AND PTE_ReadWrite \<noteq> 0))"

definition walk_result :: "CPU \<Rightarrow> u32 \<Rightarrow> MemoryAccessType \<Rightarrow> u32 \<times> CPU" where
  "walk_result s la acc =
     (let pdeA = pde_address s la;
          pde = read_physical_memory32 s pdeA;
          pteA = pte_address pde la;
          pte = read_physical_memory32 s pteA;
          pte2 = (if acc = Write then pte OR PTE_Dirty else pte) OR PTE_Accessed
      in ((pte2 AND 0xfffff000) OR (la AND 0xFFF),
          write_physical_memory32 pteA pte2
            (write_physical_memory32 pdeA (pde OR PTE_Accessed) s)))"

text \<open>
  Two machines have the same tables when they agree on the control registers, the
  memory size and the cached descriptors, and every aligned 32-bit entry in memory is
  the same up to its Accessed and Dirty bits. \<open>not_present\<close> says that the translation
  of an address meets a page-directory or page-table entry with Present clear.
\<close>

definition same_tables :: "CPU \<Rightarrow> CPU \<Rightarrow> bool" where
  "same_tables s s' =
     (m_cr0 s' = m_cr0 s \<and> m_cr3 s' = m_cr3 s \<and> m_memory_size s' = m_memory_size s
      \<and> m_descriptor s' = m_descriptor s
      \<and> (\<forall>a. a AND 3 = 0 \<longrightarrow>
            read_physical_memory32 s' a OR 0x60 = read_physical_memory32 s a OR 0x60))"

definition not_present :: "CPU \<Rightarrow> u32 \<Rightarrow> bool" where
  "not_present s la =
     (read_physical_memory32 s (pde_address s la) AND PTE_Present = 0
      \<or> read_physical_memory32 s
           (pte_address (read_physical_memory32 s (pde_address s la)) la) AND PTE_Present = 0)"

text \<open>
  What \<open>write_memory<u16>\<close> does to the machine in real mode, where no translation
  takes place: one 16-bit store, or two byte stores when CR0.PG is set and the word
  crosses a page boundary. Lemma \<open>write_memory16_real_mode\<close> below ties it to the
  function.
\<close>

definition real_mode_write16 :: "u32 \<Rightarrow> u16 \<Rightarrow> CPU \<Rightarrow> CPU" where
  "real_mode_write16 la v s =
     (if get_pg s \<and> crosses_page la 1 then
        write_physical_memory8 ((la + 1) AND a20_mask s) (ucast (drop_bit 8 v))
          (write_physical_memory8 (la AND a20_mask s) (ucast v) s)
      else write_physical_memory16 (la AND a20_mask s) v s)"

text \<open>
  The state after a 16-bit push in real mode: the word is stored below the stack
  pointer, then the stack pointer is lowered by two.
\<close>

definition pushed16 :: "u16 \<Rightarrow> CPU \<Rightarrow> CPU" where
  "pushed16 v s =
     lower_stack_pointer 2
       (real_mode_write16 (base (m_descriptor s SS) + stack_push_address s 2) v s)"



text \<open>
  The pushes of a list of values in order, each with the given size, the head of the
  list first: the sequence the specification gives for a far CALL through a gate.
  \<open>pushed32\<close> is the state after a 32-bit push on a 32-bit stack when no check and no
  translation intervenes.
\<close>

fun push_in_order :: "ValueSize \<Rightarrow> u32 list \<Rightarrow> CPU \<Rightarrow> unit result" where
  "push_in_order sz [] s = Inr ((), s)"
| "push_in_order sz (v # vs) s =
     bind (push_value_with_size v sz s) (\<lambda>_ s1. push_in_order sz vs s1)"

definition pushed32 :: "u32 \<Rightarrow> CPU \<Rightarrow> CPU" where
  "pushed32 v s =
     set_esp (get_esp s - 4)
       (write_physical_memory32
          ((base (m_descriptor s SS) + (get_esp s - 4)) AND a20_mask s) v s)"

section \<open>Example machines\<close>

text \<open>
  A machine as the constructor leaves it before the first reset: 8 MiB of zeroed
  memory, real mode, flat 16-bit segments.
\<close>

definition flat_descriptor :: "SegmentRegisterIndex \<Rightarrow> Descriptor" where
  "flat_descriptor segreg =
     \<lparr>is_null = False, is_outside_table_limits = False,
      kind = (if segreg = CS then CodeSegment else DataSegment),
      base = 0, effectiveLimit = 0xffff, dpl = 0, present = True, is_32bit = False,
      conforming = False, readable = True, writable = True,
      gate_selector = 0, gate_offset = 0, parameter_count = 0,
      m_rpl = 0, m_loaded_in_ss = (segreg = SS)\<rparr>"

definition power_on :: CPU where
  "power_on =
     \<lparr>m_gpr = (\<lambda>r. 0), m_eip = 0, m_cr0 = 0, m_cr2 = 0, m_cr3 = 0, m_cr4 = 0,
      m_dr = (\<lambda>i. 0),
      m_cf = False, m_pf = False, m_af = False, m_zf = False, m_sf = False, m_tf = False,
      m_if = False, m_df = False, m_of = False, m_iopl = 0, m_nt = False, m_rf = False,
      m_vm = False, m_ac = False, m_vif = False, m_vip = False, m_id = False,
      m_dirty_flags = 0, m_last_result = 0, m_last_op_size = ByteSize,
      m_segment = (\<lambda>segreg. 0), m_descriptor = flat_descriptor,
      m_segment_prefix = None,
      m_gdtr = (0, 0), m_idtr = (0, 0), m_ldtr = (0, 0, 0), m_tr = (0, 0, 0xffff, False),
      m_a20_enabled = False, m_next_instruction_is_uninterruptible = False,
      m_state = Alive,
      m_address_size32 = False, m_operand_size32 = False,
      m_effective_address_size32 = False, m_effective_operand_size32 = False,
      m_stackSize32 = False, m_cycle = 0, m_should_hard_reboot = False,
      m_is_for_autotest = False, entry_cs = 0x1000, entry_ip = 0x0100,
      m_memory = (\<lambda>a. 0), m_memory_size = 0x800000\<rparr>"

definition no_externals :: externals where
  "no_externals =
     \<lparr>get_descriptor = (\<lambda>s selector. zero_descriptor\<lparr>is_null := True\<rparr>),
      protected_mode_segment_load =
        (\<lambda>segreg selector s. Inr ((), s\<lparr>m_segment := (m_segment s)(segreg := selector)\<rparr>)),
      get_ring_ss = (\<lambda>s ring. 0),
      get_ring_esp = (\<lambda>s ring. 0),
      task_switch = (\<lambda>selector d type s. Inr ((), s)),
      service_irq = (\<lambda>s. Inr ((), set_state Alive s))\<rparr>"

text \<open>Paging switched on over an empty page directory at physical 0x1000.\<close>

definition empty_paging_machine :: CPU where
  "empty_paging_machine = power_on\<lparr>m_cr0 := 0x80000001, m_cr3 := 0x1000\<rparr>"

text \<open>
  Paging switched on with linear 0x00400000 mapped to physical 0x00100000: the
  page-directory entry 1 at 0x1004 is 0x00002007 and the page-table entry 0 at 0x2000 is
  0x00100007 (Present, R/W, U/S). The next page, 0x00401000, has an empty entry.
\<close>

definition mapped_paging_machine :: CPU where
  "mapped_paging_machine =
     power_on\<lparr>m_cr0 := 0x80000001, m_cr3 := 0x1000,
              m_memory := (\<lambda>a. 0)(0x1004 := 0x07, 0x1005 := 0x20,
                                     0x2000 := 0x07, 0x2002 := 0x10)\<rparr>"

text \<open>
  Real mode with the interrupt vector 0x21 set to F000:1234, executing at 0200:0102 with
  SS:SP = 0000:1000 and IF set.
\<close>

definition int21_machine :: CPU where
  "int21_machine =
     power_on\<lparr>m_gpr := (\<lambda>r. 0)(RegisterESP := 0x1000), m_eip := 0x0102, m_if := True,
              m_segment := (\<lambda>segreg. 0)(CS := 0x0200),
              m_memory := (\<lambda>a. 0)(0x84 := 0x34, 0x85 := 0x12, 0x87 := 0xF0)\<rparr>"

text \<open>
  Real mode with SS:SP = 0000:1000 and AX=1, CX=2, DX=3, BX=4, BP=6, SI=7, DI=8.
\<close>

definition pusha_machine :: CPU where
  "pusha_machine =
     power_on\<lparr>m_gpr := (\<lambda>r. 0)(RegisterEAX := 1, RegisterECX := 2, RegisterEDX := 3,
                RegisterEBX := 4, RegisterESP := 0x1000, RegisterEBP := 6, RegisterESI := 7,
                RegisterEDI := 8)\<rparr>"

text \<open>
  A descriptor table for the examples: 0x08 and 0x10 are flat ring-0 code and data,
  0x18 and 0x20 flat ring-3 code and data, 0x28 a 32-bit call gate to 0x08:0x4000 that
  ring 3 may use; selector 0 is null and everything else lies outside the table. The
  protected-mode selector load of the examples caches the table entry with the
  selector's RPL; the ring stacks of the task state segment are all 0x10:0x8000.
\<close>

definition flat_segment :: "DescriptorKind \<Rightarrow> u8 \<Rightarrow> Descriptor" where
  "flat_segment k ring =
     \<lparr>is_null = False, is_outside_table_limits = False, kind = k,
      base = 0, effectiveLimit = 0xffffffff, dpl = ring, present = True, is_32bit = True,
      conforming = False, readable = True, writable = True,
      gate_selector = 0, gate_offset = 0, parameter_count = 0,
      m_rpl = 0, m_loaded_in_ss = False\<rparr>"

definition example_gdt :: "u16 \<Rightarrow> Descriptor" where
  "example_gdt selector =
     (let i = selector AND 0xfffc
      in if i = 0x00 then zero_descriptor\<lparr>is_null := True\<rparr>
         else if i = 0x08 then flat_segment CodeSegment 0
         else if i = 0x10 then flat_segment DataSegment 0
         else if i = 0x18 then flat_segment CodeSegment 3
         else if i = 0x20 then flat_segment DataSegment 3
         else if i = 0x28 then
           (flat_segment CallGate 3)\<lparr>gate_selector := 0x08, gate_offset := 0x4000\<rparr>
         else zero_descriptor\<lparr>is_outside_table_limits := True\<rparr>)"

definition example_segment_load :: "SegmentRegisterIndex \<Rightarrow> u16 \<Rightarrow> CPU \<Rightarrow> CPU" where
  "example_segment_load segreg selector s =
     (let d = (example_gdt selector)\<lparr>m_rpl := ucast (selector AND 3),
                                      m_loaded_in_ss := (segreg = SS)\<rparr>;
          s1 = s\<lparr>m_segment := (m_segment s)(segreg := selector),
                  m_descriptor := (m_descriptor s)(segreg := d)\<rparr>
      in if segreg = CS then update_default_sizes s1
         else if segreg = SS then update_stack_size s1
         else s1)"

definition gdt_externals :: externals where
  "gdt_externals =
     \<lparr>get_descriptor = (\<lambda>s selector. example_gdt selector),
      protected_mode_segment_load =
        (\<lambda>segreg selector s. Inr ((), example_segment_load segreg selector s)),
      get_ring_ss = (\<lambda>s ring. 0x10),
      get_ring_esp = (\<lambda>s ring. 0x8000),
      task_switch = (\<lambda>selector d type s. Inr ((), s)),
      service_irq = (\<lambda>s. Inr ((), set_state Alive s))\<rparr>"


text \<open>
  Protected mode, ring 3, 32-bit code and stack, executing at 001B:00001234 with
  SS:ESP = 0023:00070000; \<open>inner_ring_entry\<close> is that machine after the loads of a
  call through gate 0x28: CS = 0x08, EIP = 0x4000, CPL = 0, SS:ESP = 0010:00008000.
\<close>

definition ring3_caller :: CPU where
  "ring3_caller =
     power_on\<lparr>m_cr0 := 1, m_eip := 0x1234,
              m_gpr := (\<lambda>r. 0)(RegisterESP := 0x00070000),
              m_segment := (\<lambda>r. 0x23)(CS := 0x1B),
              m_descriptor := (\<lambda>r. (flat_segment DataSegment 3)
                                       \<lparr>m_rpl := 3, m_loaded_in_ss := (r = SS)\<rparr>)
                 (CS := (flat_segment CodeSegment 3)\<lparr>m_rpl := 3\<rparr>),
              m_address_size32 := True, m_operand_size32 := True,
              m_effective_address_size32 := True, m_effective_operand_size32 := True,
              m_stackSize32 := True\<rparr>"

definition inner_ring_entry :: CPU where
  "inner_ring_entry =
     set_esp 0x8000
       (example_segment_load SS 0x10
         (set_cpl 0 (set_eip 0x4000 (example_segment_load CS 0x08 ring3_caller))))"


text \<open>A machine whose memory holds a byte of guest data.\<close>

definition dirty_machine :: CPU where
  "dirty_machine = power_on\<lparr>m_memory := (\<lambda>a. 0)(0x500 := 0x55)\<rparr>"

text \<open>A machine running at privilege level 3.\<close>

definition ring3_machine :: CPU where
  "ring3_machine =
     power_on\<lparr>m_descriptor := flat_descriptor(CS := (flat_descriptor CS)\<lparr>m_rpl := 3\<rparr>)\<rparr>"

section \<open>Page faults on entries that are not present\<close>

text \<open>
  C1. With paging enabled (CR0.PE and CR0.PG set, the page directory base inside
  memory and aligned as the translation asserts), a byte read at a linear address whose
  page-directory entry, or whose page-table entry, has Present clear raises exception
  14. The error code has P clear and W clear, and U set exactly when the effective
  privilege is user mode; CR2 holds the faulting linear address and nothing else in the
  machine changes.
\<close>

theorem page_fault_on_not_present_read:
  assumes "get_pe s" and "get_pg s"
    and "m_cr3 s < m_memory_size s" and "m_cr3 s AND 0x03ff = 0"
    and "read_physical_memory32 s (pde_address s la) AND PTE_Present = 0
         \<or> read_physical_memory32 s
              (pte_address (read_physical_memory32 s (pde_address s la)) la) AND PTE_Present = 0"
  shows "\<exists>code. read_memory8 la Read effectiveCPL s =
                  Inl (Exception 0xe code (Some la) ''Page fault'', s\<lparr>m_cr2 := la\<rparr>)
              \<and> code AND 1 = 0 \<and> code AND 2 = 0
              \<and> (code AND 4 \<noteq> 0) = in_user_mode s effectiveCPL"
  using assms
  by (auto simp: read_memory8_def translate_address_def translate_address_slow_case_def
      bind_def Let_def PageFault_def makePFErrorCode_def PF_NotPresent_def PF_Read_def
      PF_UserMode_def PF_SupervisorMode_def)

theorem page_fault_on_not_present_read_witness:
  "get_pe empty_paging_machine \<and> get_pg empty_paging_machine
   \<and> m_cr3 empty_paging_machine < m_memory_size empty_paging_machine
   \<and> m_cr3 empty_paging_machine AND 0x03ff = 0
   \<and> read_physical_memory32 empty_paging_machine
        (pde_address empty_paging_machine 0x00400000) AND PTE_Present = 0
   \<and> (\<exists>code. read_memory8 0x00400000 Read 0xff empty_paging_machine =
                  Inl (Exception 0xe code (Some 0x00400000) ''Page fault'',
                       empty_paging_machine\<lparr>m_cr2 := 0x00400000\<rparr>)
              \<and> code AND 1 = 0 \<and> code AND 2 = 0
              \<and> (code AND 4 \<noteq> 0) = in_user_mode empty_paging_machine 0xff)"
proof -
  have h: "get_pe empty_paging_machine" "get_pg empty_paging_machine"
    "m_cr3 empty_paging_machine < m_memory_size empty_paging_machine"
    "m_cr3 empty_paging_machine AND 0x03ff = 0"
    by (simp_all add: empty_paging_machine_def power_on_def get_pe_def get_pg_def)
  have np: "read_physical_memory32 empty_paging_machine
        (pde_address empty_paging_machine 0x00400000) AND PTE_Present = 0"
    by (simp add: empty_paging_machine_def power_on_def read_physical_memory32_def
        weld32_def weld16_def)
  from page_fault_on_not_present_read [OF h disjI1 [OF np], of "0xff"] h np
  show ?thesis by blast
qed

section \<open>HLT\<close>

text \<open>
  C10. HLT executed with CPL other than 0 raises exception 13 with error code 0 and
  leaves the machine exactly as it was, so the CPU is not halted; with CPL 0 it sets
  the state to Halted and enters the halted loop.
\<close>

theorem hlt_requires_ring0:
  "(get_cpl s \<noteq> 0 \<longrightarrow>
      HLT ext obs s = Some (Inl (Exception 0xd 0 None ''HLT with CPL!=0(%1)'', s)))
   \<and> (get_cpl s = 0 \<longrightarrow>
      HLT ext obs s = halted_loop ext obs (s\<lparr>m_state := Halted\<rparr>))"
  by (simp add: HLT_def GeneralProtectionFault_def set_state_def)

theorem hlt_requires_ring0_witness:
  "get_cpl ring3_machine \<noteq> 0
   \<and> HLT no_externals [] ring3_machine =
       Some (Inl (Exception 0xd 0 None ''HLT with CPL!=0(%1)'', ring3_machine))
   \<and> m_state ring3_machine = Alive
   \<and> get_cpl power_on = 0
   \<and> HLT no_externals [] power_on = halted_loop no_externals [] (power_on\<lparr>m_state := Halted\<rparr>)
   \<and> HLT no_externals [] power_on = None"
proof -
  have a: "get_cpl ring3_machine \<noteq> 0"
    by (simp add: ring3_machine_def power_on_def get_cpl_def flat_descriptor_def)
  have b: "get_cpl power_on = 0"
    by (simp add: power_on_def get_cpl_def flat_descriptor_def)
  have c: "m_state ring3_machine = Alive"
    by (simp add: ring3_machine_def power_on_def)
  have d: "halted_loop no_externals [] (power_on\<lparr>m_state := Halted\<rparr>) = None"
    by simp
  from hlt_requires_ring0 [of ring3_machine no_externals "[]"]
       hlt_requires_ring0 [of power_on no_externals "[]"] a b c d
  show ?thesis by simp
qed

section \<open>POP CS\<close>

text \<open>
  C9 as stated (POP CS raises exception 6) fails: the handler returns normally.
\<close>

theorem pop_cs_raises_nothing_counterexample:
  "\<not> isl (fst (POP_CS power_on))"
  by (simp add: POP_CS_def)

text \<open>
  C9, amended. Executing the POP CS opcode writes one alert line to the log, raises no
  exception and changes no architectural state; in particular CS and SP are unchanged.
\<close>

theorem pop_cs_only_logs:
  "fst (POP_CS s) = Inr ((), s)
   \<and> snd (POP_CS s) = [(VM_ALERT, ''%04X:%04X Attempted either POP CS or 286+ instruction.'')]"
  by (simp add: POP_CS_def)

section \<open>Reset\<close>

lemma real_mode_segment_load_mode:
  "get_pe (real_mode_segment_load r v s) = get_pe s"
  "get_vm (real_mode_segment_load r v s) = get_vm s"
  by (simp_all add: real_mode_segment_load_def get_pe_def get_vm_def Let_def
      update_default_sizes_def update_stack_size_def)

lemma real_mode_segment_load_frame:
  "m_is_for_autotest (real_mode_segment_load r v s) = m_is_for_autotest s"
  "entry_cs (real_mode_segment_load r v s) = entry_cs s"
  "entry_ip (real_mode_segment_load r v s) = entry_ip s"
  "m_memory (real_mode_segment_load r v s) = m_memory s"
  "m_memory_size (real_mode_segment_load r v s) = m_memory_size s"
  "m_gpr (real_mode_segment_load r v s) = m_gpr s"
  "m_segment (real_mode_segment_load r v s) = (m_segment s)(r := v)"
  by (simp_all add: real_mode_segment_load_def Let_def
      update_default_sizes_def update_stack_size_def)

lemma real_mode_segment_load_upper_flags:
  "m_vm (real_mode_segment_load r v s) = m_vm s"
  "m_rf (real_mode_segment_load r v s) = m_rf s"
  "m_ac (real_mode_segment_load r v s) = m_ac s"
  "m_vif (real_mode_segment_load r v s) = m_vif s"
  "m_vip (real_mode_segment_load r v s) = m_vip s"
  "m_id (real_mode_segment_load r v s) = m_id s"
  by (simp_all add: real_mode_segment_load_def Let_def
      update_default_sizes_def update_stack_size_def)

lemma reset_registers_upper_flags:
  "\<not> m_vm (reset_registers s)" "\<not> m_rf (reset_registers s)" "\<not> m_ac (reset_registers s)"
  "\<not> m_vif (reset_registers s)" "\<not> m_vip (reset_registers s)" "\<not> m_id (reset_registers s)"
  by (simp_all add: reset_registers_def)

lemma reset_finish_upper_flags:
  "m_vm (reset_finish s) = m_vm s" "m_rf (reset_finish s) = m_rf s"
  "m_ac (reset_finish s) = m_ac s" "m_vif (reset_finish s) = m_vif s"
  "m_vip (reset_finish s) = m_vip s" "m_id (reset_finish s) = m_id s"
  by (simp_all add: reset_finish_def set_iopl_def set_flags_def)

lemma write_segment_register_real_mode:
  "\<not> get_pe s \<Longrightarrow> write_segment_register ext r v s = Inr ((), real_mode_segment_load r v s)"
  by (simp add: write_segment_register_def)

lemma reset_registers_mode: "\<not> get_pe (reset_registers s)" "\<not> get_vm (reset_registers s)"
  by (simp_all add: reset_registers_def get_pe_def get_vm_def)

lemma reset_registers_frame:
  "m_is_for_autotest (reset_registers s) = m_is_for_autotest s"
  "entry_cs (reset_registers s) = entry_cs s"
  "entry_ip (reset_registers s) = entry_ip s"
  "m_memory (reset_registers s) = m_memory s"
  "m_memory_size (reset_registers s) = m_memory_size s"
  "m_gpr (reset_registers s) = (\<lambda>r. 0)"
  by (simp_all add: reset_registers_def)

lemma reset_unfolded:
  "reset ext s = Inr ((), reset_finish (set_eip (if m_is_for_autotest s then ucast (entry_ip s) else 0)
      (real_mode_segment_load CS (if m_is_for_autotest s then entry_cs s else 0xf000)
      (real_mode_segment_load GS 0 (real_mode_segment_load FS 0 (real_mode_segment_load SS 0
      (real_mode_segment_load ES 0 (real_mode_segment_load DS 0 (real_mode_segment_load CS 0
         (reset_registers s))))))))))"
  by (simp add: reset_def bind_def set_cs_def set_ds_def set_es_def set_ss_def set_fs_def set_gs_def
      write_segment_register_real_mode reset_registers_mode real_mode_segment_load_mode
      real_mode_segment_load_frame reset_registers_frame
      far_jump_def real_mode_far_jump_def Let_def)

lemma reset_finish_frame:
  "m_gpr (reset_finish s) = m_gpr s"
  "m_memory (reset_finish s) = m_memory s"
  "m_memory_size (reset_finish s) = m_memory_size s"
  "m_segment (reset_finish s) = m_segment s"
  "m_eip (reset_finish s) = m_eip s"
  "m_iopl (reset_finish s) = 3"
  "m_if (reset_finish s)" "\<not> m_cf (reset_finish s)" "\<not> m_pf (reset_finish s)"
  "\<not> m_af (reset_finish s)" "\<not> m_zf (reset_finish s)" "\<not> m_sf (reset_finish s)"
  "\<not> m_tf (reset_finish s)" "\<not> m_df (reset_finish s)" "\<not> m_of (reset_finish s)"
  "\<not> m_nt (reset_finish s)"
  by (simp_all add: reset_finish_def set_iopl_def set_flags_def)

lemma get_flags_reset: "get_flags (reset_finish s) = 0x3202"
  apply (simp add: get_flags_def reset_finish_frame flag_bit_def)
  done

lemma get_flags_should_hard_reboot:
  "get_flags (s\<lparr>m_should_hard_reboot := b\<rparr>) = get_flags s"
  by (simp add: get_flags_def)

lemma hard_reboot_unfolded:
  "hard_reboot ext s =
     Inr ((), (snd (projr (reset ext s)))\<lparr>m_should_hard_reboot := False\<rparr>)"
  by (simp add: hard_reboot_def reset_unfolded bind_def)

text \<open>
  C7 as stated fails in its last part: a reset, here the one of a hard reboot, leaves a
  byte of guest memory as it was instead of zeroing it.
\<close>

theorem reset_keeps_memory_counterexample:
  "\<not> isl (hard_reboot no_externals dirty_machine)
   \<and> m_memory (snd (projr (hard_reboot no_externals dirty_machine))) 0x500 = 0x55"
  by (simp add: hard_reboot_unfolded reset_unfolded reset_finish_frame
      real_mode_segment_load_frame reset_registers_frame set_eip_def dirty_machine_def)

text \<open>
  C7, amended. Every reset of the CPU zeroes the general-purpose registers, sets EFLAGS to
  0x0200 (IF set, every other flag clear, the upper flags VM, RF, AC, VIF, VIP and ID
  included), sets IOPL to 3, jumps to the configured entry point in autotest mode or to
  F000:0000 otherwise, and leaves guest memory exactly as it was, including a reset
  triggered by the HardReboot command. The 16-bit FLAGS image then reads 0x3202: 0x0200
  with IOPL 3 in bits 12-13 and the reserved bit 1.
\<close>

theorem reset_effect:
  "(\<exists>s'. reset ext s = Inr ((), s')
      \<and> (\<forall>r. m_gpr s' r = 0)
      \<and> m_if s' \<and> \<not> m_cf s' \<and> \<not> m_pf s' \<and> \<not> m_af s' \<and> \<not> m_zf s' \<and> \<not> m_sf s'
      \<and> \<not> m_tf s' \<and> \<not> m_df s' \<and> \<not> m_of s' \<and> \<not> m_nt s'
      \<and> \<not> m_vm s' \<and> \<not> m_rf s' \<and> \<not> m_ac s' \<and> \<not> m_vif s' \<and> \<not> m_vip s' \<and> \<not> m_id s'
      \<and> m_iopl s' = 3
      \<and> get_flags s' = 0x3202
      \<and> m_segment s' CS = (if m_is_for_autotest s then entry_cs s else 0xf000)
      \<and> m_eip s' = (if m_is_for_autotest s then ucast (entry_ip s) else 0)
      \<and> m_memory s' = m_memory s \<and> m_memory_size s' = m_memory_size s)
   \<and> (\<exists>s'. hard_reboot ext s = Inr ((), s')
      \<and> (\<forall>r. m_gpr s' r = 0)
      \<and> m_if s' \<and> \<not> m_cf s' \<and> \<not> m_pf s' \<and> \<not> m_af s' \<and> \<not> m_zf s' \<and> \<not> m_sf s'
      \<and> \<not> m_tf s' \<and> \<not> m_df s' \<and> \<not> m_of s' \<and> \<not> m_nt s'
      \<and> \<not> m_vm s' \<and> \<not> m_rf s' \<and> \<not> m_ac s' \<and> \<not> m_vif s' \<and> \<not> m_vip s' \<and> \<not> m_id s'
      \<and> m_iopl s' = 3
      \<and> get_flags s' = 0x3202
      \<and> m_segment s' CS = (if m_is_for_autotest s then entry_cs s else 0xf000)
      \<and> m_eip s' = (if m_is_for_autotest s then ucast (entry_ip s) else 0)
      \<and> m_memory s' = m_memory s \<and> m_memory_size s' = m_memory_size s
      \<and> \<not> m_should_hard_reboot s')"
  by (simp add: hard_reboot_unfolded reset_unfolded reset_finish_frame
      real_mode_segment_load_frame reset_registers_frame set_eip_def
      reset_finish_upper_flags real_mode_segment_load_upper_flags
      reset_registers_upper_flags get_flags_reset get_flags_should_hard_reboot)

section \<open>Page-table entries in memory\<close>

lemma aligned_dvd: "((a::u32) AND 3 = 0) = (4 dvd unat a)"
proof -
  have "(3::u32) = mask 2" by (simp add: mask_eq_exp_minus_1)
  then have "(a AND 3 = 0) = (take_bit 2 a = 0)" by (simp add: take_bit_eq_mask)
  also have "\<dots> = (unat (take_bit 2 a) = 0)" by (simp add: unat_eq_0)
  also have "\<dots> = (unat a mod 4 = 0)" by (simp add: unsigned_take_bit_eq) (simp add: take_bit_eq_mod)
  finally show ?thesis by (simp add: dvd_eq_mod_eq_0)
qed

lemma aligned_unat_add:
  assumes "(a::u32) AND 3 = 0" "i < 4"
  shows "unat (a + of_nat i) = unat a + i"
proof -
  have d: "4 dvd unat a" using assms(1) by (simp add: aligned_dvd)
  have "unat a < 4294967296" using unsigned_less [of a] by simp
  with d have "unat a + i < 4294967296" using assms(2) by presburger
  then show ?thesis
    by (simp add: unat_word_ariths unat_of_nat take_bit_eq_mod)
qed

lemma aligned_add_inj:
  assumes "(a::u32) AND 3 = 0" "(b::u32) AND 3 = 0" "i < 4" "j < 4"
    and "a + of_nat i = b + of_nat j"
  shows "a = b \<and> i = j"
proof -
  have "unat a + i = unat b + j"
    using aligned_unat_add [OF assms(1,3)] aligned_unat_add [OF assms(2,4)] assms(5) by simp
  moreover have "4 dvd unat a" "4 dvd unat b" using assms by (simp_all add: aligned_dvd)
  ultimately have "unat a = unat b \<and> i = j" using assms(3,4) by presburger
  then show ?thesis by (simp add: word_unat_eq_iff)
qed

lemma aligned_distinct:
  assumes "(a::u32) AND 3 = 0" "(b::u32) AND 3 = 0" "a \<noteq> b"
  shows "a \<noteq> b + 1" "a \<noteq> b + 2" "a \<noteq> b + 3"
    "a + 1 \<noteq> b" "a + 1 \<noteq> b + 1" "a + 1 \<noteq> b + 2" "a + 1 \<noteq> b + 3"
    "a + 2 \<noteq> b" "a + 2 \<noteq> b + 1" "a + 2 \<noteq> b + 2" "a + 2 \<noteq> b + 3"
    "a + 3 \<noteq> b" "a + 3 \<noteq> b + 1" "a + 3 \<noteq> b + 2" "a + 3 \<noteq> b + 3"
  using aligned_add_inj [OF assms(1,2), of 0 1] aligned_add_inj [OF assms(1,2), of 0 2]
    aligned_add_inj [OF assms(1,2), of 0 3]
    aligned_add_inj [OF assms(1,2), of 1 0] aligned_add_inj [OF assms(1,2), of 1 1]
    aligned_add_inj [OF assms(1,2), of 1 2] aligned_add_inj [OF assms(1,2), of 1 3]
    aligned_add_inj [OF assms(1,2), of 2 0] aligned_add_inj [OF assms(1,2), of 2 1]
    aligned_add_inj [OF assms(1,2), of 2 2] aligned_add_inj [OF assms(1,2), of 2 3]
    aligned_add_inj [OF assms(1,2), of 3 0] aligned_add_inj [OF assms(1,2), of 3 1]
    aligned_add_inj [OF assms(1,2), of 3 2] aligned_add_inj [OF assms(1,2), of 3 3]
    assms(3)
  by auto

lemma weld_roundtrip32:
  "weld32 (weld16 (ucast (drop_bit 24 v)) (ucast (drop_bit 16 v)))
          (weld16 (ucast (drop_bit 8 v)) (ucast v)) = (v::u32)"
  unfolding weld32_def weld16_def
proof (rule bit_word_eqI)
  fix n
  assume "n < LENGTH(32)"
  then consider "n < 8" | "8 \<le> n" "n < 16" | "16 \<le> n" "n < 24" | "24 \<le> n" "n < 32"
    by fastforce
  then show "bit (push_bit 16 (ucast (push_bit 8 (ucast (ucast (drop_bit 24 v) :: u8)) OR
                 (ucast (ucast (drop_bit 16 v) :: u8) :: u16))) OR
              ucast (push_bit 8 (ucast (ucast (drop_bit 8 v) :: u8)) OR
                 (ucast (ucast v :: u8) :: u16)) :: u32) n = bit v n"
    by cases (auto simp: bit_simps)
qed

lemma read32_write32_same:
  "a < m_memory_size s \<Longrightarrow>
   read_physical_memory32 (write_physical_memory32 a v s) a = v"
  by (simp add: read_physical_memory32_def write_physical_memory32_def
      validate_physical_address_def weld_roundtrip32)

lemma read32_write32_other:
  assumes "a AND 3 = 0" "b AND 3 = 0" "a \<noteq> b"
  shows "read_physical_memory32 (write_physical_memory32 b v s) a = read_physical_memory32 s a"
  using aligned_distinct [OF assms]
  by (simp add: read_physical_memory32_def write_physical_memory32_def
      validate_physical_address_def)


lemma aligned_add: "(a::u32) AND 3 = 0 \<Longrightarrow> b AND 3 = 0 \<Longrightarrow> (a + b) AND 3 = 0"
  by (simp add: aligned_dvd unat_word_ariths dvd_mod)

lemma aligned_times4: "((x::u32) * 4) AND 3 = 0"
  by (simp add: aligned_dvd unat_word_ariths dvd_mod)

lemma aligned_page_mask: "((x::u32) AND 0xfffff000) AND 3 = 0"
  by (simp add: and.assoc)

lemma aligned_cr3: "(c::u32) AND 0x3ff = 0 \<Longrightarrow> c AND 3 = 0"
proof -
  assume a: "c AND 0x3ff = 0"
  have "c AND 3 = (c AND 0x3ff) AND 3" by (simp add: and.assoc)
  with a show ?thesis by simp
qed

lemma aligned_pde_address: "m_cr3 s AND 0x3ff = 0 \<Longrightarrow> pde_address s la AND 3 = 0"
  by (simp add: pde_address_def aligned_add aligned_times4 aligned_cr3)

lemma aligned_pte_address: "pte_address pde la AND 3 = 0"
  by (simp add: pte_address_def aligned_add aligned_times4 aligned_page_mask)

lemma slow_case_success:
  "walk_ok s la acc cpl \<Longrightarrow>
   translate_address_slow_case la acc cpl s = Inr (walk_result s la acc)"
  by (auto simp: translate_address_slow_case_def walk_ok_def walk_result_def Let_def)


lemma slow_case_fault_frame:
  "translate_address_slow_case la acc cpl s = Inl (e, s') \<Longrightarrow> m_memory s' = m_memory s"
  by (auto simp: translate_address_slow_case_def Let_def PageFault_def split: if_splits)

lemma slow_case_success_iff:
  "(\<exists>r. translate_address_slow_case la acc cpl s = Inr r) = walk_ok s la acc cpl"
  apply (simp add: translate_address_slow_case_def walk_ok_def Let_def PageFault_def)
  apply blast
  done

lemma translate_paged:
  "get_pe s \<Longrightarrow> get_pg s \<Longrightarrow>
   translate_address la acc cpl s = translate_address_slow_case la acc cpl s"
  by (simp add: translate_address_def)

lemma walk_ok_valid:
  assumes "walk_ok s la acc cpl"
  shows "pde_address s la < m_memory_size s"
    and "pte_address (read_physical_memory32 s (pde_address s la)) la < m_memory_size s"
    and "pde_address s la AND 3 = 0"
proof -
  let ?pde = "read_physical_memory32 s (pde_address s la)"
  have "?pde AND PTE_Present \<noteq> 0" using assms by (simp add: walk_ok_def Let_def)
  then have "?pde \<noteq> 0" by auto
  then show "pde_address s la < m_memory_size s"
    by (auto simp: read_physical_memory32_def validate_physical_address_def split: if_splits)
  have "read_physical_memory32 s (pte_address ?pde la) AND PTE_Present \<noteq> 0"
    using assms by (simp add: walk_ok_def Let_def)
  then have "read_physical_memory32 s (pte_address ?pde la) \<noteq> 0" by auto
  then show "pte_address ?pde la < m_memory_size s"
    by (auto simp: read_physical_memory32_def validate_physical_address_def split: if_splits)
  show "pde_address s la AND 3 = 0"
    using assms by (simp add: walk_ok_def Let_def aligned_pde_address)
qed

lemma write32_size [simp]:
  "m_memory_size (write_physical_memory32 a v s) = m_memory_size s"
  by (simp add: write_physical_memory32_def)

lemma walk_result_readback:
  assumes ok: "walk_ok s la acc cpl"
  defines "pdeA \<equiv> pde_address s la"
  defines "pde \<equiv> read_physical_memory32 s pdeA"
  defines "pteA \<equiv> pte_address pde la"
  defines "pte \<equiv> read_physical_memory32 s pteA"
  defines "s' \<equiv> snd (walk_result s la acc)"
  shows "read_physical_memory32 s' pteA =
           (if acc = Write then pte OR PTE_Dirty else pte) OR PTE_Accessed"
    and "pdeA \<noteq> pteA \<Longrightarrow> read_physical_memory32 s' pdeA = pde OR PTE_Accessed"
proof -
  have v: "pdeA < m_memory_size s" "pteA < m_memory_size s" "pdeA AND 3 = 0"
    using walk_ok_valid [OF ok] by (simp_all add: pdeA_def pteA_def pde_def)
  have al: "pteA AND 3 = 0" by (simp add: pteA_def aligned_pte_address)
  show "read_physical_memory32 s' pteA =
           (if acc = Write then pte OR PTE_Dirty else pte) OR PTE_Accessed"
    using v by (simp add: s'_def walk_result_def Let_def read32_write32_same
        pdeA_def [symmetric] pde_def [symmetric] pteA_def [symmetric] pte_def [symmetric])
  assume ne: "pdeA \<noteq> pteA"
  show "read_physical_memory32 s' pdeA = pde OR PTE_Accessed"
    using v ne al by (simp add: s'_def walk_result_def Let_def read32_write32_same
        read32_write32_other
        pdeA_def [symmetric] pde_def [symmetric] pteA_def [symmetric] pte_def [symmetric])
qed



lemma accessed_bit: "((x::u32) AND PTE_Accessed \<noteq> 0) = bit x 5"
  using and_exp_eq_0_iff_not_bit [of x 5] by (simp add: PTE_Accessed_def)

lemma dirty_bit: "((x::u32) AND PTE_Dirty \<noteq> 0) = bit x 6"
  using and_exp_eq_0_iff_not_bit [of x 6] by (simp add: PTE_Dirty_def)

lemma bit_accessed_const: "bit PTE_Accessed n = (n = 5)"
proof -
  have h: "PTE_Accessed = (2::u32) ^ 5" by (simp add: PTE_Accessed_def)
  have "bit ((2::u32) ^ 5) n = (n = 5)" by (simp only: bit_exp_iff possible_bit_word) auto
  then show ?thesis by (simp only: h)
qed

lemma bit_dirty_const: "bit PTE_Dirty n = (n = 6)"
proof -
  have h: "PTE_Dirty = (2::u32) ^ 6" by (simp add: PTE_Dirty_def)
  have "bit ((2::u32) ^ 6) n = (n = 6)" by (simp only: bit_exp_iff possible_bit_word) auto
  then show ?thesis by (simp only: h)
qed

section \<open>Accessed and Dirty bits\<close>

text \<open>
  C6. With paging enabled, a translation that succeeds writes the page-directory entry
  back with Accessed set and then the page-table entry with Accessed set, and with Dirty
  set as well when the access is a write; afterwards both entries in memory have
  Accessed set, and the page-table entry has Dirty set exactly when the access is a
  write or Dirty was set before. A translation that does not succeed leaves memory, and
  so both entries, unchanged.
\<close>

theorem accessed_dirty_written_back:
  assumes "get_pe s" and "get_pg s"
  shows "case translate_address la acc cpl s of
           Inl (e, s') \<Rightarrow> m_memory s' = m_memory s
         | Inr (pa, s') \<Rightarrow>
             (let pdeA = pde_address s la;
                  pde = read_physical_memory32 s pdeA;
                  pteA = pte_address pde la;
                  pte = read_physical_memory32 s pteA
              in s' = write_physical_memory32 pteA
                        ((if acc = Write then pte OR PTE_Dirty else pte) OR PTE_Accessed)
                        (write_physical_memory32 pdeA (pde OR PTE_Accessed) s)
                 \<and> read_physical_memory32 s' pdeA AND PTE_Accessed \<noteq> 0
                 \<and> read_physical_memory32 s' pteA AND PTE_Accessed \<noteq> 0
                 \<and> (read_physical_memory32 s' pteA AND PTE_Dirty \<noteq> 0)
                     = (acc = Write \<or> pte AND PTE_Dirty \<noteq> 0)
                 \<and> (pdeA \<noteq> pteA \<longrightarrow> read_physical_memory32 s' pdeA = pde OR PTE_Accessed))"
proof (cases "walk_ok s la acc cpl")
  case True
  let ?pdeA = "pde_address s la"
  let ?pde = "read_physical_memory32 s ?pdeA"
  let ?pteA = "pte_address ?pde la"
  let ?pte = "read_physical_memory32 s ?pteA"
  obtain pa s2 where wr: "walk_result s la acc = (pa, s2)"
    by (cases "walk_result s la acc") simp
  then have s2: "s2 = snd (walk_result s la acc)" by simp
  have res: "translate_address la acc cpl s = Inr (pa, s2)"
    using assms True by (simp add: translate_paged slow_case_success wr)
  have st: "s2 = write_physical_memory32 ?pteA
                        ((if acc = Write then ?pte OR PTE_Dirty else ?pte) OR PTE_Accessed)
                        (write_physical_memory32 ?pdeA (?pde OR PTE_Accessed) s)"
    unfolding s2 by (simp add: walk_result_def Let_def)
  have pte': "read_physical_memory32 s2 ?pteA =
           (if acc = Write then ?pte OR PTE_Dirty else ?pte) OR PTE_Accessed"
    unfolding s2 by (rule walk_result_readback(1) [OF True])
  have pde': "?pdeA \<noteq> ?pteA \<Longrightarrow> read_physical_memory32 s2 ?pdeA = ?pde OR PTE_Accessed"
    unfolding s2 by (rule walk_result_readback(2) [OF True])
  have a1: "read_physical_memory32 s2 ?pteA AND PTE_Accessed \<noteq> 0"
    by (simp only: pte' accessed_bit bit_or_iff bit_accessed_const) simp
  have a2: "read_physical_memory32 s2 ?pdeA AND PTE_Accessed \<noteq> 0"
  proof (cases "?pdeA = ?pteA")
    case True
    then have "read_physical_memory32 s2 ?pdeA = read_physical_memory32 s2 ?pteA"
      by (rule arg_cong)
    with a1 show ?thesis by simp
  next
    case False
    then have e: "read_physical_memory32 s2 ?pdeA = ?pde OR PTE_Accessed" by (rule pde')
    show ?thesis by (simp only: e accessed_bit bit_or_iff bit_accessed_const) simp
  qed
  have d: "(read_physical_memory32 s2 ?pteA AND PTE_Dirty \<noteq> 0)
                     = (acc = Write \<or> ?pte AND PTE_Dirty \<noteq> 0)"
    by (simp only: pte' dirty_bit bit_or_iff bit_accessed_const bit_dirty_const if_distrib [of "\<lambda>x. bit x 6"] if_distrib [of "\<lambda>x. x OR PTE_Accessed"]) auto
  have concl: "s2 = write_physical_memory32 ?pteA
                        ((if acc = Write then ?pte OR PTE_Dirty else ?pte) OR PTE_Accessed)
                        (write_physical_memory32 ?pdeA (?pde OR PTE_Accessed) s)
                 \<and> read_physical_memory32 s2 ?pdeA AND PTE_Accessed \<noteq> 0
                 \<and> read_physical_memory32 s2 ?pteA AND PTE_Accessed \<noteq> 0
                 \<and> (read_physical_memory32 s2 ?pteA AND PTE_Dirty \<noteq> 0)
                     = (acc = Write \<or> ?pte AND PTE_Dirty \<noteq> 0)
                 \<and> (?pdeA \<noteq> ?pteA \<longrightarrow> read_physical_memory32 s2 ?pdeA = ?pde OR PTE_Accessed)"
    using st a1 a2 d pde' by blast
  show ?thesis
    apply (simp only: res sum.case prod.case Let_def)
    apply (rule concl)
    done
next
  case False
  then have "\<not> (\<exists>r. translate_address_slow_case la acc cpl s = Inr r)"
    by (simp only: slow_case_success_iff not_False_eq_True)
  then obtain e s' where f: "translate_address_slow_case la acc cpl s = Inl (e, s')"
    by (cases "translate_address_slow_case la acc cpl s") auto
  then show ?thesis
    using assms slow_case_fault_frame [OF f] by (simp add: translate_paged)
qed


theorem accessed_dirty_written_back_witness:
  "get_pe mapped_paging_machine \<and> get_pg mapped_paging_machine
   \<and> (case translate_address 0x00400000 Write 0xff mapped_paging_machine of
         Inl (e, s') \<Rightarrow> m_memory s' = m_memory mapped_paging_machine
       | Inr (pa, s') \<Rightarrow>
           (let pdeA = pde_address mapped_paging_machine 0x00400000;
                pde = read_physical_memory32 mapped_paging_machine pdeA;
                pteA = pte_address pde 0x00400000;
                pte = read_physical_memory32 mapped_paging_machine pteA
            in s' = write_physical_memory32 pteA
                      ((if Write = Write then pte OR PTE_Dirty else pte) OR PTE_Accessed)
                      (write_physical_memory32 pdeA (pde OR PTE_Accessed) mapped_paging_machine)
               \<and> read_physical_memory32 s' pdeA AND PTE_Accessed \<noteq> 0
               \<and> read_physical_memory32 s' pteA AND PTE_Accessed \<noteq> 0
               \<and> (read_physical_memory32 s' pteA AND PTE_Dirty \<noteq> 0)
                   = (Write = Write \<or> pte AND PTE_Dirty \<noteq> 0)
               \<and> (pdeA \<noteq> pteA \<longrightarrow> read_physical_memory32 s' pdeA = pde OR PTE_Accessed)))
   \<and> \<not> isl (translate_address 0x00400000 Write 0xff mapped_paging_machine)
   \<and> fst (projr (translate_address 0x00400000 Write 0xff mapped_paging_machine)) = 0x00100000
   \<and> isl (translate_address 0x00401000 Write 0xff mapped_paging_machine)"
proof -
  have h: "get_pe mapped_paging_machine" "get_pg mapped_paging_machine"
    by (simp_all add: mapped_paging_machine_def power_on_def get_pe_def get_pg_def)
  have pde: "read_physical_memory32 mapped_paging_machine 0x1004 = 0x2007"
    by (simp add: mapped_paging_machine_def power_on_def read_physical_memory32_def
        validate_physical_address_def weld32_def weld16_def)
  have pte: "read_physical_memory32 mapped_paging_machine 0x2000 = 0x100007"
    by (simp add: mapped_paging_machine_def power_on_def read_physical_memory32_def
        validate_physical_address_def weld32_def weld16_def)
  have pte1: "read_physical_memory32 mapped_paging_machine 0x2004 = 0"
    by (simp add: mapped_paging_machine_def power_on_def read_physical_memory32_def
        validate_physical_address_def weld32_def weld16_def)
  have c: "m_cr3 mapped_paging_machine = 0x1000" "m_memory_size mapped_paging_machine = 0x800000"
    "m_cr0 mapped_paging_machine = 0x80000001"
    by (simp_all add: mapped_paging_machine_def power_on_def)
  have ok: "walk_ok mapped_paging_machine 0x00400000 Write 0xff"
    by (simp add: walk_ok_def Let_def pde_address_def pte_address_def c pde pte
        PTE_Present_def PTE_UserSupervisor_def PTE_ReadWrite_def)
  have r1: "translate_address 0x00400000 Write 0xff mapped_paging_machine =
              Inr (walk_result mapped_paging_machine 0x00400000 Write)"
    using h ok by (simp add: translate_paged slow_case_success)
  have r2: "fst (walk_result mapped_paging_machine 0x00400000 Write) = 0x00100000"
    by (simp add: walk_result_def Let_def pde_address_def pte_address_def c pde pte
        PTE_Dirty_def PTE_Accessed_def)
  have nok: "\<not> walk_ok mapped_paging_machine 0x00401000 Write 0xff"
    by (simp add: walk_ok_def Let_def pde_address_def pte_address_def c pde pte1
        PTE_Present_def)
  then have "\<not> (\<exists>r. translate_address_slow_case 0x00401000 Write 0xff mapped_paging_machine = Inr r)"
    by (simp only: slow_case_success_iff not_False_eq_True)
  then have r3: "isl (translate_address 0x00401000 Write 0xff mapped_paging_machine)"
    using h by (cases "translate_address_slow_case 0x00401000 Write 0xff mapped_paging_machine")
      (auto simp: translate_paged)
  from accessed_dirty_written_back [OF h, of "0x00400000" Write "0xff"] h r1 r2 r3
  show ?thesis by simp
qed

section \<open>Accesses that cross a page boundary\<close>

lemma page_mask_const: "(0xfffff000::u32) = NOT (mask 12)"
  by (simp add: mask_eq_exp_minus_1)

lemma page_mask_push_drop: "(x::u32) AND 0xfffff000 = push_bit 12 (drop_bit 12 x)"
  unfolding page_mask_const
  by (rule bit_word_eqI) (auto simp: bit_simps)

lemma unat_page_mask: "unat ((x::u32) AND 0xfffff000) = (unat x div 4096) * 4096"
proof -
  have "unat x < 4294967296" using unsigned_less [of x] by simp
  moreover have "(unat x div 4096) * 4096 \<le> unat x" by (rule div_times_less_eq_dividend)
  ultimately have "(unat x div 4096) * 4096 < 4294967296" by linarith
  then show ?thesis
    by (simp add: page_mask_push_drop push_bit_eq_mult drop_bit_eq_div
        unat_word_ariths unat_div)
qed

lemma same_page_iff:
  "((x::u32) AND 0xfffff000 = y AND 0xfffff000) = (unat x div 4096 = unat y div 4096)"
proof -
  have "(x AND 0xfffff000 = y AND 0xfffff000)
        = (unat (x AND 0xfffff000) = unat (y AND 0xfffff000))"
    by (simp add: word_unat_eq_iff)
  then show ?thesis by (simp add: unat_page_mask)
qed

lemma same_page_drop:
  assumes "(x::u32) AND 0xfffff000 = y AND 0xfffff000"
  shows "drop_bit 12 x = drop_bit 12 y"
proof -
  have "unat (drop_bit 12 x) = unat (drop_bit 12 y)"
    using assms by (simp add: same_page_iff unat_drop_bit_eq drop_bit_eq_div unat_div)
  then show ?thesis by (simp add: word_unat_eq_iff)
qed

lemma same_page_addresses:
  assumes "(x::u32) AND 0xfffff000 = y AND 0xfffff000"
  shows "pde_address s x = pde_address s y" and "pte_address pde x = pte_address pde y"
proof -
  have d: "drop_bit 12 x = drop_bit 12 y" by (rule same_page_drop [OF assms])
  have "drop_bit 10 (drop_bit 12 x) = drop_bit 10 (drop_bit 12 y)" using d by (rule arg_cong)
  then have "drop_bit 22 x = drop_bit 22 y" by simp
  then show "pde_address s x = pde_address s y" by (simp add: pde_address_def)
  show "pte_address pde x = pte_address pde y" by (simp add: pte_address_def d)
qed

lemma page_split:
  fixes n :: nat
  assumes "n < 4294967296"
  obtains q r where "n = 4096 * q + r" "r < 4096" "q \<le> 1048575" "q = n div 4096" "r = n mod 4096"
proof -
  have "n div 4096 < 1048576" using assms by (simp add: less_mult_imp_div_less)
  then have "n div 4096 \<le> 1048575" by simp
  moreover have "n = 4096 * (n div 4096) + n mod 4096" by simp
  moreover have "n mod 4096 < 4096" by simp
  ultimately show ?thesis using that by blast
qed

lemma div_page: "r < 4096 \<Longrightarrow> (4096 * q + r) div 4096 = (q::nat)"
  by simp

lemma crossing_offsets:
  assumes "crosses_page la 3"
  shows "unat la mod 4096 = 4093 \<or> unat la mod 4096 = 4094 \<or> unat la mod 4096 = 4095"
proof (rule ccontr)
  assume neg: "\<not> ?thesis"
  have b: "unat la < 4294967296" using unsigned_less [of la] by simp
  from page_split [OF b] obtain q r where
    qr: "unat la = 4096 * q + r" "r < 4096" "q \<le> 1048575" "r = unat la mod 4096"
    by metis
  from neg qr(2,4) have r: "r + 3 < 4096" by linarith
  have lt: "unat la + 3 < 4294967296" using qr(1,3) r by linarith
  have "unat (la + 3) = unat la + 3" using lt by (simp add: unat_word_ariths)
  also have "\<dots> = 4096 * q + (r + 3)" using qr(1) by simp
  finally have "unat (la + 3) div 4096 = q" using r by (simp only: div_page)
  moreover have "unat la div 4096 = q" using qr(1,2) by (simp only: div_page)
  ultimately have "\<not> crosses_page la 3" by (simp add: crosses_page_def same_page_iff)
  with assms show False by simp
qed

lemma read32_write32:
  assumes "a AND 3 = 0" "b AND 3 = 0"
  shows "read_physical_memory32 (write_physical_memory32 b v s) a =
           (if a = b \<and> b < m_memory_size s then v else read_physical_memory32 s a)"
proof (cases "a = b")
  case True
  then show ?thesis
    by (auto simp: read32_write32_same)
       (simp add: write_physical_memory32_def validate_physical_address_def)
next
  case False
  then show ?thesis using assms by (simp add: read32_write32_other)
qed

lemma or_accessed_dirty:
  "((x::u32) OR PTE_Accessed) OR 0x60 = x OR 0x60"
  "(((x::u32) OR PTE_Dirty) OR PTE_Accessed) OR 0x60 = x OR 0x60"
  "((x::u32) OR PTE_Dirty) OR 0x60 = x OR 0x60"
  by (simp_all add: PTE_Accessed_def PTE_Dirty_def or.assoc)

lemma write32_frame:
  "m_cr0 (write_physical_memory32 a v s) = m_cr0 s"
  "m_cr3 (write_physical_memory32 a v s) = m_cr3 s"
  "m_descriptor (write_physical_memory32 a v s) = m_descriptor s"
  by (simp_all add: write_physical_memory32_def)

lemma walk_result_same_tables:
  assumes "walk_ok s la acc cpl"
  shows "same_tables s (snd (walk_result s la acc))"
proof -
  have al: "pde_address s la AND 3 = 0"
    "pte_address (read_physical_memory32 s (pde_address s la)) la AND 3 = 0"
    using walk_ok_valid(3) [OF assms] by (simp_all add: aligned_pte_address)
  show ?thesis
    unfolding same_tables_def walk_result_def Let_def snd_conv
    by (auto simp: write32_frame read32_write32 al or_accessed_dirty)
qed

lemma same_tables_refl: "same_tables s s"
  by (simp add: same_tables_def)

lemma same_tables_trans: "same_tables s t \<Longrightarrow> same_tables t u \<Longrightarrow> same_tables s u"
  by (simp add: same_tables_def)


lemma or_mask_and:
  assumes "(x::u32) OR 0x60 = y OR 0x60" and "c AND 0x60 = 0"
  shows "x AND c = y AND c"
proof -
  have k: "0x60 AND c = 0" using assms(2) by (simp only: and.commute)
  have "\<And>z::u32. (z OR 0x60) AND c = z AND c"
    by (simp only: bit.conj_disj_distrib2 k or.right_neutral)
  then show ?thesis using assms(1) by metis
qed

lemma same_tables_bits:
  assumes "same_tables s t" "a AND 3 = 0"
  shows "read_physical_memory32 t a AND PTE_Present = read_physical_memory32 s a AND PTE_Present"
    and "read_physical_memory32 t a AND PTE_ReadWrite = read_physical_memory32 s a AND PTE_ReadWrite"
    and "read_physical_memory32 t a AND PTE_UserSupervisor = read_physical_memory32 s a AND PTE_UserSupervisor"
    and "read_physical_memory32 t a AND 0xfffff000 = read_physical_memory32 s a AND 0xfffff000"
proof -
  have e: "read_physical_memory32 t a OR 0x60 = read_physical_memory32 s a OR 0x60"
    using assms by (simp add: same_tables_def)
  show "read_physical_memory32 t a AND PTE_Present = read_physical_memory32 s a AND PTE_Present"
    by (rule or_mask_and [OF e]) (simp add: PTE_Present_def)
  show "read_physical_memory32 t a AND PTE_ReadWrite = read_physical_memory32 s a AND PTE_ReadWrite"
    by (rule or_mask_and [OF e]) (simp add: PTE_ReadWrite_def)
  show "read_physical_memory32 t a AND PTE_UserSupervisor = read_physical_memory32 s a AND PTE_UserSupervisor"
    by (rule or_mask_and [OF e]) (simp add: PTE_UserSupervisor_def)
  show "read_physical_memory32 t a AND 0xfffff000 = read_physical_memory32 s a AND 0xfffff000"
    by (rule or_mask_and [OF e]) simp
qed

lemma same_tables_addresses:
  assumes "same_tables s t" "m_cr3 s AND 0x3ff = 0"
  shows "pde_address t la = pde_address s la"
    and "pte_address (read_physical_memory32 t (pde_address s la)) la
         = pte_address (read_physical_memory32 s (pde_address s la)) la"
proof -
  show p: "pde_address t la = pde_address s la"
    using assms(1) by (simp add: pde_address_def same_tables_def)
  have al: "pde_address s la AND 3 = 0" by (rule aligned_pde_address [OF assms(2)])
  show "pte_address (read_physical_memory32 t (pde_address s la)) la
         = pte_address (read_physical_memory32 s (pde_address s la)) la"
    unfolding pte_address_def same_tables_bits(4) [OF assms(1) al] ..
qed

lemma same_tables_mode:
  assumes "same_tables s t"
  shows "get_pe t = get_pe s" "get_pg t = get_pg s" "in_user_mode t cpl = in_user_mode s cpl"
    "m_cr3 t = m_cr3 s" "m_memory_size t = m_memory_size s" "m_cr0 t = m_cr0 s"
  using assms by (simp_all add: same_tables_def get_pe_def get_pg_def in_user_mode_def get_cpl_def)

lemma same_tables_walk_ok:
  assumes "same_tables s t"
  shows "walk_ok t la acc cpl = walk_ok s la acc cpl"
proof (cases "m_cr3 s AND 0x3ff = 0")
  case True
  have al: "pde_address s la AND 3 = 0" by (rule aligned_pde_address [OF True])
  have al2: "pte_address (read_physical_memory32 s (pde_address s la)) la AND 3 = 0"
    by (rule aligned_pte_address)
  show ?thesis
    by (simp only: walk_ok_def Let_def same_tables_addresses [OF assms True]
      same_tables_mode [OF assms] same_tables_bits [OF assms al] same_tables_bits [OF assms al2])
next
  case False
  then show ?thesis using assms by (simp add: walk_ok_def Let_def same_tables_def)
qed

lemma same_tables_not_present:
  assumes "same_tables s t" "m_cr3 s AND 0x3ff = 0"
  shows "not_present t la = not_present s la"
proof -
  have al: "pde_address s la AND 3 = 0" by (rule aligned_pde_address [OF assms(2)])
  have al2: "pte_address (read_physical_memory32 s (pde_address s la)) la AND 3 = 0"
    by (rule aligned_pte_address)
  show ?thesis
    by (simp only: not_present_def same_tables_addresses [OF assms]
      same_tables_bits [OF assms(1) al] same_tables_bits [OF assms(1) al2])
qed

lemma walk_ok_same_page:
  assumes "x AND 0xfffff000 = y AND 0xfffff000"
  shows "walk_ok s x acc cpl = walk_ok s y acc cpl"
  unfolding walk_ok_def same_page_addresses [OF assms] ..

lemma read_memory8_ok:
  assumes "get_pe s" "get_pg s" "walk_ok s la acc cpl"
  shows "\<exists>v. read_memory8 la acc cpl s = Inr (v, snd (walk_result s la acc))"
  using assms
  by (cases "walk_result s la acc")
     (simp add: read_memory8_def translate_paged slow_case_success bind_def)

lemma read_memory8_not_present:
  assumes "get_pe s" "get_pg s" "m_cr3 s < m_memory_size s" "m_cr3 s AND 0x3ff = 0"
    and "not_present s la"
  shows "read_memory8 la acc cpl s =
           Inl (Exception 0xe (makePFErrorCode PF_NotPresent acc (in_user_mode s cpl))
                  (Some la) ''Page fault'', s\<lparr>m_cr2 := la\<rparr>)"
  using assms
  by (auto simp: read_memory8_def translate_address_def translate_address_slow_case_def
      bind_def Let_def PageFault_def not_present_def)

lemma byte_step:
  assumes inv: "same_tables s t" and pe: "get_pe s" and pg: "get_pg s"
    and ok: "walk_ok s la acc cpl" and pgx: "x AND 0xfffff000 = la AND 0xfffff000"
  shows "\<exists>v t'. read_memory8 x acc cpl t = Inr (v, t') \<and> same_tables s t'"
proof -
  have okt: "walk_ok t x acc cpl"
    using ok by (simp only: same_tables_walk_ok [OF inv] walk_ok_same_page [OF pgx])
  have m: "get_pe t" "get_pg t" using pe pg by (simp_all add: same_tables_mode [OF inv])
  from read_memory8_ok [OF m okt] obtain v where
    r: "read_memory8 x acc cpl t = Inr (v, snd (walk_result t x acc))" by blast
  have "same_tables s (snd (walk_result t x acc))"
    by (rule same_tables_trans [OF inv walk_result_same_tables [OF okt]])
  with r show ?thesis by blast
qed

lemma byte_fault:
  assumes inv: "same_tables s t" and pe: "get_pe s" and pg: "get_pg s"
    and ok: "walk_ok s la acc cpl" and np: "not_present s x"
  shows "read_memory8 x acc cpl t =
           Inl (Exception 0xe (makePFErrorCode PF_NotPresent acc (in_user_mode s cpl))
                  (Some x) ''Page fault'', t\<lparr>m_cr2 := x\<rparr>)"
proof -
  have c: "m_cr3 s < m_memory_size s" "m_cr3 s AND 0x3ff = 0"
    using ok by (simp_all add: walk_ok_def Let_def)
  have m: "get_pe t" "get_pg t" "m_cr3 t < m_memory_size t" "m_cr3 t AND 0x3ff = 0"
    using pe pg c by (simp_all add: same_tables_mode [OF inv])
  have "not_present t x" using np by (simp only: same_tables_not_present [OF inv c(2)])
  from read_memory8_not_present [OF m this, of acc cpl] show ?thesis
    by (simp only: same_tables_mode [OF inv])
qed

lemma addr_unat:
  assumes "unat (la::u32) mod 4096 + i < 4096"
  shows "unat (la + of_nat i) = unat la + i"
proof -
  have b: "unat la < 4294967296" using unsigned_less [of la] by simp
  from page_split [OF b] obtain q r where
    qr: "unat la = 4096 * q + r" "r < 4096" "q \<le> 1048575" "r = unat la mod 4096"
    by metis
  have "unat la + i < 4294967296" using qr assms by linarith
  moreover have "i < 4294967296" using assms by linarith
  ultimately show ?thesis by (simp add: unat_word_ariths unat_of_nat take_bit_eq_mod)
qed

lemma addr_same_page:
  assumes "unat (la::u32) mod 4096 + i < 4096"
  shows "(la + of_nat i) AND 0xfffff000 = la AND 0xfffff000"
proof -
  have b: "unat la < 4294967296" using unsigned_less [of la] by simp
  from page_split [OF b] obtain q r where
    qr: "unat la = 4096 * q + r" "r < 4096" "q \<le> 1048575" "r = unat la mod 4096"
    by metis
  have "unat (la + of_nat i) = 4096 * q + (r + i)" using addr_unat [OF assms] qr(1) by simp
  moreover have "r + i < 4096" using assms qr(4) by simp
  ultimately have "unat (la + of_nat i) div 4096 = q" by (simp only: div_page)
  moreover have "unat la div 4096 = q" using qr(1,2) by (simp only: div_page)
  ultimately show ?thesis by (simp add: same_page_iff)
qed

lemma addr_next_page:
  assumes "unat (la::u32) mod 4096 + i = 4096"
  shows "la + of_nat i = (la AND 0xfffff000) + 0x1000"
proof -
  have b: "unat la < 4294967296" using unsigned_less [of la] by simp
  from page_split [OF b] obtain q r where
    qr: "unat la = 4096 * q + r" "r < 4096" "q \<le> 1048575" "r = unat la mod 4096"
      "q = unat la div 4096"
    by metis
  have i: "i \<le> 4096" using assms by linarith
  have "unat (la + of_nat i) = (unat la + i) mod 4294967296"
    using i by (simp add: unat_word_ariths unat_of_nat take_bit_eq_mod)
  also have "unat la + i = q * 4096 + 4096" using qr(1,4) assms by linarith
  finally have l: "unat (la + of_nat i) = (q * 4096 + 4096) mod 4294967296" .
  have "unat ((la AND 0xfffff000) + 0x1000) = (q * 4096 + 4096) mod 4294967296"
    by (simp add: unat_word_ariths unat_page_mask qr(5))
  with l show ?thesis by (simp add: word_unat_eq_iff)
qed

lemma translate_ok_walk:
  assumes "get_pe s" "get_pg s" "\<not> isl (translate_address la acc cpl s)"
  shows "walk_ok s la acc cpl"
proof -
  from assms(3) obtain r where "translate_address la acc cpl s = Inr r"
    by (cases "translate_address la acc cpl s") auto
  then have "\<exists>r. translate_address_slow_case la acc cpl s = Inr r"
    using assms(1,2) by (simp add: translate_paged)
  then show ?thesis by (simp only: slow_case_success_iff)
qed

lemma crossing_read32_faults:
  assumes pe: "get_pe s" and pg: "get_pg s"
    and cross: "crosses_page la 3"
    and ok: "walk_ok s la acc cpl"
    and np: "not_present s ((la AND 0xfffff000) + 0x1000)"
  shows "\<exists>s'. read_memory32 la acc cpl s =
            Inl (Exception 0xe (makePFErrorCode PF_NotPresent acc (in_user_mode s cpl))
                   (Some ((la AND 0xfffff000) + 0x1000)) ''Page fault'', s')
          \<and> m_cr2 s' = (la AND 0xfffff000) + 0x1000"
proof -
  let ?la2 = "(la AND 0xfffff000) + 0x1000"
  let ?E = "\<lambda>t. Inl (Exception 0xe (makePFErrorCode PF_NotPresent acc (in_user_mode s cpl))
                   (Some ?la2) ''Page fault'', t\<lparr>m_cr2 := ?la2\<rparr>) :: u32 result"
  have unf: "read_memory32 la acc cpl s =
        bind (read_memory8 la acc cpl s) (\<lambda>b1 s1.
        bind (read_memory8 (la + 1) acc cpl s1) (\<lambda>b2 s2.
        bind (read_memory8 (la + 2) acc cpl s2) (\<lambda>b3 s3.
        bind (read_memory8 (la + 3) acc cpl s3) (\<lambda>b4 s4.
        Inr (weld32 (weld16 b4 b3) (weld16 b2 b1), s4)))))"
    using pg cross by (simp add: read_memory32_def)
  from byte_step [OF same_tables_refl pe pg ok refl] obtain b1 s1 where
    r0: "read_memory8 la acc cpl s = Inr (b1, s1)" and i1: "same_tables s s1" by blast
  from crossing_offsets [OF cross] consider
    "unat la mod 4096 = 4095" | "unat la mod 4096 = 4094" | "unat la mod 4096 = 4093" by blast
  then show ?thesis
  proof cases
    case 1
    have "la + of_nat 1 = ?la2" by (rule addr_next_page) (simp add: 1)
    then have a1: "la + 1 = ?la2" by simp
    have f: "read_memory8 (la + 1) acc cpl s1 =
        Inl (Exception 0xe (makePFErrorCode PF_NotPresent acc (in_user_mode s cpl))
                   (Some ?la2) ''Page fault'', s1\<lparr>m_cr2 := ?la2\<rparr>)"
      unfolding a1 by (rule byte_fault [OF i1 pe pg ok np])
    show ?thesis
      by (rule exI [of _ "s1\<lparr>m_cr2 := ?la2\<rparr>"]) (simp add: unf r0 f bind_def)
  next
    case 2
    have "(la + of_nat 1) AND 0xfffff000 = la AND 0xfffff000"
      by (rule addr_same_page) (simp add: 2)
    then have p1: "(la + 1) AND 0xfffff000 = la AND 0xfffff000" by simp
    from byte_step [OF i1 pe pg ok p1] obtain b2 s2 where
      r1: "read_memory8 (la + 1) acc cpl s1 = Inr (b2, s2)" and i2: "same_tables s s2" by blast
    have "la + of_nat 2 = ?la2" by (rule addr_next_page) (simp add: 2)
    then have a2: "la + 2 = ?la2" by simp
    have f: "read_memory8 (la + 2) acc cpl s2 =
        Inl (Exception 0xe (makePFErrorCode PF_NotPresent acc (in_user_mode s cpl))
                   (Some ?la2) ''Page fault'', s2\<lparr>m_cr2 := ?la2\<rparr>)"
      unfolding a2 by (rule byte_fault [OF i2 pe pg ok np])
    show ?thesis
      by (rule exI [of _ "s2\<lparr>m_cr2 := ?la2\<rparr>"]) (simp add: unf r0 r1 f bind_def)
  next
    case 3
    have "(la + of_nat 1) AND 0xfffff000 = la AND 0xfffff000"
      by (rule addr_same_page) (simp add: 3)
    then have p1: "(la + 1) AND 0xfffff000 = la AND 0xfffff000" by simp
    from byte_step [OF i1 pe pg ok p1] obtain b2 s2 where
      r1: "read_memory8 (la + 1) acc cpl s1 = Inr (b2, s2)" and i2: "same_tables s s2" by blast
    have "(la + of_nat 2) AND 0xfffff000 = la AND 0xfffff000"
      by (rule addr_same_page) (simp add: 3)
    then have p2: "(la + 2) AND 0xfffff000 = la AND 0xfffff000" by simp
    from byte_step [OF i2 pe pg ok p2] obtain b3 s3 where
      r2: "read_memory8 (la + 2) acc cpl s2 = Inr (b3, s3)" and i3: "same_tables s s3" by blast
    have "la + of_nat 3 = ?la2" by (rule addr_next_page) (simp add: 3)
    then have a3: "la + 3 = ?la2" by simp
    have f: "read_memory8 (la + 3) acc cpl s3 =
        Inl (Exception 0xe (makePFErrorCode PF_NotPresent acc (in_user_mode s cpl))
                   (Some ?la2) ''Page fault'', s3\<lparr>m_cr2 := ?la2\<rparr>)"
      unfolding a3 by (rule byte_fault [OF i3 pe pg ok np])
    show ?thesis
      by (rule exI [of _ "s3\<lparr>m_cr2 := ?la2\<rparr>"]) (simp add: unf r0 r1 r2 f bind_def)
  qed
qed

lemma weld_little_endian:
  "weld32 (weld16 b4 b3) (weld16 b2 b1) =
     ucast b1 OR push_bit 8 (ucast b2) OR push_bit 16 (ucast b3) OR push_bit 24 (ucast b4)"
  unfolding weld32_def weld16_def
proof (rule bit_word_eqI)
  fix n
  assume "n < LENGTH(32)"
  then consider "n < 8" | "8 \<le> n" "n < 16" | "16 \<le> n" "n < 24" | "24 \<le> n" "n < 32"
    by fastforce
  then show "bit (push_bit 16 (ucast (push_bit 8 (ucast b4) OR (ucast b3 :: u16))) OR
              ucast (push_bit 8 (ucast b2) OR (ucast b1 :: u16)) :: u32) n =
             bit (ucast b1 OR push_bit 8 (ucast b2) OR push_bit 16 (ucast b3) OR
                  push_bit 24 (ucast b4) :: u32) n"
    by cases (auto simp: bit_simps dest: bit_imp_le_length)
qed

lemma weld16_little_endian:
  "weld16 b2 b1 = ucast b1 OR push_bit 8 (ucast b2)"
  by (simp add: weld16_def or.commute)

lemma byte_of_word:
  "(ucast ((v::u32) AND 0xff) :: u8) = ucast v"
  "(ucast ((w::u16) AND 0xff) :: u8) = ucast w"
proof -
  have m: "(0xff::u32) = mask 8" "(0xff::u16) = mask 8" by (simp_all add: mask_eq_exp_minus_1)
  show "(ucast (v AND 0xff) :: u8) = ucast v"
    unfolding m by (rule bit_word_eqI) (auto simp: bit_simps)
  show "(ucast (w AND 0xff) :: u8) = ucast w"
    unfolding m by (rule bit_word_eqI) (auto simp: bit_simps)
qed

text \<open>
  C2. With CR0.PG set, a 2-byte or 4-byte access whose bytes span two pages is carried
  out as single-byte accesses at rising addresses, and the value is composed, or taken
  apart, in little-endian order: the byte at the lowest address is the low byte. As a
  consequence, with paging enabled, a 4-byte read that spans two pages, whose first
  page translates and whose second page has a page-directory or page-table entry that
  is not present, raises exception 14 with the first address of the second page as the
  faulting address and in CR2.
\<close>

theorem page_crossing_access_is_bytewise:
  "(get_pg s \<and> crosses_page la 1 \<longrightarrow>
      read_memory16 la acc cpl s =
        bind (read_memory8 la acc cpl s) (\<lambda>b1 s1.
        bind (read_memory8 (la + 1) acc cpl s1) (\<lambda>b2 s2.
        Inr (ucast b1 OR push_bit 8 (ucast b2), s2)))
      \<and> write_memory16 la w cpl s =
        bind (write_memory8 la (ucast w) cpl s) (\<lambda>u s1.
        write_memory8 (la + 1) (ucast (drop_bit 8 w)) cpl s1))
   \<and> (get_pg s \<and> crosses_page la 3 \<longrightarrow>
      read_memory32 la acc cpl s =
        bind (read_memory8 la acc cpl s) (\<lambda>b1 s1.
        bind (read_memory8 (la + 1) acc cpl s1) (\<lambda>b2 s2.
        bind (read_memory8 (la + 2) acc cpl s2) (\<lambda>b3 s3.
        bind (read_memory8 (la + 3) acc cpl s3) (\<lambda>b4 s4.
        Inr (ucast b1 OR push_bit 8 (ucast b2) OR push_bit 16 (ucast b3)
               OR push_bit 24 (ucast b4), s4)))))
      \<and> write_memory32 la v cpl s =
        bind (write_memory8 la (ucast v) cpl s) (\<lambda>u s1.
        bind (write_memory8 (la + 1) (ucast (drop_bit 8 v)) cpl s1) (\<lambda>u s2.
        bind (write_memory8 (la + 2) (ucast (drop_bit 16 v)) cpl s2) (\<lambda>u s3.
        write_memory8 (la + 3) (ucast (drop_bit 24 v)) cpl s3))))
   \<and> (get_pe s \<and> get_pg s \<and> crosses_page la 3
       \<and> \<not> isl (translate_address la acc cpl s)
       \<and> (read_physical_memory32 s (pde_address s ((la AND 0xfffff000) + 0x1000))
              AND PTE_Present = 0
            \<or> read_physical_memory32 s
                 (pte_address
                    (read_physical_memory32 s (pde_address s ((la AND 0xfffff000) + 0x1000)))
                    ((la AND 0xfffff000) + 0x1000)) AND PTE_Present = 0) \<longrightarrow>
      (\<exists>s'. read_memory32 la acc cpl s =
               Inl (Exception 0xe (makePFErrorCode PF_NotPresent acc (in_user_mode s cpl))
                      (Some ((la AND 0xfffff000) + 0x1000)) ''Page fault'', s')
            \<and> m_cr2 s' = (la AND 0xfffff000) + 0x1000))"
proof -
  have A: "get_pg s \<and> crosses_page la 1 \<longrightarrow>
      read_memory16 la acc cpl s =
        bind (read_memory8 la acc cpl s) (\<lambda>b1 s1.
        bind (read_memory8 (la + 1) acc cpl s1) (\<lambda>b2 s2.
        Inr (ucast b1 OR push_bit 8 (ucast b2), s2)))
      \<and> write_memory16 la w cpl s =
        bind (write_memory8 la (ucast w) cpl s) (\<lambda>u s1.
        write_memory8 (la + 1) (ucast (drop_bit 8 w)) cpl s1)"
    by (simp add: read_memory16_def write_memory16_def weld16_little_endian byte_of_word)
  have B: "get_pg s \<and> crosses_page la 3 \<longrightarrow>
      read_memory32 la acc cpl s =
        bind (read_memory8 la acc cpl s) (\<lambda>b1 s1.
        bind (read_memory8 (la + 1) acc cpl s1) (\<lambda>b2 s2.
        bind (read_memory8 (la + 2) acc cpl s2) (\<lambda>b3 s3.
        bind (read_memory8 (la + 3) acc cpl s3) (\<lambda>b4 s4.
        Inr (ucast b1 OR push_bit 8 (ucast b2) OR push_bit 16 (ucast b3)
               OR push_bit 24 (ucast b4), s4)))))
      \<and> write_memory32 la v cpl s =
        bind (write_memory8 la (ucast v) cpl s) (\<lambda>u s1.
        bind (write_memory8 (la + 1) (ucast (drop_bit 8 v)) cpl s1) (\<lambda>u s2.
        bind (write_memory8 (la + 2) (ucast (drop_bit 16 v)) cpl s2) (\<lambda>u s3.
        write_memory8 (la + 3) (ucast (drop_bit 24 v)) cpl s3)))"
    by (simp add: read_memory32_def write_memory32_def weld_little_endian byte_of_word)
  have C: "get_pe s \<and> get_pg s \<and> crosses_page la 3
       \<and> \<not> isl (translate_address la acc cpl s)
       \<and> not_present s ((la AND 0xfffff000) + 0x1000) \<longrightarrow>
      (\<exists>s'. read_memory32 la acc cpl s =
               Inl (Exception 0xe (makePFErrorCode PF_NotPresent acc (in_user_mode s cpl))
                      (Some ((la AND 0xfffff000) + 0x1000)) ''Page fault'', s')
            \<and> m_cr2 s' = (la AND 0xfffff000) + 0x1000)"
    using crossing_read32_faults translate_ok_walk by blast
  show ?thesis
    using A B C [unfolded not_present_def] by (intro conjI)
qed

theorem page_crossing_access_is_bytewise_witness:
  "get_pe mapped_paging_machine \<and> get_pg mapped_paging_machine
   \<and> crosses_page 0x00400FFE 3
   \<and> \<not> isl (translate_address 0x00400FFE Read 0xff mapped_paging_machine)
   \<and> read_physical_memory32 mapped_paging_machine
        (pte_address
           (read_physical_memory32 mapped_paging_machine
              (pde_address mapped_paging_machine 0x00401000)) 0x00401000) AND PTE_Present = 0
   \<and> (\<exists>s'. read_memory32 0x00400FFE Read 0xff mapped_paging_machine =
               Inl (Exception 0xe 0 (Some 0x00401000) ''Page fault'', s')
            \<and> m_cr2 s' = 0x00401000)"
proof -
  have h: "get_pe mapped_paging_machine" "get_pg mapped_paging_machine"
    by (simp_all add: mapped_paging_machine_def power_on_def get_pe_def get_pg_def)
  have x: "crosses_page 0x00400FFE 3" by (simp add: crosses_page_def)
  have pde: "read_physical_memory32 mapped_paging_machine 0x1004 = 0x2007"
    by (simp add: mapped_paging_machine_def power_on_def read_physical_memory32_def
        validate_physical_address_def weld32_def weld16_def)
  have pte: "read_physical_memory32 mapped_paging_machine 0x2000 = 0x100007"
    by (simp add: mapped_paging_machine_def power_on_def read_physical_memory32_def
        validate_physical_address_def weld32_def weld16_def)
  have pte1: "read_physical_memory32 mapped_paging_machine 0x2004 = 0"
    by (simp add: mapped_paging_machine_def power_on_def read_physical_memory32_def
        validate_physical_address_def weld32_def weld16_def)
  have c: "m_cr3 mapped_paging_machine = 0x1000" "m_memory_size mapped_paging_machine = 0x800000"
    "m_cr0 mapped_paging_machine = 0x80000001"
    by (simp_all add: mapped_paging_machine_def power_on_def)
  have cpl: "in_user_mode mapped_paging_machine 0xff = False"
    by (simp add: in_user_mode_def get_cpl_def mapped_paging_machine_def power_on_def
        flat_descriptor_def)
  have ok: "walk_ok mapped_paging_machine 0x00400FFE Read 0xff"
    by (simp add: walk_ok_def Let_def pde_address_def pte_address_def c pde pte cpl
        PTE_Present_def PTE_UserSupervisor_def PTE_ReadWrite_def)
  have first: "\<not> isl (translate_address 0x00400FFE Read 0xff mapped_paging_machine)"
    using h ok by (simp add: translate_paged slow_case_success)
  have np: "read_physical_memory32 mapped_paging_machine
        (pte_address
           (read_physical_memory32 mapped_paging_machine
              (pde_address mapped_paging_machine 0x00401000)) 0x00401000) AND PTE_Present = 0"
    by (simp add: pde_address_def pte_address_def c pde pte1)
  have code: "makePFErrorCode PF_NotPresent Read False = 0"
    by (simp add: makePFErrorCode_def PF_NotPresent_def PF_Read_def PF_SupervisorMode_def)
  note page_crossing_access_is_bytewise
         [of mapped_paging_machine "0x00400FFE" Read "0xff" 0 0, THEN conjunct2, THEN conjunct2]
  with h x first np show ?thesis by (simp add: cpl code)
qed

section \<open>Real-mode interrupt delivery\<close>

lemma low16: "(ucast (((x::u32) AND 0xffff0000) OR ucast (v::u16)) :: u16) = v"
proof -
  have m: "(0xffff0000::u32) = NOT (mask 16)" by (simp add: mask_eq_exp_minus_1)
  show ?thesis unfolding m
    by (rule bit_word_eqI) (auto simp: bit_simps)
qed

lemma write8_frame:
  "get_pe (write_physical_memory8 a v s) = get_pe s"
  "get_pg (write_physical_memory8 a v s) = get_pg s"
  "a20_mask (write_physical_memory8 a v s) = a20_mask s"
  by (simp_all add: write_physical_memory8_def get_pe_def get_pg_def a20_mask_def)

lemma write_memory16_real_mode:
  assumes "\<not> get_pe s"
  shows "write_memory16 la v cpl s = Inr ((), real_mode_write16 la v s)"
  using assms
  by (simp add: write_memory16_def write_memory8_def translate_address_def bind_def
      real_mode_write16_def write8_frame byte_of_word)

lemma push16_real_mode:
  assumes "\<not> get_pe s"
  shows "push16 v s =
           Inr ((), lower_stack_pointer 2
                  (real_mode_write16 (base (m_descriptor s SS) + stack_push_address s 2) v s))"
  using assms
  by (simp add: push16_def seg_write_memory16_def validated_def bind_def Let_def
      cached_descriptor_def linear_address_def write_memory16_real_mode)

lemma real_mode_write16_only_memory:
  "real_mode_write16 la v s = s\<lparr>m_memory := m_memory (real_mode_write16 la v s)\<rparr>"
  by (simp add: real_mode_write16_def write_physical_memory8_def write_physical_memory16_def)

lemma real_mode_write16_frame:
  "m_gpr (real_mode_write16 la v s) = m_gpr s"
  "m_descriptor (real_mode_write16 la v s) = m_descriptor s"
  "m_segment (real_mode_write16 la v s) = m_segment s"
  "m_eip (real_mode_write16 la v s) = m_eip s"
  "m_stackSize32 (real_mode_write16 la v s) = m_stackSize32 s"
  "m_cr0 (real_mode_write16 la v s) = m_cr0 s"
  "m_a20_enabled (real_mode_write16 la v s) = m_a20_enabled s"
  "m_memory_size (real_mode_write16 la v s) = m_memory_size s"
  "m_if (real_mode_write16 la v s) = m_if s"
  "m_tf (real_mode_write16 la v s) = m_tf s"
  by (subst real_mode_write16_only_memory, simp)+

lemma lower_stack_pointer_frame:
  "m_memory (lower_stack_pointer d s) = m_memory s"
  "m_descriptor (lower_stack_pointer d s) = m_descriptor s"
  "m_segment (lower_stack_pointer d s) = m_segment s"
  "m_eip (lower_stack_pointer d s) = m_eip s"
  "m_stackSize32 (lower_stack_pointer d s) = m_stackSize32 s"
  "m_cr0 (lower_stack_pointer d s) = m_cr0 s"
  "m_a20_enabled (lower_stack_pointer d s) = m_a20_enabled s"
  "m_memory_size (lower_stack_pointer d s) = m_memory_size s"
  "m_if (lower_stack_pointer d s) = m_if s"
  "m_tf (lower_stack_pointer d s) = m_tf s"
  "r \<noteq> RegisterESP \<Longrightarrow> m_gpr (lower_stack_pointer d s) r = m_gpr s r"
  by (simp_all add: lower_stack_pointer_def set_esp_def set_sp_def write_register16_def)

lemma mode_frame:
  "get_pe (real_mode_write16 la v s) = get_pe s"
  "get_pg (real_mode_write16 la v s) = get_pg s"
  "get_pe (lower_stack_pointer d s) = get_pe s"
  "get_pg (lower_stack_pointer d s) = get_pg s"
  "get_pe (set_eip e s) = get_pe s"
  "get_pg (set_eip e s) = get_pg s"
  "s16 (real_mode_write16 la v s) = s16 s"
  "s16 (lower_stack_pointer d s) = s16 s"
  "a20_mask (real_mode_write16 la v s) = a20_mask s"
  "a20_mask (lower_stack_pointer d s) = a20_mask s"
  by (simp_all add: get_pe_def get_pg_def s16_def a20_mask_def real_mode_write16_frame
      lower_stack_pointer_frame set_eip_def)

lemma stack_pointer_after_push:
  "get_sp (lower_stack_pointer 2 (real_mode_write16 la v s)) =
     (if s16 s then get_sp s - 2 else ucast (get_esp s - 2))"
  "get_esp (lower_stack_pointer 2 (real_mode_write16 la v s)) =
     (if s16 s then (get_esp s AND 0xffff0000) OR ucast (get_sp s - 2) else get_esp s - 2)"
  by (simp_all add: get_sp_def get_esp_def lower_stack_pointer_def
      s32_def s16_def set_sp_def set_esp_def read_register16_def write_register16_def low16
      real_mode_write16_frame)

lemma stack_push_address_after_push:
  "stack_push_address (lower_stack_pointer 2 (real_mode_write16 la v s)) n
     = stack_push_address s (n + 2)"
  by (simp add: stack_push_address_def mode_frame get_sp_def get_esp_def lower_stack_pointer_def
      s32_def s16_def set_sp_def set_esp_def read_register16_def write_register16_def low16
      real_mode_write16_frame diff_diff_eq add.commute)


lemma write16_memory_cong:
  "m_memory t = m_memory t' \<Longrightarrow> m_memory_size t = m_memory_size t' \<Longrightarrow>
   m_memory (write_physical_memory16 a v t) = m_memory (write_physical_memory16 a v t')"
  by (simp add: write_physical_memory16_def validate_physical_address_def)

lemma write16_size [simp]:
  "m_memory_size (write_physical_memory16 a v t) = m_memory_size t"
  by (simp add: write_physical_memory16_def)

lemma interrupt_entry_frame:
  "get_pe (set_eip e (real_mode_segment_load CS sel s)) = get_pe s"
  "get_pg (set_eip e (real_mode_segment_load CS sel s)) = get_pg s"
  "a20_mask (set_eip e (real_mode_segment_load CS sel s)) = a20_mask s"
  "m_descriptor (set_eip e (real_mode_segment_load CS sel s)) SS = m_descriptor s SS"
  "stack_push_address (set_eip e (real_mode_segment_load CS sel s)) n = stack_push_address s n"
  "m_memory (set_eip e (real_mode_segment_load CS sel s)) = m_memory s"
  "m_memory_size (set_eip e (real_mode_segment_load CS sel s)) = m_memory_size s"
  "m_segment (set_eip e (real_mode_segment_load CS sel s)) CS = sel"
  "m_eip (set_eip e (real_mode_segment_load CS sel s)) = e"
  "s16 (set_eip e (real_mode_segment_load CS sel s)) = s16 s"
  "get_sp (set_eip e (real_mode_segment_load CS sel s)) = get_sp s"
  "get_esp (set_eip e (real_mode_segment_load CS sel s)) = get_esp s"
  by (simp_all add: set_eip_def real_mode_segment_load_def Let_def update_default_sizes_def
      get_pe_def get_pg_def a20_mask_def stack_push_address_def s16_def get_sp_def get_esp_def
      read_register16_def)

lemma realModeInterrupt_unfolded:
  assumes "\<not> get_pe s"
  shows "realModeInterrupt ext isr source s =
    Inr ((), set_tf False (set_if False
      (lower_stack_pointer 2
        (real_mode_write16 (base (m_descriptor s SS) + stack_push_address s 6) (get_ip s)
      (lower_stack_pointer 2
        (real_mode_write16 (base (m_descriptor s SS) + stack_push_address s 4) (get_cs s)
      (lower_stack_pointer 2
        (real_mode_write16 (base (m_descriptor s SS) + stack_push_address s 2) (get_flags s)
      (set_eip (ucast (read_physical_memory16 s (ucast isr * 4)))
        (real_mode_segment_load CS (read_physical_memory16 s (ucast isr * 4 + 2)) s))))))))))"
proof -
  let ?b = "base (m_descriptor s SS)"
  let ?s0 = "set_eip (ucast (read_physical_memory16 s (ucast isr * 4)))
        (real_mode_segment_load CS (read_physical_memory16 s (ucast isr * 4 + 2)) s)"
  let ?s1 = "lower_stack_pointer 2 (real_mode_write16 (?b + stack_push_address s 2) (get_flags s) ?s0)"
  let ?s2 = "lower_stack_pointer 2 (real_mode_write16 (?b + stack_push_address s 4) (get_cs s) ?s1)"
  let ?s3 = "lower_stack_pointer 2 (real_mode_write16 (?b + stack_push_address s 6) (get_ip s) ?s2)"
  have pe0: "\<not> get_pe ?s0" using assms by (simp add: interrupt_entry_frame)
  have p1: "push16 (get_flags s) ?s0 = Inr ((), ?s1)"
    by (simp add: push16_real_mode [OF pe0] interrupt_entry_frame)
  have pe1: "\<not> get_pe ?s1" using pe0 by (simp add: mode_frame)
  have d1: "m_descriptor ?s1 SS = m_descriptor s SS"
    by (simp add: lower_stack_pointer_frame real_mode_write16_frame interrupt_entry_frame)
  have a1: "stack_push_address ?s1 2 = stack_push_address s 4"
    by (simp add: stack_push_address_after_push interrupt_entry_frame)
  have p2: "push16 (get_cs s) ?s1 = Inr ((), ?s2)"
    by (simp only: push16_real_mode [OF pe1] d1 a1)
  have pe2: "\<not> get_pe ?s2" using pe1 by (simp add: mode_frame)
  have d2: "m_descriptor ?s2 SS = m_descriptor s SS"
    by (simp add: lower_stack_pointer_frame real_mode_write16_frame interrupt_entry_frame)
  have a2: "stack_push_address ?s2 2 = stack_push_address s 6"
    by (simp add: stack_push_address_after_push interrupt_entry_frame)
  have p3: "push16 (get_ip s) ?s2 = Inr ((), ?s3)"
    by (simp only: push16_real_mode [OF pe2] d2 a2)
  have c: "set_cs ext (read_physical_memory16 s (ucast isr * 4 + 2)) s =
             Inr ((), real_mode_segment_load CS (read_physical_memory16 s (ucast isr * 4 + 2)) s)"
    using assms by (simp add: set_cs_def write_segment_register_def)
  show ?thesis
    using assms by (simp add: realModeInterrupt_def Let_def bind_def c p1 p2 p3)
qed


lemma current_stack_pointer_lowered:
  "current_stack_pointer (lower_stack_pointer n t) = stack_push_address t n"
  by (simp add: current_stack_pointer_def lower_stack_pointer_def stack_push_address_def
      s32_def s16_def get_sp_def get_esp_def set_sp_def set_esp_def read_register16_def
      write_register16_def low16)

lemma stack_push_address_write:
  "stack_push_address (real_mode_write16 la v t) n = stack_push_address t n"
  by (simp add: stack_push_address_def mode_frame get_sp_def get_esp_def read_register16_def
      real_mode_write16_frame)

lemma flag_clear_frame:
  "m_segment (set_tf False (set_if False t)) = m_segment t"
  "m_eip (set_tf False (set_if False t)) = m_eip t"
  "m_memory (set_tf False (set_if False t)) = m_memory t"
  "m_gpr (set_tf False (set_if False t)) = m_gpr t"
  "current_stack_pointer (set_tf False (set_if False t)) = current_stack_pointer t"
  "\<not> m_if (set_tf False (set_if False t))"
  "\<not> m_tf (set_tf False (set_if False t))"
  by (simp_all add: set_tf_def set_if_def current_stack_pointer_def s32_def get_esp_def
      get_sp_def read_register16_def)

lemma real_mode_write16_unpaged:
  "\<not> get_pg t \<Longrightarrow>
   real_mode_write16 la v t = write_physical_memory16 (la AND a20_mask t) v t"
  by (simp add: real_mode_write16_def)

text \<open>
  C4. In real mode the delivery of interrupt n always completes. It stores FLAGS, then
  CS, then IP as 16-bit words at the stack segment offsets 2, 4 and 6 below the stack
  pointer and leaves the stack pointer 6 lower; CS is loaded from physical address
  n*4+2 and IP from n*4, both read before the pushes; IF and TF are clear afterwards.
\<close>

theorem real_mode_interrupt_delivery:
  assumes "\<not> get_pe s"
  shows "\<exists>s'. realModeInterrupt ext isr source s = Inr ((), s')
     \<and> m_segment s' CS = read_physical_memory16 s (ucast isr * 4 + 2)
     \<and> m_eip s' = ucast (read_physical_memory16 s (ucast isr * 4))
     \<and> \<not> m_if s' \<and> \<not> m_tf s'
     \<and> current_stack_pointer s' = stack_push_address s 6
     \<and> m_memory_size s' = m_memory_size s
     \<and> (\<not> get_pg s \<longrightarrow>
          m_memory s' = m_memory
            (write_physical_memory16
               ((base (m_descriptor s SS) + stack_push_address s 6) AND a20_mask s) (get_ip s)
            (write_physical_memory16
               ((base (m_descriptor s SS) + stack_push_address s 4) AND a20_mask s) (get_cs s)
            (write_physical_memory16
               ((base (m_descriptor s SS) + stack_push_address s 2) AND a20_mask s) (get_flags s)
               s))))"
proof -
  let ?b = "base (m_descriptor s SS)"
  let ?s0 = "set_eip (ucast (read_physical_memory16 s (ucast isr * 4)))
        (real_mode_segment_load CS (read_physical_memory16 s (ucast isr * 4 + 2)) s)"
  let ?s1 = "lower_stack_pointer 2 (real_mode_write16 (?b + stack_push_address s 2) (get_flags s) ?s0)"
  let ?s2 = "lower_stack_pointer 2 (real_mode_write16 (?b + stack_push_address s 4) (get_cs s) ?s1)"
  let ?s3 = "lower_stack_pointer 2 (real_mode_write16 (?b + stack_push_address s 6) (get_ip s) ?s2)"
  let ?w1 = "write_physical_memory16 ((?b + stack_push_address s 2) AND a20_mask s) (get_flags s) s"
  let ?w2 = "write_physical_memory16 ((?b + stack_push_address s 4) AND a20_mask s) (get_cs s) ?w1"
  let ?w3 = "write_physical_memory16 ((?b + stack_push_address s 6) AND a20_mask s) (get_ip s) ?w2"
  have r: "realModeInterrupt ext isr source s = Inr ((), set_tf False (set_if False ?s3))"
    by (rule realModeInterrupt_unfolded [OF assms])
  have cs: "m_segment ?s3 CS = read_physical_memory16 s (ucast isr * 4 + 2)"
    by (simp add: lower_stack_pointer_frame real_mode_write16_frame interrupt_entry_frame)
  have ip: "m_eip ?s3 = ucast (read_physical_memory16 s (ucast isr * 4))"
    by (simp add: lower_stack_pointer_frame real_mode_write16_frame interrupt_entry_frame)
  have sp: "current_stack_pointer ?s3 = stack_push_address s 6"
    by (simp add: current_stack_pointer_lowered stack_push_address_write
        stack_push_address_after_push interrupt_entry_frame)
  have sz: "m_memory_size (set_tf False (set_if False ?s3)) = m_memory_size s"
    by (simp add: set_tf_def set_if_def lower_stack_pointer_frame real_mode_write16_frame
        interrupt_entry_frame)
  have mem: "m_memory ?s3 = m_memory ?w3" if pg: "\<not> get_pg s"
  proof -
    have g0: "\<not> get_pg ?s0" using pg by (simp add: interrupt_entry_frame)
    have g1: "\<not> get_pg ?s1" using g0 by (simp add: mode_frame)
    have g2: "\<not> get_pg ?s2" using g1 by (simp add: mode_frame)
    have k0: "a20_mask ?s0 = a20_mask s" by (simp add: interrupt_entry_frame)
    have k1: "a20_mask ?s1 = a20_mask s" using k0 by (simp add: mode_frame)
    have k2: "a20_mask ?s2 = a20_mask s" using k1 by (simp add: mode_frame)
    have m1: "m_memory ?s1 = m_memory ?w1"
      unfolding lower_stack_pointer_frame(1) real_mode_write16_unpaged [OF g0] k0
      by (rule write16_memory_cong) (simp_all add: interrupt_entry_frame)
    have z1: "m_memory_size ?s1 = m_memory_size ?w1"
      by (simp add: lower_stack_pointer_frame real_mode_write16_frame interrupt_entry_frame)
    have m2: "m_memory ?s2 = m_memory ?w2"
      unfolding lower_stack_pointer_frame(1) real_mode_write16_unpaged [OF g1] k1
      by (rule write16_memory_cong [OF m1 z1])
    have z2: "m_memory_size ?s2 = m_memory_size ?w2"
      by (simp add: lower_stack_pointer_frame real_mode_write16_frame interrupt_entry_frame)
    show "m_memory ?s3 = m_memory ?w3"
      unfolding lower_stack_pointer_frame(1) real_mode_write16_unpaged [OF g2] k2
      by (rule write16_memory_cong [OF m2 z2])
  qed
  show ?thesis
    apply (rule exI [of _ "set_tf False (set_if False ?s3)"])
    apply (simp only: r flag_clear_frame cs ip sp sz)
    using mem apply simp
    done
qed


theorem real_mode_interrupt_delivery_witness:
  "\<not> get_pe int21_machine
   \<and> (\<exists>s'. realModeInterrupt no_externals 0x21 InternalSource int21_machine = Inr ((), s')
          \<and> m_segment s' CS = 0xF000 \<and> m_eip s' = 0x1234
          \<and> \<not> m_if s' \<and> \<not> m_tf s'
          \<and> current_stack_pointer s' = 0x0FFA
          \<and> read_physical_memory16 s' 0x0FFE = 0x0202
          \<and> read_physical_memory16 s' 0x0FFC = 0x0200
          \<and> read_physical_memory16 s' 0x0FFA = 0x0102)"
proof -
  have pe: "\<not> get_pe int21_machine" and pg: "\<not> get_pg int21_machine"
    by (simp_all add: int21_machine_def power_on_def get_pe_def get_pg_def)
  have v: "read_physical_memory16 int21_machine 134 = 0xF000"
    "read_physical_memory16 int21_machine 132 = 0x1234"
    by (simp_all add: int21_machine_def power_on_def read_physical_memory16_def
        validate_physical_address_def weld16_def)
  have a: "stack_push_address int21_machine 2 = 0x0FFE"
    "stack_push_address int21_machine 4 = 0x0FFC"
    "stack_push_address int21_machine 6 = 0x0FFA"
    by (simp_all add: stack_push_address_def s16_def get_sp_def read_register16_def
        int21_machine_def power_on_def)
  have b: "base (m_descriptor int21_machine SS) = 0" "a20_mask int21_machine = 0xFFEFFFFF"
    "m_memory_size int21_machine = 0x800000"
    by (simp_all add: int21_machine_def power_on_def flat_descriptor_def a20_mask_def)
  have f: "get_flags int21_machine = 0x0202" "get_cs int21_machine = 0x0200"
    "get_ip int21_machine = 0x0102"
    by (simp_all add: get_flags_def flag_bit_def get_cs_def get_ip_def int21_machine_def
        power_on_def)
  from real_mode_interrupt_delivery [OF pe, of no_externals "0x21" InternalSource]
  obtain s' where
    r: "realModeInterrupt no_externals 0x21 InternalSource int21_machine = Inr ((), s')"
    and p: "m_segment s' CS = 0xF000" "m_eip s' = 0x1234" "\<not> m_if s'" "\<not> m_tf s'"
      "current_stack_pointer s' = 0x0FFA" "m_memory_size s' = 0x800000"
    and m: "m_memory s' = m_memory
            (write_physical_memory16 0x0FFA 0x0102
            (write_physical_memory16 0x0FFC 0x0200
            (write_physical_memory16 0x0FFE 0x0202 int21_machine)))"
    using pg by (auto simp: v a b f)
  have "read_physical_memory16 s' 0x0FFE = 0x0202"
    "read_physical_memory16 s' 0x0FFC = 0x0200"
    "read_physical_memory16 s' 0x0FFA = 0x0102"
    by (simp_all add: read_physical_memory16_def validate_physical_address_def m p
        write_physical_memory16_def b weld16_def)
  with pe r p show ?thesis by blast
qed

section \<open>PUSHA\<close>

lemma push16_pushed16: "\<not> get_pe s \<Longrightarrow> push16 v s = Inr ((), pushed16 v s)"
  by (simp add: push16_real_mode pushed16_def)

lemma pushed16_frame:
  "get_pe (pushed16 v s) = get_pe s"
  "get_pg (pushed16 v s) = get_pg s"
  "s16 (pushed16 v s) = s16 s"
  "a20_mask (pushed16 v s) = a20_mask s"
  "m_descriptor (pushed16 v s) = m_descriptor s"
  "m_memory_size (pushed16 v s) = m_memory_size s"
  "r \<noteq> RegisterESP \<Longrightarrow> read_register16 (pushed16 v s) r = read_register16 s r"
  by (simp_all add: pushed16_def mode_frame lower_stack_pointer_frame real_mode_write16_frame
      read_register16_def)

lemma pushed16_sp:
  "s16 s \<Longrightarrow> get_sp (pushed16 v s) = get_sp s - 2"
  by (simp add: pushed16_def stack_pointer_after_push)

lemma pushed16_memory:
  assumes "\<not> get_pg s" "s16 s"
  shows "m_memory (pushed16 v s) =
     (if (base (m_descriptor s SS) + ucast (get_sp s - 2)) AND a20_mask s < m_memory_size s
      then (m_memory s)
             ((base (m_descriptor s SS) + ucast (get_sp s - 2)) AND a20_mask s := ucast v,
              ((base (m_descriptor s SS) + ucast (get_sp s - 2)) AND a20_mask s) + 1
                 := ucast (drop_bit 8 v))
      else m_memory s)"
  using assms
  by (simp add: pushed16_def lower_stack_pointer_frame real_mode_write16_unpaged
      write_physical_memory16_def validate_physical_address_def stack_push_address_def)

lemma PUSHA_unfolded:
  assumes "\<not> get_pe s"
  shows "PUSHA s = Inr ((),
      pushed16 (read_register16 s RegisterEDI)
     (pushed16 (read_register16 s RegisterESI)
     (pushed16 (read_register16 s RegisterEBP)
     (pushed16 (get_sp s)
     (pushed16 (read_register16 s RegisterEBX)
     (pushed16 (read_register16 s RegisterEDX)
     (pushed16 (read_register16 s RegisterECX)
     (pushed16 (read_register16 s RegisterEAX) s))))))))"
  using assms
  by (simp add: PUSHA_def Let_def bind_def push16_pushed16 pushed16_frame)


lemma weld16_roundtrip: "weld16 (ucast (drop_bit 8 v)) (ucast v) = (v::u16)"
  unfolding weld16_def
proof (rule bit_word_eqI)
  fix n
  assume "n < LENGTH(16)"
  then consider "n < 8" | "8 \<le> n" "n < 16" by fastforce
  then show "bit (push_bit 8 (ucast (ucast (drop_bit 8 v) :: u8)) OR
                 (ucast (ucast v :: u8) :: u16)) n = bit v n"
    by cases (auto simp: bit_simps)
qed

lemma below_1M: "(x::u32) < 0x100000 \<Longrightarrow> x AND 0xFFEFFFFF = x"
proof -
  assume "x < 0x100000"
  then have "x < 2 ^ 20" by simp
  then have e: "x AND mask 20 = x" by (rule less_mask_eq)
  have "(mask 20 :: u32) AND 0xFFEFFFFF = mask 20" by (simp add: mask_eq_exp_minus_1)
  then have "(x AND mask 20) AND 0xFFEFFFFF = x AND mask 20" by (simp add: and.assoc)
  with e show ?thesis by simp
qed

lemma and_all_ones: "(x::u32) AND 0xFFFFFFFF = x"
proof -
  have m: "(0xFFFFFFFF::u32) = mask 32" by (simp add: mask_eq_exp_minus_1)
  show ?thesis unfolding m by (rule bit_word_eqI) (auto simp: bit_simps)
qed

lemma stack_region:
  assumes "unat b + 0x1000 \<le> unat (m_memory_size s)"
    and "m_a20_enabled s \<or> unat b + 0x1000 \<le> 0x100000"
    and "unat (c::u32) < 0x1000"
  shows "(b + c) AND a20_mask s = b + c" and "b + c < m_memory_size s"
proof -
  have sz: "unat (m_memory_size s) < 4294967296" using unsigned_less [of "m_memory_size s"] by simp
  then have "unat b + unat c < 4294967296" using assms(1,3) by linarith
  then have u: "unat (b + c) = unat b + unat c" by (simp add: unat_word_ariths)
  show "b + c < m_memory_size s" using u assms(1,3) by (simp add: word_less_nat_alt)
  show "(b + c) AND a20_mask s = b + c"
  proof (cases "m_a20_enabled s")
    case True
    then show ?thesis by (simp add: a20_mask_def and_all_ones)
  next
    case False
    with assms(2) have "unat b + 0x1000 \<le> 0x100000" by simp
    then have "unat (b + c) < unat (0x100000::u32)" using u assms(3) by simp
    then have "b + c < 0x100000" by (simp only: word_less_nat_alt)
    then show ?thesis using False by (simp add: a20_mask_def below_1M)
  qed
qed

lemma seg_read_memory16_real_mode:
  assumes "\<not> get_pe t" "\<not> get_pg t"
  shows "seg_read_memory16 SS off Read t =
    Inr (read_physical_memory16 t ((base (m_descriptor t SS) + off) AND a20_mask t), t)"
  using assms
  by (simp add: seg_read_memory16_def validated_def read_memory16_def translate_address_def
      bind_def Let_def cached_descriptor_def linear_address_def)


lemma pushed16_word:
  assumes pg: "\<not> get_pg t" and s: "s16 t"
    and ph: "(base (m_descriptor t SS) + ucast (get_sp t - 2)) AND a20_mask t
             = base (m_descriptor t SS) + ucast (get_sp t - 2)"
    and va: "base (m_descriptor t SS) + ucast (get_sp t - 2) < m_memory_size t"
  shows "m_memory (pushed16 v t) =
     (m_memory t)(base (m_descriptor t SS) + ucast (get_sp t - 2) := ucast v,
                  base (m_descriptor t SS) + ucast (get_sp t - 2) + 1 := ucast (drop_bit 8 v))"
  using va by (simp add: pushed16_memory [OF pg s] ph)

lemma word_apart:
  fixes a b c :: u32
  assumes "unat a + 2 \<le> unat c" "unat c < 0x1000"
  shows "b + c \<noteq> b + a" "b + c \<noteq> b + a + 1" "b + c + 1 \<noteq> b + a" "b + c + 1 \<noteq> b + a + 1"
proof -
  have a1: "unat (a + 1) = unat a + 1" using assms by (simp add: unat_word_ariths)
  have c1: "unat (c + 1) = unat c + 1" using assms by (simp add: unat_word_ariths)
  have "c \<noteq> a" using assms by auto
  moreover have "c \<noteq> a + 1" using assms a1 by auto
  moreover have "c + 1 \<noteq> a" using assms c1 by auto
  moreover have "c + 1 \<noteq> a + 1" using assms by auto
  ultimately show "b + c \<noteq> b + a" "b + c \<noteq> b + a + 1" "b + c + 1 \<noteq> b + a" "b + c + 1 \<noteq> b + a + 1"
    by (simp_all add: add.assoc)
qed

lemma ucast_sub2:
  fixes sp :: u16
  assumes "2 \<le> unat sp"
  shows "unat (ucast (sp - 2) :: u32) = unat sp - 2"
proof -
  have "2 \<le> sp" using assms by (simp add: word_le_nat_alt)
  then have "unat (sp - 2) = unat sp - 2" by (simp add: unat_sub)
  moreover have "unat (sp - 2) < 2 ^ 16" using unsigned_less [of "sp - 2", where ?'a = nat] by simp
  then have "unat (sp - 2) < 2 ^ 32" by simp
  ultimately show ?thesis by (simp add: unsigned_ucast_eq take_bit_nat_eq_self)
qed

lemma pushed16_read:
  assumes pg: "\<not> get_pg t" and s: "s16 t"
    and ph: "(base (m_descriptor t SS) + ucast (get_sp t - 2)) AND a20_mask t
             = base (m_descriptor t SS) + ucast (get_sp t - 2)"
    and va: "base (m_descriptor t SS) + ucast (get_sp t - 2) < m_memory_size t"
    and lo: "2 \<le> unat (get_sp t)"
  shows "read_physical_memory16 (pushed16 v t)
           (base (m_descriptor t SS) + ucast (get_sp t - 2)) = v"
    and "unat (get_sp t) \<le> unat c \<Longrightarrow> unat c < 0x1000 \<Longrightarrow>
         read_physical_memory16 (pushed16 v t) (base (m_descriptor t SS) + c)
         = read_physical_memory16 t (base (m_descriptor t SS) + c)"
proof -
  let ?A = "base (m_descriptor t SS) + ucast (get_sp t - 2)"
  note m = pushed16_word [OF pg s ph va, of v]
  have ne: "?A \<noteq> ?A + 1" by simp
  show "read_physical_memory16 (pushed16 v t) ?A = v"
    using va ne
    by (simp add: read_physical_memory16_def validate_physical_address_def
         pushed16_frame m weld16_roundtrip)
  assume c: "unat (get_sp t) \<le> unat c" "unat c < 0x1000"
  have "unat (ucast (get_sp t - 2) :: u32) + 2 \<le> unat c"
    using ucast_sub2 [OF lo] lo c by simp
  note ap = word_apart [OF this c(2), of "base (m_descriptor t SS)"]
  show "read_physical_memory16 (pushed16 v t) (base (m_descriptor t SS) + c)
         = read_physical_memory16 t (base (m_descriptor t SS) + c)"
    using ap
    by (simp add: read_physical_memory16_def validate_physical_address_def
         pushed16_frame m)
qed

lemma pusha_words:
  assumes pe: "\<not> get_pe s" and pg: "\<not> get_pg s" and st: "s16 s"
    and sp: "get_sp s = 0x1000"
    and ram: "unat (base (m_descriptor s SS)) + 0x1000 \<le> unat (m_memory_size s)"
    and a20: "m_a20_enabled s \<or> unat (base (m_descriptor s SS)) + 0x1000 \<le> 0x100000"
  shows "\<exists>s'. PUSHA s = Inr ((), s') \<and> get_sp s' = 0x0FF0
     \<and> seg_read_memory16 SS 0x0FFE Read s' = Inr (read_register16 s RegisterEAX, s')
     \<and> seg_read_memory16 SS 0x0FFC Read s' = Inr (read_register16 s RegisterECX, s')
     \<and> seg_read_memory16 SS 0x0FFA Read s' = Inr (read_register16 s RegisterEDX, s')
     \<and> seg_read_memory16 SS 0x0FF8 Read s' = Inr (read_register16 s RegisterEBX, s')
     \<and> seg_read_memory16 SS 0x0FF6 Read s' = Inr (0x1000, s')
     \<and> seg_read_memory16 SS 0x0FF4 Read s' = Inr (read_register16 s RegisterEBP, s')
     \<and> seg_read_memory16 SS 0x0FF2 Read s' = Inr (read_register16 s RegisterESI, s')
     \<and> seg_read_memory16 SS 0x0FF0 Read s' = Inr (read_register16 s RegisterEDI, s')"
proof -
  let ?b = "base (m_descriptor s SS)"
  let ?ax = "read_register16 s RegisterEAX"
  let ?cx = "read_register16 s RegisterECX"
  let ?dx = "read_register16 s RegisterEDX"
  let ?bx = "read_register16 s RegisterEBX"
  let ?bp = "read_register16 s RegisterEBP"
  let ?si = "read_register16 s RegisterESI"
  let ?di = "read_register16 s RegisterEDI"
  define s1 where "s1 = pushed16 ?ax s"
  define s2 where "s2 = pushed16 ?cx s1"
  define s3 where "s3 = pushed16 ?dx s2"
  define s4 where "s4 = pushed16 ?bx s3"
  define s5 where "s5 = pushed16 0x1000 s4"
  define s6 where "s6 = pushed16 ?bp s5"
  define s7 where "s7 = pushed16 ?si s6"
  define s8 where "s8 = pushed16 ?di s7"
  note defs = s1_def s2_def s3_def s4_def s5_def s6_def s7_def s8_def
  have r: "PUSHA s = Inr ((), s8)"
    unfolding defs using PUSHA_unfolded [OF pe] sp by simp
  have f1: "get_pg s1 = get_pg s" "s16 s1 = s16 s" "a20_mask s1 = a20_mask s"
    "m_descriptor s1 = m_descriptor s" "m_memory_size s1 = m_memory_size s"
    unfolding s1_def by (simp_all add: pushed16_frame)
  have f2: "get_pg s2 = get_pg s" "s16 s2 = s16 s" "a20_mask s2 = a20_mask s"
    "m_descriptor s2 = m_descriptor s" "m_memory_size s2 = m_memory_size s"
    unfolding s2_def by (simp_all add: pushed16_frame f1)
  have f3: "get_pg s3 = get_pg s" "s16 s3 = s16 s" "a20_mask s3 = a20_mask s"
    "m_descriptor s3 = m_descriptor s" "m_memory_size s3 = m_memory_size s"
    unfolding s3_def by (simp_all add: pushed16_frame f2)
  have f4: "get_pg s4 = get_pg s" "s16 s4 = s16 s" "a20_mask s4 = a20_mask s"
    "m_descriptor s4 = m_descriptor s" "m_memory_size s4 = m_memory_size s"
    unfolding s4_def by (simp_all add: pushed16_frame f3)
  have f5: "get_pg s5 = get_pg s" "s16 s5 = s16 s" "a20_mask s5 = a20_mask s"
    "m_descriptor s5 = m_descriptor s" "m_memory_size s5 = m_memory_size s"
    unfolding s5_def by (simp_all add: pushed16_frame f4)
  have f6: "get_pg s6 = get_pg s" "s16 s6 = s16 s" "a20_mask s6 = a20_mask s"
    "m_descriptor s6 = m_descriptor s" "m_memory_size s6 = m_memory_size s"
    unfolding s6_def by (simp_all add: pushed16_frame f5)
  have f7: "get_pg s7 = get_pg s" "s16 s7 = s16 s" "a20_mask s7 = a20_mask s"
    "m_descriptor s7 = m_descriptor s" "m_memory_size s7 = m_memory_size s"
    unfolding s7_def by (simp_all add: pushed16_frame f6)
  have f8: "get_pg s8 = get_pg s" "get_pe s8 = get_pe s" "a20_mask s8 = a20_mask s"
    "m_descriptor s8 = m_descriptor s" "m_memory_size s8 = m_memory_size s"
    unfolding s8_def defs by (simp_all add: pushed16_frame)
  have p1: "get_sp s1 = 0x0FFE" unfolding s1_def using st sp by (simp add: pushed16_sp)
  have p2: "get_sp s2 = 0x0FFC" unfolding s2_def using st p1 by (simp add: pushed16_sp f1)
  have p3: "get_sp s3 = 0x0FFA" unfolding s3_def using st p2 by (simp add: pushed16_sp f2)
  have p4: "get_sp s4 = 0x0FF8" unfolding s4_def using st p3 by (simp add: pushed16_sp f3)
  have p5: "get_sp s5 = 0x0FF6" unfolding s5_def using st p4 by (simp add: pushed16_sp f4)
  have p6: "get_sp s6 = 0x0FF4" unfolding s6_def using st p5 by (simp add: pushed16_sp f5)
  have p7: "get_sp s7 = 0x0FF2" unfolding s7_def using st p6 by (simp add: pushed16_sp f6)
  have p8: "get_sp s8 = 0x0FF0" unfolding s8_def using st p7 by (simp add: pushed16_sp f7)
  have ph: "(?b + c) AND a20_mask s = ?b + c" and va: "?b + c < m_memory_size s"
    if "unat c < 0x1000" for c
    using stack_region [OF ram a20 that] by simp_all
  have w1: "read_physical_memory16 s1 (?b + 0xFFE) = ?ax"
    unfolding s1_def using pushed16_read(1) [of s ?ax] pg st ph [of "0xFFE"] va [of "0xFFE"]
    by (simp add: sp)
  have k1: "read_physical_memory16 s2 (?b + c) = read_physical_memory16 s1 (?b + c)"
    if "0xFFE \<le> unat c" "unat c < 0x1000" for c
    unfolding s2_def using pushed16_read(2) [of s1 c ?cx] pg st ph [of "0xFFC"] va [of "0xFFC"] that
    by (simp add: p1 f1)
  have w2: "read_physical_memory16 s2 (?b + 0xFFC) = ?cx"
    unfolding s2_def using pushed16_read(1) [of s1 ?cx] pg st ph [of "0xFFC"] va [of "0xFFC"]
    by (simp add: p1 f1)
  have k2: "read_physical_memory16 s3 (?b + c) = read_physical_memory16 s2 (?b + c)"
    if "0xFFC \<le> unat c" "unat c < 0x1000" for c
    unfolding s3_def using pushed16_read(2) [of s2 c ?dx] pg st ph [of "0xFFA"] va [of "0xFFA"] that
    by (simp add: p2 f2)
  have w3: "read_physical_memory16 s3 (?b + 0xFFA) = ?dx"
    unfolding s3_def using pushed16_read(1) [of s2 ?dx] pg st ph [of "0xFFA"] va [of "0xFFA"]
    by (simp add: p2 f2)
  have k3: "read_physical_memory16 s4 (?b + c) = read_physical_memory16 s3 (?b + c)"
    if "0xFFA \<le> unat c" "unat c < 0x1000" for c
    unfolding s4_def using pushed16_read(2) [of s3 c ?bx] pg st ph [of "0xFF8"] va [of "0xFF8"] that
    by (simp add: p3 f3)
  have w4: "read_physical_memory16 s4 (?b + 0xFF8) = ?bx"
    unfolding s4_def using pushed16_read(1) [of s3 ?bx] pg st ph [of "0xFF8"] va [of "0xFF8"]
    by (simp add: p3 f3)
  have k4: "read_physical_memory16 s5 (?b + c) = read_physical_memory16 s4 (?b + c)"
    if "0xFF8 \<le> unat c" "unat c < 0x1000" for c
    unfolding s5_def using pushed16_read(2) [of s4 c "0x1000"] pg st ph [of "0xFF6"] va [of "0xFF6"] that
    by (simp add: p4 f4)
  have w5: "read_physical_memory16 s5 (?b + 0xFF6) = 0x1000"
    unfolding s5_def using pushed16_read(1) [of s4 "0x1000"] pg st ph [of "0xFF6"] va [of "0xFF6"]
    by (simp add: p4 f4)
  have k5: "read_physical_memory16 s6 (?b + c) = read_physical_memory16 s5 (?b + c)"
    if "0xFF6 \<le> unat c" "unat c < 0x1000" for c
    unfolding s6_def using pushed16_read(2) [of s5 c ?bp] pg st ph [of "0xFF4"] va [of "0xFF4"] that
    by (simp add: p5 f5)
  have w6: "read_physical_memory16 s6 (?b + 0xFF4) = ?bp"
    unfolding s6_def using pushed16_read(1) [of s5 ?bp] pg st ph [of "0xFF4"] va [of "0xFF4"]
    by (simp add: p5 f5)
  have k6: "read_physical_memory16 s7 (?b + c) = read_physical_memory16 s6 (?b + c)"
    if "0xFF4 \<le> unat c" "unat c < 0x1000" for c
    unfolding s7_def using pushed16_read(2) [of s6 c ?si] pg st ph [of "0xFF2"] va [of "0xFF2"] that
    by (simp add: p6 f6)
  have w7: "read_physical_memory16 s7 (?b + 0xFF2) = ?si"
    unfolding s7_def using pushed16_read(1) [of s6 ?si] pg st ph [of "0xFF2"] va [of "0xFF2"]
    by (simp add: p6 f6)
  have k7: "read_physical_memory16 s8 (?b + c) = read_physical_memory16 s7 (?b + c)"
    if "0xFF2 \<le> unat c" "unat c < 0x1000" for c
    unfolding s8_def using pushed16_read(2) [of s7 c ?di] pg st ph [of "0xFF0"] va [of "0xFF0"] that
    by (simp add: p7 f7)
  have w8: "read_physical_memory16 s8 (?b + 0xFF0) = ?di"
    unfolding s8_def using pushed16_read(1) [of s7 ?di] pg st ph [of "0xFF0"] va [of "0xFF0"]
    by (simp add: p7 f7)
  have rd: "seg_read_memory16 SS off Read s8 = Inr (read_physical_memory16 s8 (?b + off), s8)"
    if "unat off < 0x1000" for off
    using seg_read_memory16_real_mode [of s8 off] pe pg ph [OF that]
    by (simp add: f8)
  have "seg_read_memory16 SS 0x0FFE Read s8 = Inr (?ax, s8)"
    by (simp add: rd k7 k6 k5 k4 k3 k2 k1 w1)
  moreover have "seg_read_memory16 SS 0x0FFC Read s8 = Inr (?cx, s8)"
    by (simp add: rd k7 k6 k5 k4 k3 k2 w2)
  moreover have "seg_read_memory16 SS 0x0FFA Read s8 = Inr (?dx, s8)"
    by (simp add: rd k7 k6 k5 k4 k3 w3)
  moreover have "seg_read_memory16 SS 0x0FF8 Read s8 = Inr (?bx, s8)"
    by (simp add: rd k7 k6 k5 k4 w4)
  moreover have "seg_read_memory16 SS 0x0FF6 Read s8 = Inr (0x1000, s8)"
    by (simp add: rd k7 k6 k5 w5)
  moreover have "seg_read_memory16 SS 0x0FF4 Read s8 = Inr (?bp, s8)"
    by (simp add: rd k7 k6 w6)
  moreover have "seg_read_memory16 SS 0x0FF2 Read s8 = Inr (?si, s8)"
    by (simp add: rd k7 w7)
  moreover have "seg_read_memory16 SS 0x0FF0 Read s8 = Inr (?di, s8)"
    by (simp add: rd w8)
  ultimately show ?thesis using r p8 by blast
qed


lemma pusha_machine_facts:
  "\<not> get_pe pusha_machine" "\<not> get_pg pusha_machine" "s16 pusha_machine"
  "get_sp pusha_machine = 0x1000"
  "unat (base (m_descriptor pusha_machine SS)) + 0x1000 \<le> unat (m_memory_size pusha_machine)"
  "m_a20_enabled pusha_machine
   \<or> unat (base (m_descriptor pusha_machine SS)) + 0x1000 \<le> 0x100000"
  "read_register16 pusha_machine RegisterEAX = 1"
  "read_register16 pusha_machine RegisterECX = 2"
  "read_register16 pusha_machine RegisterEDX = 3"
  "read_register16 pusha_machine RegisterEBX = 4"
  "read_register16 pusha_machine RegisterEBP = 6"
  "read_register16 pusha_machine RegisterESI = 7"
  "read_register16 pusha_machine RegisterEDI = 8"
  by (simp_all add: pusha_machine_def power_on_def get_pe_def get_pg_def s16_def get_sp_def
      read_register16_def flat_descriptor_def)

text \<open>
  C8 as stated fails: the word at SP-2 is AX (1), the first word pushed, and not DI (8).
\<close>

theorem pusha_first_word_is_ax_counterexample:
  "\<not> isl (PUSHA pusha_machine)
   \<and> seg_read_memory16 SS 0x0FFE Read (snd (projr (PUSHA pusha_machine)))
       = Inr (1, snd (projr (PUSHA pusha_machine)))
   \<and> read_register16 pusha_machine RegisterEDI = 8"
proof -
  from pusha_words [OF pusha_machine_facts(1-6)]
  obtain s' where "PUSHA pusha_machine = Inr ((), s')"
    and "seg_read_memory16 SS 0x0FFE Read s' = Inr (1, s')"
    by (auto simp: pusha_machine_facts)
  then show ?thesis by (simp add: pusha_machine_facts)
qed

text \<open>
  C8, amended. Executing 16-bit PUSHA in real mode with initial SP = 0x1000 (and, in the
  scenario, AX=1, CX=2, DX=3, BX=4, BP=6, SI=7, DI=8) leaves the stack words at SP-2 down
  to SP-16 equal to AX, CX, DX, BX, original SP, BP, SI, DI in that order, and SP ends at
  0x0FF0. The stack page is taken to lie in memory, below 1 MiB when A20 is masked.
\<close>

theorem pusha_stack_layout:
  assumes "\<not> get_pe s" and "\<not> get_pg s" and "s16 s"
    and "get_sp s = 0x1000"
    and "unat (base (m_descriptor s SS)) + 0x1000 \<le> unat (m_memory_size s)"
    and "m_a20_enabled s \<or> unat (base (m_descriptor s SS)) + 0x1000 \<le> 0x100000"
  shows "\<exists>s'. PUSHA s = Inr ((), s') \<and> get_sp s' = 0x0FF0
     \<and> seg_read_memory16 SS 0x0FFE Read s' = Inr (read_register16 s RegisterEAX, s')
     \<and> seg_read_memory16 SS 0x0FFC Read s' = Inr (read_register16 s RegisterECX, s')
     \<and> seg_read_memory16 SS 0x0FFA Read s' = Inr (read_register16 s RegisterEDX, s')
     \<and> seg_read_memory16 SS 0x0FF8 Read s' = Inr (read_register16 s RegisterEBX, s')
     \<and> seg_read_memory16 SS 0x0FF6 Read s' = Inr (0x1000, s')
     \<and> seg_read_memory16 SS 0x0FF4 Read s' = Inr (read_register16 s RegisterEBP, s')
     \<and> seg_read_memory16 SS 0x0FF2 Read s' = Inr (read_register16 s RegisterESI, s')
     \<and> seg_read_memory16 SS 0x0FF0 Read s' = Inr (read_register16 s RegisterEDI, s')"
  using assms by (rule pusha_words)

theorem pusha_stack_layout_witness:
  "\<not> get_pe pusha_machine \<and> \<not> get_pg pusha_machine \<and> s16 pusha_machine
   \<and> get_sp pusha_machine = 0x1000
   \<and> (\<exists>s'. PUSHA pusha_machine = Inr ((), s') \<and> get_sp s' = 0x0FF0
     \<and> seg_read_memory16 SS 0x0FFE Read s' = Inr (1, s')
     \<and> seg_read_memory16 SS 0x0FFC Read s' = Inr (2, s')
     \<and> seg_read_memory16 SS 0x0FFA Read s' = Inr (3, s')
     \<and> seg_read_memory16 SS 0x0FF8 Read s' = Inr (4, s')
     \<and> seg_read_memory16 SS 0x0FF6 Read s' = Inr (0x1000, s')
     \<and> seg_read_memory16 SS 0x0FF4 Read s' = Inr (6, s')
     \<and> seg_read_memory16 SS 0x0FF2 Read s' = Inr (7, s')
     \<and> seg_read_memory16 SS 0x0FF0 Read s' = Inr (8, s'))"
  using pusha_stack_layout [OF pusha_machine_facts(1-6)]
  by (simp add: pusha_machine_facts)

section \<open>Protected-mode far return\<close>






















section \<open>Far CALL through a call gate\<close>

lemma assert_no_exceptions_bind:
  "bind (assert_no_exceptions m) (\<lambda>x s. assert_no_exceptions (k x s))
   = assert_no_exceptions (bind m k)"
proof (cases m)
  case (Inl e)
  then show ?thesis
    by (cases e; cases "fst e") (auto simp: bind_def assert_no_exceptions_def)
next
  case (Inr r)
  then show ?thesis by (cases r) (simp add: bind_def assert_no_exceptions_def)
qed

lemma assert_no_exceptions_idem:
  "assert_no_exceptions (assert_no_exceptions m) = assert_no_exceptions m"
proof (cases m)
  case (Inl e)
  then show ?thesis by (cases e; cases "fst e") (auto simp: assert_no_exceptions_def)
next
  case (Inr r)
  then show ?thesis by (simp add: assert_no_exceptions_def)
qed

lemma bind_assoc: "bind (bind m f) g = bind m (\<lambda>x s. bind (f x s) g)"
  by (cases m) (auto simp: bind_def)

lemma bind_Inr: "bind (Inr (v, s)) f = f v s"
  by (simp add: bind_def)

lemma bind_unit: "bind m (\<lambda>x s. Inr ((), s)) = (m :: unit result)"
  by (cases m) (auto simp: bind_def)

lemma push_in_order_unfold:
  "push_in_order sz [] = (\<lambda>s. Inr ((), s))"
  "push_in_order sz (v # vs) =
     (\<lambda>s. bind (push_value_with_size v sz s) (\<lambda>_. push_in_order sz vs))"
  by (rule ext, simp)+

lemma four_pushes:
  "bind (assert_no_exceptions
           (bind (push_value_with_size a sz s) (\<lambda>_ s1. push_value_with_size b sz s1)))
     (\<lambda>_ s2. bind (assert_no_exceptions
           (bind (push_value_with_size c sz s2) (\<lambda>_ s3. push_value_with_size d sz s3)))
        (\<lambda>_ s4. Inr ((), s4)))
   = assert_no_exceptions (push_in_order sz [a, b, c, d] s)"
  by (simp add: push_in_order_unfold bind_unit assert_no_exceptions_bind bind_assoc)


text \<open>
  C3. A far CALL in protected mode through a present call gate that the caller may use,
  to a present code segment whose DPL is below the current CPL, loads CS:EIP from the
  gate, sets CPL to that DPL, loads SS with the selector and ESP with the pointer that
  the task state segment holds for that ring, and then pushes old SS, old ESP, old CS and
  old EIP, in that order and nothing else, each with the size of the gate (32 bits for a
  32-bit gate, 16 bits otherwise). A push that raises is a failed assertion.
\<close>

theorem call_gate_escalation_pushes:
  assumes pe: "get_pe s" and vm: "\<not> get_vm s"
    and g: "g = get_descriptor ext s selector"
    and gate: "is_call_gate g" "\<not> is_null g" "\<not> is_outside_table_limits g"
      "parameter_count g = 0" "get_cpl s \<le> dpl g" "ucast (selector AND 3) \<le> dpl g"
      "present g"
    and c: "c = get_descriptor ext s (gate_selector g)"
    and target: "target = (if is_32bit g \<and> is_32bit c then gate_offset g
                           else gate_offset g AND 0xffff)"
    and code: "is_code c" "\<not> is_null c" "\<not> is_outside_table_limits c" "present c"
      "target \<le> effectiveLimit c" "dpl c < get_cpl s"
    and cs: "set_cs ext (gate_selector g) s = Inr ((), s1)"
    and tss: "newSS = get_ring_ss ext (set_eip target s1) (dpl c)"
      "newESP = get_ring_esp ext (set_eip target s1) (dpl c)"
    and nd: "nd = get_descriptor ext (set_eip target s1) newSS"
    and stack: "\<not> is_null nd" "\<not> is_outside_table_limits nd" "dpl nd = dpl c"
      "is_data nd" "writable nd" "present nd"
    and ss: "set_ss ext newSS (set_cpl (dpl c) (set_eip target s1)) = Inr ((), s2)"
  shows "protected_mode_far_jump ext (selector, off) CALL None s =
           assert_no_exceptions
             (push_in_order (if is_32bit g then DWordSize else WordSize)
                [ucast (get_ss s), get_esp s, ucast (get_cs s), get_eip s]
                (set_esp newESP s2))"
proof -
  have k: "kind g = CallGate" "kind c = CodeSegment"
    using gate code by (simp_all add: is_call_gate_def is_code_def)
  have n: "\<not> dpl g < get_cpl s" "\<not> dpl g < ucast (selector AND 3)"
    "\<not> effectiveLimit c < target"
    using gate code by (simp_all add: not_less)
  have step1: "protected_mode_far_jump ext (selector, off) CALL None s =
               protected_mode_far_jump ext (gate_selector g, gate_offset g) CALL (Some g) s"
    apply (subst protected_mode_far_jump.simps)
    using pe vm gate k(1) n
    apply (simp add: g [symmetric] is_code_def is_call_gate_def is_task_gate_def is_tss_def
        is_gate_def Let_def del: protected_mode_far_jump.simps)
    done
  have off: "(if \<not> is_32bit c
              then (if \<not> is_32bit g then gate_offset g AND 0xffff else gate_offset g) AND 0xffff
              else (if \<not> is_32bit g then gate_offset g AND 0xffff else gate_offset g)) = target"
    unfolding target by (simp add: and.assoc)
  have step2: "protected_mode_far_jump ext (gate_selector g, gate_offset g) CALL (Some g) s =
      bind (set_cs ext (gate_selector g) s) (\<lambda>_ s1.
      bind (call_gate_stack_switch ext c (if is_32bit g then DWordSize else WordSize)
              (get_ss s) (get_esp s) (set_eip target s1)) (\<lambda>_ s2.
      bind (assert_no_exceptions
              (bind (push_value_with_size (ucast (get_cs s))
                       (if is_32bit g then DWordSize else WordSize) s2) (\<lambda>_ s3.
               push_value_with_size (get_eip s)
                       (if is_32bit g then DWordSize else WordSize) s3))) (\<lambda>_ s4.
      Inr ((), s4))))"
    apply (subst protected_mode_far_jump.simps)
    apply (cases "is_32bit g"; cases "is_32bit c")
    using pe code k(2) n
       apply (simp_all add: c [symmetric] is_code_def is_call_gate_def is_task_gate_def
        is_tss_def is_gate_def Let_def gate_push_size_def target and.assoc
        del: protected_mode_far_jump.simps)
    done
  have sw: "call_gate_stack_switch ext c (if is_32bit g then DWordSize else WordSize)
              (get_ss s) (get_esp s) (set_eip target s1) =
            assert_no_exceptions
              (bind (push_value_with_size (ucast (get_ss s))
                       (if is_32bit g then DWordSize else WordSize) (set_esp newESP s2)) (\<lambda>_ s3.
               push_value_with_size (get_esp s)
                       (if is_32bit g then DWordSize else WordSize) s3))"
    using stack ss
    by (simp add: call_gate_stack_switch_def Let_def tss [symmetric] nd [symmetric] bind_def)
  have step3: "protected_mode_far_jump ext (gate_selector g, gate_offset g) CALL (Some g) s =
      bind (call_gate_stack_switch ext c (if is_32bit g then DWordSize else WordSize)
              (get_ss s) (get_esp s) (set_eip target s1)) (\<lambda>_ s2.
      bind (assert_no_exceptions
              (bind (push_value_with_size (ucast (get_cs s))
                       (if is_32bit g then DWordSize else WordSize) s2) (\<lambda>_ s3.
               push_value_with_size (get_eip s)
                       (if is_32bit g then DWordSize else WordSize) s3))) (\<lambda>_ s4.
      Inr ((), s4)))"
    unfolding step2 cs by (simp only: bind_Inr)
  show ?thesis
    unfolding step1 step3 sw by (rule four_pushes)
qed


lemma ring3_caller_mode:
  "get_pe ring3_caller" "\<not> get_vm ring3_caller" "get_cpl ring3_caller = 3"
  "get_ss ring3_caller = 0x23" "get_esp ring3_caller = 0x70000"
  "get_cs ring3_caller = 0x1B" "get_eip ring3_caller = 0x1234"
  by (simp_all add: ring3_caller_def power_on_def get_pe_def get_vm_def get_cpl_def
      get_ss_def get_esp_def get_cs_def get_eip_def flat_segment_def)

lemma example_gdt_entries:
  "example_gdt 0x2B = (flat_segment CallGate 3)\<lparr>gate_selector := 0x08, gate_offset := 0x4000\<rparr>"
  "example_gdt 0x08 = flat_segment CodeSegment 0"
  "example_gdt 0x10 = flat_segment DataSegment 0"
  by (simp_all add: example_gdt_def)

lemma example_load_mode:
  "get_pe (example_segment_load r v s) = get_pe s"
  "get_vm (example_segment_load r v s) = get_vm s"
  "get_pe (set_cpl c s) = get_pe s" "get_vm (set_cpl c s) = get_vm s"
  "get_pe (set_eip e s) = get_pe s" "get_vm (set_eip e s) = get_vm s"
  by (simp_all add: example_segment_load_def set_cpl_def set_eip_def get_pe_def get_vm_def
      Let_def update_default_sizes_def update_stack_size_def)


lemma pushed32_frame:
  "get_pe (pushed32 v s) = get_pe s" "get_vm (pushed32 v s) = get_vm s"
  "get_pg (pushed32 v s) = get_pg s" "s32 (pushed32 v s) = s32 s"
  "m_descriptor (pushed32 v s) = m_descriptor s" "a20_mask (pushed32 v s) = a20_mask s"
  "m_memory_size (pushed32 v s) = m_memory_size s" "m_segment (pushed32 v s) = m_segment s"
  "m_eip (pushed32 v s) = m_eip s" "get_cpl (pushed32 v s) = get_cpl s"
  "get_esp (pushed32 v s) = get_esp s - 4"
  by (simp_all add: pushed32_def set_esp_def write_physical_memory32_def get_pe_def get_vm_def
      get_pg_def s32_def a20_mask_def get_cpl_def get_esp_def)

lemma pushed32_read:
  assumes "a AND 3 = 0"
    and "((base (m_descriptor s SS) + (get_esp s - 4)) AND a20_mask s) AND 3 = 0"
  shows "read_physical_memory32 (pushed32 v s) a =
           (if a = (base (m_descriptor s SS) + (get_esp s - 4)) AND a20_mask s
               \<and> a < m_memory_size s
            then v else read_physical_memory32 s a)"
proof -
  have "read_physical_memory32 (pushed32 v s) a =
        read_physical_memory32 (write_physical_memory32
          ((base (m_descriptor s SS) + (get_esp s - 4)) AND a20_mask s) v s) a"
    by (simp add: pushed32_def set_esp_def read_physical_memory32_def
        validate_physical_address_def)
  then show ?thesis using read32_write32 [OF assms, of v s] by auto
qed

lemma push32_flat:
  assumes "get_pe s" "\<not> get_vm s" "\<not> get_pg s" "s32 s"
    and "is_data (m_descriptor s SS)" "writable (m_descriptor s SS)"
      "\<not> is_null (m_descriptor s SS)"
    and "unat (get_esp s - 4) + 3 \<le> unat (effectiveLimit (m_descriptor s SS))"
  shows "push32 v s = Inr ((), pushed32 v s)"
  using assms
  by (simp add: push32_def seg_write_memory32_def validated_def validate_address_def
      write_memory32_def translate_address_def bind_def stack_push_address_def
      lower_stack_pointer_def s16_def s32_def cached_descriptor_def linear_address_def
      Let_def pushed32_def set_esp_def get_esp_def write_physical_memory32_def not_less)


lemma inner_ring_entry_facts:
  "get_pe inner_ring_entry" "\<not> get_vm inner_ring_entry" "\<not> get_pg inner_ring_entry"
  "s32 inner_ring_entry"
  "m_descriptor inner_ring_entry SS
     = (flat_segment DataSegment 0)\<lparr>m_rpl := 0, m_loaded_in_ss := True\<rparr>"
  "get_esp inner_ring_entry = 0x8000" "a20_mask inner_ring_entry = 0xFFEFFFFF"
  "m_memory_size inner_ring_entry = 0x800000"
  "get_ss inner_ring_entry = 0x10" "get_cs inner_ring_entry = 0x08"
  "get_eip inner_ring_entry = 0x4000" "get_cpl inner_ring_entry = 0"
  by (simp_all add: inner_ring_entry_def example_segment_load_def set_cpl_def set_eip_def
      set_esp_def ring3_caller_def power_on_def example_gdt_entries flat_segment_def
      get_pe_def get_vm_def get_pg_def s32_def get_esp_def a20_mask_def get_ss_def get_cs_def
      get_eip_def get_cpl_def Let_def update_default_sizes_def update_stack_size_def
      cached_descriptor_def)

theorem call_gate_escalation_pushes_witness:
  "get_pe ring3_caller \<and> \<not> get_vm ring3_caller \<and> get_cpl ring3_caller = 3
   \<and> (\<exists>s'. protected_mode_far_jump gdt_externals (0x2B, 0) CALL None ring3_caller
                = Inr ((), s')
          \<and> get_ss s' = 0x10 \<and> get_esp s' = 0x7FF0
          \<and> get_cs s' = 0x08 \<and> get_eip s' = 0x4000 \<and> get_cpl s' = 0
          \<and> read_physical_memory32 s' 0x7FFC = 0x23
          \<and> read_physical_memory32 s' 0x7FF8 = 0x70000
          \<and> read_physical_memory32 s' 0x7FF4 = 0x1B
          \<and> read_physical_memory32 s' 0x7FF0 = 0x1234)"
proof -
  define g where "g = (flat_segment CallGate 3)\<lparr>gate_selector := 0x08, gate_offset := 0x4000\<rparr>"
  define s1 where "s1 = example_segment_load CS 0x08 ring3_caller"
  define s2 where "s2 = example_segment_load SS 0x10 (set_cpl 0 (set_eip 0x4000 s1))"
  define t1 where "t1 = pushed32 0x23 inner_ring_entry"
  define t2 where "t2 = pushed32 0x70000 t1"
  define t3 where "t3 = pushed32 0x1B t2"
  define t4 where "t4 = pushed32 0x1234 t3"
  have e: "set_esp 0x8000 s2 = inner_ring_entry"
    by (simp add: inner_ring_entry_def s2_def s1_def)
  have d: "get_descriptor gdt_externals s sel = example_gdt sel"
    "get_ring_ss gdt_externals s r = 0x10" "get_ring_esp gdt_externals s r = 0x8000" for s sel r
    by (simp_all add: gdt_externals_def)
  have cs: "set_cs gdt_externals 0x08 ring3_caller = Inr ((), s1)"
    by (simp add: set_cs_def write_segment_register_def ring3_caller_mode gdt_externals_def
        s1_def)
  have ss: "set_ss gdt_externals 0x10 (set_cpl 0 (set_eip 0x4000 s1)) = Inr ((), s2)"
    by (simp add: set_ss_def write_segment_register_def ring3_caller_mode gdt_externals_def
        s1_def s2_def example_load_mode)
  define c where "c = flat_segment CodeSegment 0"
  define nd where "nd = flat_segment DataSegment 0"
  have h1: "get_pe ring3_caller" "\<not> get_vm ring3_caller"
    "g = get_descriptor gdt_externals ring3_caller 0x2B"
    by (simp_all add: ring3_caller_mode d example_gdt_entries g_def)
  have h2: "is_call_gate g" "\<not> is_null g" "\<not> is_outside_table_limits g"
    "parameter_count g = 0" "get_cpl ring3_caller \<le> dpl g"
    "ucast ((0x2B::u16) AND 3) \<le> dpl g" "present g"
    by (simp_all add: ring3_caller_mode g_def flat_segment_def is_call_gate_def)
  have h3: "c = get_descriptor gdt_externals ring3_caller (gate_selector g)"
    "(0x4000::u32) = (if is_32bit g \<and> is_32bit c then gate_offset g
                      else gate_offset g AND 0xffff)"
    by (simp_all add: d example_gdt_entries g_def c_def flat_segment_def)
  have h4: "is_code c" "\<not> is_null c" "\<not> is_outside_table_limits c" "present c"
    "0x4000 \<le> effectiveLimit c" "dpl c < get_cpl ring3_caller"
    by (simp_all add: ring3_caller_mode c_def flat_segment_def is_code_def)
  have h5: "set_cs gdt_externals (gate_selector g) ring3_caller = Inr ((), s1)"
    using cs by (simp add: g_def)
  have h6: "(0x10::u16) = get_ring_ss gdt_externals (set_eip 0x4000 s1) (dpl c)"
    "(0x8000::u32) = get_ring_esp gdt_externals (set_eip 0x4000 s1) (dpl c)"
    "nd = get_descriptor gdt_externals (set_eip 0x4000 s1) 0x10"
    by (simp_all add: d example_gdt_entries nd_def)
  have h7: "\<not> is_null nd" "\<not> is_outside_table_limits nd" "dpl nd = dpl c" "is_data nd"
    "writable nd" "present nd"
    by (simp_all add: nd_def c_def flat_segment_def is_data_def)
  have h8: "set_ss gdt_externals 0x10 (set_cpl (dpl c) (set_eip 0x4000 s1)) = Inr ((), s2)"
    using ss by (simp add: c_def flat_segment_def)
  have sz: "is_32bit g" by (simp add: g_def flat_segment_def)
  have call: "protected_mode_far_jump gdt_externals (0x2B, 0) CALL None ring3_caller =
      assert_no_exceptions
        (push_in_order DWordSize [0x23, 0x70000, 0x1B, 0x1234] inner_ring_entry)"
    unfolding call_gate_escalation_pushes [OF h1 h2 h3 h4 h5 h6 h7 h8, of 0]
    by (simp only: sz if_True ring3_caller_mode e) simp
  have f1: "get_pe t1" "\<not> get_vm t1" "\<not> get_pg t1" "s32 t1"
    "m_descriptor t1 SS = (flat_segment DataSegment 0)\<lparr>m_rpl := 0, m_loaded_in_ss := True\<rparr>"
    "get_esp t1 = 0x7FFC" "a20_mask t1 = 0xFFEFFFFF" "m_memory_size t1 = 0x800000"
    by (simp_all add: t1_def pushed32_frame inner_ring_entry_facts)
  have f2: "get_pe t2" "\<not> get_vm t2" "\<not> get_pg t2" "s32 t2"
    "m_descriptor t2 SS = (flat_segment DataSegment 0)\<lparr>m_rpl := 0, m_loaded_in_ss := True\<rparr>"
    "get_esp t2 = 0x7FF8" "a20_mask t2 = 0xFFEFFFFF" "m_memory_size t2 = 0x800000"
    by (simp_all add: t2_def pushed32_frame f1)
  have f3: "get_pe t3" "\<not> get_vm t3" "\<not> get_pg t3" "s32 t3"
    "m_descriptor t3 SS = (flat_segment DataSegment 0)\<lparr>m_rpl := 0, m_loaded_in_ss := True\<rparr>"
    "get_esp t3 = 0x7FF4" "a20_mask t3 = 0xFFEFFFFF" "m_memory_size t3 = 0x800000"
    by (simp_all add: t3_def pushed32_frame f2)
  have p1: "push32 0x23 inner_ring_entry = Inr ((), t1)"
    unfolding t1_def
    by (rule push32_flat)
       (simp_all add: inner_ring_entry_facts flat_segment_def is_data_def)
  have p2: "push32 0x70000 t1 = Inr ((), t2)"
    unfolding t2_def by (rule push32_flat) (simp_all add: f1 flat_segment_def is_data_def)
  have p3: "push32 0x1B t2 = Inr ((), t3)"
    unfolding t3_def by (rule push32_flat) (simp_all add: f2 flat_segment_def is_data_def)
  have p4: "push32 0x1234 t3 = Inr ((), t4)"
    unfolding t4_def by (rule push32_flat) (simp_all add: f3 flat_segment_def is_data_def)
  have r: "protected_mode_far_jump gdt_externals (0x2B, 0) CALL None ring3_caller = Inr ((), t4)"
    unfolding call
    by (simp add: push_value_with_size_def bind_Inr p1 p2 p3 p4 assert_no_exceptions_def)
  have regs: "get_ss t4 = 0x10" "get_esp t4 = 0x7FF0" "get_cs t4 = 0x08" "get_eip t4 = 0x4000"
    "get_cpl t4 = 0"
    using inner_ring_entry_facts
    by (simp_all add: t4_def t3_def t2_def t1_def pushed32_frame get_ss_def get_cs_def
        get_eip_def)
  have m1: "read_physical_memory32 t1 0x7FFC = 0x23"
    unfolding t1_def
    by (simp add: pushed32_read inner_ring_entry_facts flat_segment_def)
  have m2: "read_physical_memory32 t2 0x7FFC = 0x23" "read_physical_memory32 t2 0x7FF8 = 0x70000"
    unfolding t2_def by (simp_all add: pushed32_read f1 flat_segment_def m1)
  have m3: "read_physical_memory32 t3 0x7FFC = 0x23" "read_physical_memory32 t3 0x7FF8 = 0x70000"
    "read_physical_memory32 t3 0x7FF4 = 0x1B"
    unfolding t3_def by (simp_all add: pushed32_read f2 flat_segment_def m2)
  have m4: "read_physical_memory32 t4 0x7FFC = 0x23" "read_physical_memory32 t4 0x7FF8 = 0x70000"
    "read_physical_memory32 t4 0x7FF4 = 0x1B" "read_physical_memory32 t4 0x7FF0 = 0x1234"
    unfolding t4_def by (simp_all add: pushed32_read f3 flat_segment_def m3)
  from r regs m4 ring3_caller_mode show ?thesis by blast
qed

end
